theory Spec2Isabelle
  imports Main "HOL-Library.AList"
begin

section \<open>Errors\<close>

text \<open>
  A JavaScript \<^verbatim>\<open>Error\<close> with its message. The message is kept as the pieces that the
  source concatenates with \<^verbatim>\<open>+\<close>: a string, or a number that the runtime renders
  (\<^verbatim>\<open>"..." + points\<close>, \<^verbatim>\<open>status.toString()\<close>).
\<close>

datatype piece = Lit string | Num int

datatype error = Error "piece list"

section \<open>Recipient mapper (mapPointsToAmounts)\<close>

text \<open>
  \<^verbatim>\<open>parseEther("3000")\<close> is 3000 tokens in base units of 18 decimals. The argument is the
  whole number of tokens written in the source's string literal.
\<close>

definition parseEther :: "int \<Rightarrow> int" where
  "parseEther tokens = tokens * 10 ^ 18"

text \<open>
  The input object \<^verbatim>\<open>tokenRecipientsByPoints\<close> is given as the list of its entries
  \<^verbatim>\<open>(key, tokenRecipientsByPoints[key].points)\<close> in the order in which
  \<^verbatim>\<open>for (const key in ...)\<close> enumerates the keys. The function below is the body of that
  loop: the key is pushed first, then the \<^verbatim>\<open>switch\<close> pushes the amount or throws.
\<close>

fun mapPointsToAmounts_loop ::
  "(string \<times> int) list \<Rightarrow> string list \<Rightarrow> int list \<Rightarrow> error + (string list \<times> int list)" where
  "mapPointsToAmounts_loop [] tokenRecipients tokenAmounts = Inr (tokenRecipients, tokenAmounts)"
| "mapPointsToAmounts_loop ((key, points) # rest) tokenRecipients tokenAmounts =
     (if points = 3 then
        mapPointsToAmounts_loop rest (tokenRecipients @ [key]) (tokenAmounts @ [parseEther 3000])
      else if points = 4 then
        mapPointsToAmounts_loop rest (tokenRecipients @ [key]) (tokenAmounts @ [parseEther 4500])
      else if points = 5 then
        mapPointsToAmounts_loop rest (tokenRecipients @ [key]) (tokenAmounts @ [parseEther 6000])
      else if points = 6 then
        mapPointsToAmounts_loop rest (tokenRecipients @ [key]) (tokenAmounts @ [parseEther 9000])
      else if points = 7 then
        mapPointsToAmounts_loop rest (tokenRecipients @ [key]) (tokenAmounts @ [parseEther 10500])
      else if points = 8 \<or> points = 9 \<or> points = 10 \<or> points = 11
              \<or> points = 12 \<or> points = 13 \<or> points = 14 \<or> points = 15 then
        mapPointsToAmounts_loop rest (tokenRecipients @ [key]) (tokenAmounts @ [parseEther 12000])
      else
        Inl (Error [Lit ''Incorrect number of points for account '', Lit key, Lit '': '',
                    Num points]))"

text \<open>The result pair is the returned object \<^verbatim>\<open>{ tokenRecipients, tokenAmounts }\<close>.\<close>

definition mapPointsToAmounts :: "(string \<times> int) list \<Rightarrow> error + (string list \<times> int list)" where
  "mapPointsToAmounts tokenRecipientsByPoints =
     mapPointsToAmounts_loop tokenRecipientsByPoints [] []"

text \<open>
  The table of the specification, in whole tokens, written from the specification's words
  (3 to 3000, 4 to 4500, 5 to 6000, 6 to 9000, 7 to 10500, 8..15 to 12000); the mapper is
  compared with it below.
\<close>

definition spec_amount_table :: "(int \<times> int) list" where
  "spec_amount_table =
     [(3, 3000), (4, 4500), (5, 6000), (6, 9000), (7, 10500), (8, 12000), (9, 12000),
      (10, 12000), (11, 12000), (12, 12000), (13, 12000), (14, 12000), (15, 12000)]"

definition spec_amount :: "int \<Rightarrow> int option" where
  "spec_amount points = map_of spec_amount_table points"

definition valid_points :: "int \<Rightarrow> bool" where
  "valid_points points = (points \<in> {3, 4, 5, 6, 7, 8, 9, 10, 11, 12, 13, 14, 15})"


section \<open>The deployer's world\<close>

text \<open>
  The deployment script talks to three chains through signers and providers, keeps the
  addresses of deployed contracts in the module-level object \<^verbatim>\<open>deployedContracts\<close>, sleeps,
  and writes one file. A run is modelled as a function on a world that records these effects
  in order. Console output is left out: it is never read back.
\<close>

datatype chain = Eth | Arb | Nova

text \<open>
  Arguments of chain calls, as far as the script determines them. Values of the module
  \<^verbatim>\<open>governance.constants\<close> are kept by name.
\<close>

datatype arg =
    Str string
  | Big int
  | Strs "string list"
  | Bigs "int list"
  | Const string
  | ParseEtherConst string
  | AddressOf chain
  | Aliased string
  | CalldataLength string "arg list"
  | Array "arg list"
  | Struct "(string \<times> arg) list"

text \<open>
  \<^item> \<open>Deploy c factory args\<close>: \<^verbatim>\<open>new Factory(signer).deploy(args)\<close> on chain \<open>c\<close>;
  \<^item> \<open>AwaitDeployed c address\<close>: \<^verbatim>\<open>contract.deployed()\<close>;
  \<^item> \<open>Transact c address method args waited\<close>: a transaction sent to a contract;
    \<open>waited\<close> tells whether the script also awaits \<^verbatim>\<open>.wait()\<close> on it;
  \<^item> \<open>Read c target method args\<close>: a read through a provider or a static call;
  \<^item> \<open>WaitForStatus i\<close>: \<^verbatim>\<open>l1ToL2Msgs[i].waitForStatus()\<close>.
\<close>

datatype call =
    Deploy chain string "arg list"
  | AwaitDeployed chain string
  | Transact chain string string "arg list" bool
  | Read chain string string "arg list"
  | WaitForStatus nat

datatype event =
    Chain call
  | Sleep nat
  | WriteFileSync string string

type_synonym files = "string \<Rightarrow> string option"

record world =
  trace :: "event list"
  deployedContracts :: "(string \<times> string) list"
  files :: files

text \<open>
  What the outside answers. Each answer may depend on the call and on how many times the
  same call was made before in this run, so that any run against a deterministic outside is
  covered; \<open>Inl\<close> is a thrown exception. A receipt is read only for the arguments of its
  \<^verbatim>\<open>Deployed\<close> event, given by field name. \<open>recipients_file\<close> is what
  \<^verbatim>\<open>require("../files/recipients.json")\<close> yields, \<open>JSON_stringify\<close> the runtime's
  \<^verbatim>\<open>JSON.stringify\<close> on the address object, \<open>getDeployers_result\<close> the outcome of the
  imported \<^verbatim>\<open>getDeployers\<close>, and \<open>L2_NUM_OF_RECIPIENT_BATCHES_ALREADY_SET\<close> the constant
  of that name in \<^verbatim>\<open>governance.constants\<close>, a batch count.
\<close>

record env =
  address_result :: "call \<Rightarrow> nat \<Rightarrow> error + string"
  number_result :: "call \<Rightarrow> nat \<Rightarrow> error + int"
  receipt_result :: "call \<Rightarrow> nat \<Rightarrow> error + (string \<Rightarrow> string)"
  recipients_file :: "error + (string \<times> int) list"
  JSON_stringify :: "(string \<times> string) list \<Rightarrow> string"
  getDeployers_result :: "error + unit"
  L2_NUM_OF_RECIPIENT_BATCHES_ALREADY_SET :: nat

text \<open>
  A computation returns a value or throws, and changes the world; \<open>None\<close> means that it
  never returns.
\<close>

type_synonym 'a io = "world \<Rightarrow> ((error + 'a) \<times> world) option"

definition returnM :: "'a \<Rightarrow> 'a io" where
  "returnM x w = Some (Inr x, w)"

definition throwM :: "error \<Rightarrow> 'a io" where
  "throwM e w = Some (Inl e, w)"

definition liftE :: "error + 'a \<Rightarrow> 'a io" where
  "liftE r w = Some (r, w)"

definition bindM :: "'a io \<Rightarrow> ('a \<Rightarrow> 'b io) \<Rightarrow> 'b io" where
  "bindM m f w =
     (case m w of
        None \<Rightarrow> None
      | Some (Inl e, w') \<Rightarrow> Some (Inl e, w')
      | Some (Inr x, w') \<Rightarrow> f x w')"

definition thenM :: "'a io \<Rightarrow> 'b io \<Rightarrow> 'b io" where
  "thenM m k = bindM m (\<lambda>_. k)"

definition occurrences :: "event list \<Rightarrow> call \<Rightarrow> nat" where
  "occurrences tr c = count_list tr (Chain c)"

definition ask :: "(call \<Rightarrow> nat \<Rightarrow> error + 'a) \<Rightarrow> call \<Rightarrow> 'a io" where
  "ask answer c w = Some (answer c (occurrences (trace w) c), w\<lparr>trace := trace w @ [Chain c]\<rparr>)"

definition deploy :: "env \<Rightarrow> chain \<Rightarrow> string \<Rightarrow> arg list \<Rightarrow> string io" where
  "deploy env c factory args = ask (address_result env) (Deploy c factory args)"

definition deployed :: "env \<Rightarrow> chain \<Rightarrow> string \<Rightarrow> unit io" where
  "deployed env c address =
     bindM (ask (receipt_result env) (AwaitDeployed c address)) (\<lambda>_. returnM ())"

definition transact :: "env \<Rightarrow> chain \<Rightarrow> string \<Rightarrow> string \<Rightarrow> arg list \<Rightarrow> bool \<Rightarrow> (string \<Rightarrow> string) io" where
  "transact env c address method args waited =
     ask (receipt_result env) (Transact c address method args waited)"

definition read_address :: "env \<Rightarrow> chain \<Rightarrow> string \<Rightarrow> string \<Rightarrow> arg list \<Rightarrow> string io" where
  "read_address env c target method args = ask (address_result env) (Read c target method args)"

definition read_number :: "env \<Rightarrow> chain \<Rightarrow> string \<Rightarrow> string \<Rightarrow> arg list \<Rightarrow> int io" where
  "read_number env c target method args = ask (number_result env) (Read c target method args)"

definition getGasPrice :: "env \<Rightarrow> chain \<Rightarrow> int io" where
  "getGasPrice env c = read_number env c ''provider'' ''getGasPrice'' []"

definition waitForStatus :: "env \<Rightarrow> nat \<Rightarrow> int io" where
  "waitForStatus env i = ask (number_result env) (WaitForStatus i)"

definition sleep :: "nat \<Rightarrow> unit io" where
  "sleep ms w = Some (Inr (), w\<lparr>trace := trace w @ [Sleep ms]\<rparr>)"

text \<open>\<^verbatim>\<open>deployedContracts[key] = address\<close>: a new key goes last, an old key keeps its place.\<close>

definition store :: "string \<Rightarrow> string \<Rightarrow> unit io" where
  "store key address w =
     Some (Inr (), w\<lparr>deployedContracts := AList.update key address (deployedContracts w)\<rparr>)"

section \<open>Writing a file\<close>

text \<open>
  \<^verbatim>\<open>fs.writeFileSync(path, data)\<close> opens the file for writing, which empties it, and then
  writes the data. A process that dies after \<open>n\<close> characters have been written leaves the
  first \<open>n\<close> characters in the file; after all of them the call has returned.
\<close>

definition writeFileSync_interrupted :: "string \<Rightarrow> string \<Rightarrow> nat \<Rightarrow> files \<Rightarrow> files" where
  "writeFileSync_interrupted path data n fs = fs(path \<mapsto> take n data)"

definition writeFileSync :: "string \<Rightarrow> string \<Rightarrow> files \<Rightarrow> files" where
  "writeFileSync path data fs = writeFileSync_interrupted path data (length data) fs"


definition DEPLOYED_CONTRACTS_FILE_NAME :: string where
  "DEPLOYED_CONTRACTS_FILE_NAME = ''deployedContracts.json''"

definition writeAddresses :: "env \<Rightarrow> unit io" where
  "writeAddresses env w =
     (let data = JSON_stringify env (deployedContracts w) in
      Some (Inr (), w\<lparr>trace := trace w @ [WriteFileSync DEPLOYED_CONTRACTS_FILE_NAME data],
                       files := writeFileSync DEPLOYED_CONTRACTS_FILE_NAME data (files w)\<rparr>))"

section \<open>Deployment steps\<close>

text \<open>A contract object is represented by its address.\<close>

definition deployL1LogicContracts :: "env \<Rightarrow> string io" where
  "deployL1LogicContracts env =
     bindM (deploy env Eth ''UpgradeExecutor'' []) (\<lambda>l1UpgradeExecutorLogic.
     thenM (store ''l1UpgradeExecutorLogic'' l1UpgradeExecutorLogic)
       (returnM l1UpgradeExecutorLogic))"

definition deployL2LogicContracts ::
  "env \<Rightarrow> (string \<times> string \<times> string \<times> string \<times> string) io" where
  "deployL2LogicContracts env =
     bindM (deploy env Arb ''ArbitrumTimelock'' []) (\<lambda>timelockLogic.
     bindM (deploy env Arb ''L2ArbitrumGovernor'' []) (\<lambda>governorLogic.
     bindM (deploy env Arb ''FixedDelegateErc20Wallet'' []) (\<lambda>fixedDelegateLogic.
     bindM (deploy env Arb ''L2ArbitrumToken'' []) (\<lambda>l2TokenLogic.
     bindM (deploy env Arb ''UpgradeExecutor'' []) (\<lambda>upgradeExecutor.
     thenM (store ''l2TimelockLogic'' timelockLogic)
    (thenM (store ''l2GovernorLogic'' governorLogic)
    (thenM (store ''l2FixedDelegateLogic'' fixedDelegateLogic)
    (thenM (store ''l2TokenLogic'' l2TokenLogic)
    (thenM (store ''l2UpgradeExecutorLogic'' upgradeExecutor)
       (returnM (timelockLogic, governorLogic, fixedDelegateLogic, l2TokenLogic,
                 upgradeExecutor)))))))))))"

definition deployL1GovernanceFactory :: "env \<Rightarrow> string io" where
  "deployL1GovernanceFactory env =
     bindM (deploy env Eth ''L1GovernanceFactory'' []) (\<lambda>l1GovernanceFactory.
     thenM (deployed env Eth l1GovernanceFactory)
    (thenM (store ''l1GovernanceFactory'' l1GovernanceFactory)
       (returnM l1GovernanceFactory)))"

text \<open>Returns \<^verbatim>\<open>{ l1Token, l1TokenProxy }\<close>: both are the proxy's address.\<close>

definition deployAndInitL1Token :: "env \<Rightarrow> (string \<times> string) io" where
  "deployAndInitL1Token env =
     bindM (deploy env Eth ''L1ArbitrumToken'' []) (\<lambda>l1TokenLogic.
     bindM (deploy env Eth ''TransparentUpgradeableProxy''
              [Str l1TokenLogic, AddressOf Eth, Str ''0x'',
               Struct [(''gasLimit'', Big 3000000)]]) (\<lambda>l1TokenProxy.
     thenM (deployed env Eth l1TokenProxy)
    (thenM (store ''l1TokenLogic'' l1TokenLogic)
    (thenM (store ''l1TokenProxy'' l1TokenProxy)
       (returnM (l1TokenProxy, l1TokenProxy))))))"

definition deployL2GovernanceFactory ::
  "env \<Rightarrow> string \<Rightarrow> string \<Rightarrow> string \<Rightarrow> string \<Rightarrow> string \<Rightarrow> string io" where
  "deployL2GovernanceFactory env timelockLogic governorLogic fixedDelegateLogic l2TokenLogic
       upgradeExecutor =
     bindM (deploy env Arb ''L2GovernanceFactory''
              [Str timelockLogic, Str governorLogic, Str timelockLogic, Str fixedDelegateLogic,
               Str governorLogic, Str l2TokenLogic, Str upgradeExecutor]) (\<lambda>l2GovernanceFactory.
     thenM (store ''l2GovernanceFactory'' l2GovernanceFactory)
       (returnM l2GovernanceFactory))"

definition deployNovaUpgradeExecutor :: "env \<Rightarrow> (string \<times> string) io" where
  "deployNovaUpgradeExecutor env =
     bindM (deploy env Nova ''ProxyAdmin'' []) (\<lambda>novaProxyAdmin.
     thenM (deployed env Nova novaProxyAdmin)
    (bindM (deploy env Nova ''UpgradeExecutor'' []) (\<lambda>novaUpgradeExecutorLogic.
     bindM (deploy env Nova ''TransparentUpgradeableProxy''
              [Str novaUpgradeExecutorLogic, Str novaProxyAdmin, Str ''0x''])
       (\<lambda>novaUpgradeExecutorProxy.
     thenM (deployed env Nova novaUpgradeExecutorProxy)
    (thenM (store ''novaProxyAdmin'' novaProxyAdmin)
    (thenM (store ''novaUpgradeExecutorLogic'' novaUpgradeExecutorLogic)
    (thenM (store ''novaUpgradeExecutorProxy'' novaUpgradeExecutorProxy)
       (returnM (novaProxyAdmin, novaUpgradeExecutorProxy)))))))))"

definition deployTokenToNova :: "env \<Rightarrow> string \<Rightarrow> string \<Rightarrow> string io" where
  "deployTokenToNova env proxyAdmin l1Token =
     bindM (deploy env Nova ''L2CustomGatewayToken'' []) (\<lambda>novaTokenLogic.
     bindM (deploy env Nova ''TransparentUpgradeableProxy''
              [Str novaTokenLogic, Str proxyAdmin, Str ''0x'']) (\<lambda>novaTokenProxy.
     thenM (deployed env Nova novaTokenProxy)
    (thenM (transact env Nova novaTokenProxy ''initialize''
              [Const ''NOVA_TOKEN_NAME'', Const ''NOVA_TOKEN_SYMBOL'',
               Const ''NOVA_TOKEN_DECIMALS'', Const ''NOVA_TOKEN_GATEWAY'', Str l1Token] False)
    (thenM (store ''novaTokenLogic'' novaTokenLogic)
    (thenM (store ''novaTokenProxy'' novaTokenProxy)
       (returnM novaTokenProxy))))))"

definition initL2Governance :: "env \<Rightarrow> string \<Rightarrow> string \<Rightarrow> (string \<Rightarrow> string) io" where
  "initL2Governance env l2GovernanceFactory l1TokenAddress =
     bindM (transact env Arb l2GovernanceFactory ''deployStep1''
              [Struct
                 [(''_l2MinTimelockDelay'', Const ''L2_TIMELOCK_DELAY''),
                  (''_l2TokenInitialSupply'', ParseEtherConst ''L2_TOKEN_INITIAL_SUPPLY''),
                  (''_upgradeProposer'', Const ''L2_7_OF_12_SECURITY_COUNCIL''),
                  (''_coreQuorumThreshold'', Const ''L2_CORE_QUORUM_TRESHOLD''),
                  (''_l1Token'', Str l1TokenAddress),
                  (''_treasuryQuorumThreshold'', Const ''L2_TREASURY_QUORUM_TRESHOLD''),
                  (''_proposalThreshold'', Const ''L2_PROPOSAL_TRESHOLD''),
                  (''_votingDelay'', Const ''L2_VOTING_DELAY''),
                  (''_votingPeriod'', Const ''L2_VOTING_PERIOD''),
                  (''_minPeriodAfterQuorum'', Const ''L2_MIN_PERIOD_AFTER_QUORUM''),
                  (''_l2InitialSupplyRecipient'', AddressOf Arb),
                  (''_l2EmergencySecurityCouncil'', Const ''L2_9_OF_12_SECURITY_COUNCIL'')]]
              True) (\<lambda>l2DeployResult.
     thenM (store ''l2CoreGoverner'' (l2DeployResult ''coreGoverner''))
    (thenM (store ''l2CoreTimelock'' (l2DeployResult ''coreTimelock''))
    (thenM (store ''l2Executor'' (l2DeployResult ''executor''))
    (thenM (store ''l2ProxyAdmin'' (l2DeployResult ''proxyAdmin''))
    (thenM (store ''l2Token'' (l2DeployResult ''token''))
    (thenM (store ''l2TreasuryGoverner'' (l2DeployResult ''treasuryGoverner''))
    (thenM (store ''l2ArbTreasury'' (l2DeployResult ''arbTreasury''))
       (returnM l2DeployResult))))))))"

definition initL1Governance ::
  "env \<Rightarrow> string \<Rightarrow> string \<Rightarrow> (string \<Rightarrow> string) \<Rightarrow> (string \<Rightarrow> string) io" where
  "initL1Governance env l1GovernanceFactory l1UpgradeExecutorLogic l2DeployResult =
     bindM (transact env Eth l1GovernanceFactory ''deployStep2''
              [Str l1UpgradeExecutorLogic, Const ''L1_TIMELOCK_DELAY'', Const ''L1_ARB_INBOX'',
               Str (l2DeployResult ''coreTimelock''), Const ''L1_9_OF_12_SECURITY_COUNCIL'']
              True) (\<lambda>l1DeployResult.
     thenM (store ''l1Executor'' (l1DeployResult ''executor''))
    (thenM (store ''l1ProxyAdmin'' (l1DeployResult ''proxyAdmin''))
    (thenM (store ''l1Timelock'' (l1DeployResult ''timelock''))
       (returnM l1DeployResult))))"

definition setExecutorRoles ::
  "env \<Rightarrow> (string \<Rightarrow> string) \<Rightarrow> string \<Rightarrow> string \<Rightarrow> string \<Rightarrow> unit io" where
  "setExecutorRoles env l1DeployResult l2GovernanceFactory novaUpgradeExecutorProxy
       novaProxyAdmin =
     (let l1TimelockAliased = Aliased (l1DeployResult ''timelock'') in
      thenM (transact env Arb l2GovernanceFactory ''deployStep3'' [l1TimelockAliased] False)
     (thenM (transact env Nova novaUpgradeExecutorProxy ''initialize''
               [Str novaUpgradeExecutorProxy,
                Array [l1TimelockAliased, Const ''NOVA_9_OF_12_SECURITY_COUNCIL'']] False)
     (thenM (transact env Nova novaProxyAdmin ''transferOwnership''
               [Str novaUpgradeExecutorProxy] False)
        (returnM ()))))"


section \<open>L1 token post-deployment tasks\<close>

text \<open>
  The numeric value of \<^verbatim>\<open>L1ToL2MessageStatus.REDEEMED\<close> in the Arbitrum SDK. Nothing below
  depends on which number it is.
\<close>

definition REDEEMED :: int where
  "REDEEMED = 4"

text \<open>The two checks after both \<^verbatim>\<open>waitForStatus()\<close> calls have returned.\<close>

definition checkRedeemed :: "int \<Rightarrow> int \<Rightarrow> error + unit" where
  "checkRedeemed setTokenTx_status setGatewaysTX_status =
     (if setTokenTx_status \<noteq> REDEEMED then
        Inl (Error [Lit ''Register token L1 to L2 message not redeemed. Status: '',
                    Num setTokenTx_status])
      else if setGatewaysTX_status \<noteq> REDEEMED then
        Inl (Error [Lit ''Set gateway L1 to L2 message not redeemed. Status: '',
                    Num setGatewaysTX_status])
      else Inr ())"

text \<open>
  The end of \<^verbatim>\<open>postDeploymentL1TokenTasks\<close>, after the receipt of the registration
  transaction has arrived: fetch the two messages, wait for the status of each, then check.
\<close>

definition waitForL2TXs :: "env \<Rightarrow> unit io" where
  "waitForL2TXs env =
     thenM (ask (receipt_result env)
              (Read Nova ''l1RegistrationTxReceipt'' ''getL1ToL2Messages'' []))
    (bindM (waitForStatus env 0) (\<lambda>setTokenTx_status.
     bindM (waitForStatus env 1) (\<lambda>setGatewaysTX_status.
       liftE (checkRedeemed setTokenTx_status setGatewaysTX_status))))"

definition postDeploymentL1TokenTasks :: "env \<Rightarrow> string \<Rightarrow> string \<Rightarrow> string \<Rightarrow> unit io" where
  "postDeploymentL1TokenTasks env l1TokenProxy l1ProxyAdminAddress novaTokenAddress =
     thenM (transact env Eth l1TokenProxy ''changeAdmin'' [Str l1ProxyAdminAddress] True)
    (let l1Token = l1TokenProxy in
     thenM (transact env Eth l1Token ''initialize''
              [Const ''L1_ARB_GATEWAY'', Const ''L1_NOVA_ROUTER'', Const ''L1_NOVA_GATEWAY'']
              True)
    (let maxGas = 1000000 in
     bindM (getGasPrice env Nova) (\<lambda>price.
     let novaGasPrice = price * 2 in
     bindM (read_address env Eth l1Token ''novaGateway'' []) (\<lambda>novaGateway.
     bindM (read_address env Eth novaGateway ''inbox'' []) (\<lambda>novaInbox.
     bindM (read_number env Eth novaInbox ''calculateRetryableSubmissionFee''
              [CalldataLength ''registerTokenFromL1'' [Strs [l1Token], Strs [novaTokenAddress]],
               Big 0]) (\<lambda>fee1.
     let novaGatewaySubmissionFee = fee1 * 2;
         valueForNovaGateway = novaGatewaySubmissionFee + maxGas * novaGasPrice in
     bindM (read_number env Eth novaInbox ''calculateRetryableSubmissionFee''
              [CalldataLength ''setGateway'' [Strs [l1Token], Strs [novaGateway]],
               Big 0]) (\<lambda>fee2.
     let novaRouterSubmissionFee = fee2 * 2;
         valueForNovaRouter = novaRouterSubmissionFee + maxGas * novaGasPrice;
         extra = 1000 in
     thenM (transact env Eth l1Token ''registerTokenOnL2''
              [Struct
                 [(''l2TokenAddress'', Str novaTokenAddress),
                  (''maxSubmissionCostForCustomGateway'', Big novaGatewaySubmissionFee),
                  (''maxSubmissionCostForRouter'', Big novaRouterSubmissionFee),
                  (''maxGasForCustomGateway'', Big maxGas),
                  (''maxGasForRouter'', Big maxGas),
                  (''gasPriceBid'', Big novaGasPrice),
                  (''valueForGateway'', Big valueForNovaGateway),
                  (''valueForRouter'', Big valueForNovaRouter),
                  (''creditBackAddress'', AddressOf Eth)],
               Struct
                 [(''value'', Big (valueForNovaGateway + valueForNovaRouter + extra)),
                  (''gasLimit'', Big 3000000)]]
              True)
       (waitForL2TXs env))))))))"

section \<open>L2 token post-deployment tasks\<close>

definition postDeploymentL2TokenTasks :: "env \<Rightarrow> (string \<Rightarrow> string) \<Rightarrow> unit io" where
  "postDeploymentL2TokenTasks env l2DeployResult =
     (let l2Token = l2DeployResult ''token'' in
      thenM (transact env Arb l2Token ''transferOwnership''
               [Str (l2DeployResult ''executor'')] False)
     (thenM (transact env Arb l2Token ''transfer''
               [Str (l2DeployResult ''arbTreasury''),
                ParseEtherConst ''L2_NUM_OF_TOKENS_FOR_TREASURY''] False)
        (returnM ())))"

section \<open>Setting the claim recipients in batches\<close>

definition BATCH_SIZE :: nat where
  "BATCH_SIZE = 100"

text \<open>0.12 gwei and 0.1 gwei, in wei.\<close>

definition GAS_PRICE_UNACCEPTABLE_LIMIT :: int where
  "GAS_PRICE_UNACCEPTABLE_LIMIT = 120000000"

definition BASE_GAS_PRICE :: int where
  "BASE_GAS_PRICE = 100000000"

text \<open>
  \<^verbatim>\<open>xs.slice(a, b)\<close> and \<^verbatim>\<open>xs.slice(a)\<close> for indices that are not negative: both ends are
  cut off at the length of the list.
\<close>

definition slice :: "'a list \<Rightarrow> nat \<Rightarrow> nat \<Rightarrow> 'a list" where
  "slice xs a b = take (b - a) (drop a xs)"

definition slice_from :: "'a list \<Rightarrow> nat \<Rightarrow> 'a list" where
  "slice_from xs a = drop a xs"

text \<open>
  The \<^verbatim>\<open>while (true)\<close> loop: sleep 30 seconds, sample the gas price again, leave the loop
  when the sample equals the base gas price. It may never return.
\<close>

partial_function (option) waitForBaseGasPrice ::
  "env \<Rightarrow> world \<Rightarrow> ((error + unit) \<times> world) option" where
  "waitForBaseGasPrice env w =
     (case thenM (sleep 30000) (getGasPrice env Arb) w of
        None \<Rightarrow> None
      | Some (Inl e, w') \<Rightarrow> Some (Inl e, w')
      | Some (Inr gasPriceBestGuess, w') \<Rightarrow>
          if gasPriceBestGuess = BASE_GAS_PRICE then Some (Inr (), w')
          else waitForBaseGasPrice env w')"

text \<open>The gas price check at the head of each round of the batch loop.\<close>

definition gasPriceGuard :: "env \<Rightarrow> unit io" where
  "gasPriceGuard env =
     bindM (getGasPrice env Arb) (\<lambda>gasPriceBestGuess.
       if gasPriceBestGuess > GAS_PRICE_UNACCEPTABLE_LIMIT then waitForBaseGasPrice env
       else returnM ())"

definition setRecipients :: "env \<Rightarrow> string \<Rightarrow> string list \<Rightarrow> int list \<Rightarrow> unit io" where
  "setRecipients env tokenDistributor recipientsBatch amountsBatch =
     thenM (transact env Arb tokenDistributor ''setRecipients''
              [Strs recipientsBatch, Bigs amountsBatch,
               Struct [(''gasLimit'', Big 30000000)]] True)
       (returnM ())"

text \<open>The \<^verbatim>\<open>for\<close> loop from batch index \<open>i\<close> on; \<^verbatim>\<open>break\<close> returns.\<close>

function setClaimRecipients_loop ::
  "env \<Rightarrow> string \<Rightarrow> string list \<Rightarrow> int list \<Rightarrow> nat \<Rightarrow> nat \<Rightarrow> unit io" where
  "setClaimRecipients_loop env tokenDistributor tokenRecipients tokenAmounts numOfBatches i =
     (if i \<le> numOfBatches then
        thenM (gasPriceGuard env)
       (thenM (sleep 1000)
         (if i < numOfBatches then
            thenM (setRecipients env tokenDistributor
                     (slice tokenRecipients (i * BATCH_SIZE) ((i + 1) * BATCH_SIZE))
                     (slice tokenAmounts (i * BATCH_SIZE) ((i + 1) * BATCH_SIZE)))
              (setClaimRecipients_loop env tokenDistributor tokenRecipients tokenAmounts
                 numOfBatches (i + 1))
          else if length tokenRecipients = numOfBatches * BATCH_SIZE then
            returnM ()
          else
            thenM (setRecipients env tokenDistributor
                     (slice_from tokenRecipients (i * BATCH_SIZE))
                     (slice_from tokenAmounts (i * BATCH_SIZE)))
              (setClaimRecipients_loop env tokenDistributor tokenRecipients tokenAmounts
                 numOfBatches (i + 1))))
      else returnM ())"
  by pat_completeness auto
termination
  by (relation "measure (\<lambda>(env, tokenDistributor, tokenRecipients, tokenAmounts, numOfBatches, i).
        Suc numOfBatches - i)") auto

declare setClaimRecipients_loop.simps [simp del]

definition setClaimRecipients :: "env \<Rightarrow> string \<Rightarrow> unit io" where
  "setClaimRecipients env tokenDistributor =
     bindM (liftE (recipients_file env)) (\<lambda>tokenRecipientsByPoints.
     bindM (liftE (mapPointsToAmounts tokenRecipientsByPoints)) (\<lambda>(tokenRecipients, tokenAmounts).
     let numOfBatches = length tokenRecipients div BATCH_SIZE in
     setClaimRecipients_loop env tokenDistributor tokenRecipients tokenAmounts numOfBatches
       (L2_NUM_OF_RECIPIENT_BATCHES_ALREADY_SET env)))"

section \<open>Token distributor\<close>

definition deployAndInitTokenDistributor :: "env \<Rightarrow> (string \<Rightarrow> string) \<Rightarrow> unit io" where
  "deployAndInitTokenDistributor env l2DeployResult =
     bindM (deploy env Arb ''TokenDistributor''
              [Str (l2DeployResult ''token''), Const ''L2_SWEEP_RECECIVER'', AddressOf Arb,
               Const ''L2_CLAIM_PERIOD_START'', Const ''L2_CLAIM_PERIOD_END''])
       (\<lambda>tokenDistributor.
     thenM (deployed env Arb tokenDistributor)
    (thenM (store ''l2TokenDistributor'' tokenDistributor)
    (thenM (transact env Arb (l2DeployResult ''token'') ''transfer''
              [Str tokenDistributor, ParseEtherConst ''L2_NUM_OF_TOKENS_FOR_CLAIMING''] True)
    (thenM (setClaimRecipients env tokenDistributor)
    (thenM (transact env Arb tokenDistributor ''transferOwnership''
              [Str (l2DeployResult ''executor'')] True)
       (returnM ()))))))"

section \<open>The deployment sequence\<close>

definition deployGovernance :: "env \<Rightarrow> unit io" where
  "deployGovernance env =
     thenM (liftE (getDeployers_result env))
    (bindM (deployL1LogicContracts env) (\<lambda>l1UpgradeExecutorLogic.
     bindM (deployL2LogicContracts env)
       (\<lambda>(timelockLogic, governorLogic, fixedDelegateLogic, l2TokenLogic, upgradeExecutor).
     bindM (deployL1GovernanceFactory env) (\<lambda>l1GovernanceFactory.
     bindM (deployAndInitL1Token env) (\<lambda>(l1Token, l1TokenProxy).
     bindM (deployL2GovernanceFactory env timelockLogic governorLogic fixedDelegateLogic
              l2TokenLogic upgradeExecutor) (\<lambda>l2GovernanceFactory.
     bindM (deployNovaUpgradeExecutor env) (\<lambda>(novaProxyAdmin, novaUpgradeExecutorProxy).
     bindM (deployTokenToNova env novaProxyAdmin l1Token) (\<lambda>novaToken.
     bindM (initL2Governance env l2GovernanceFactory l1Token) (\<lambda>l2DeployResult.
     bindM (initL1Governance env l1GovernanceFactory l1UpgradeExecutorLogic l2DeployResult)
       (\<lambda>l1DeployResult.
     thenM (setExecutorRoles env l1DeployResult l2GovernanceFactory novaUpgradeExecutorProxy
              novaProxyAdmin)
    (thenM (postDeploymentL1TokenTasks env l1TokenProxy (l1DeployResult ''proxyAdmin'')
              novaToken)
    (thenM (postDeploymentL2TokenTasks env l2DeployResult)
    (thenM (deployAndInitTokenDistributor env l2DeployResult)
       (writeAddresses env))))))))))))))"


section \<open>Provider setup (providerSetup.ts)\<close>

text \<open>
  \<^verbatim>\<open>envVars\<close>: each field is the value of an environment variable, \<open>None\<close> when the
  variable is not set (\<^verbatim>\<open>undefined\<close>). The field read from
  \<^verbatim>\<open>DEPLOY_TO_LOCAL_ENVIRONMENT\<close> is called \<open>isLocalDeploymentVar\<close> here, to keep the name
  \<open>isLocalDeployment\<close> for the function.
\<close>

record envVars =
  isLocalDeploymentVar :: "string option"
  ethRpc :: "string option"
  arbRpc :: "string option"
  novaRpc :: "string option"
  ethDeployerKey :: "string option"
  arbDeployerKey :: "string option"
  novaDeployerKey :: "string option"
  deployerConfigLocation :: "string option"
  vestedRecipientsLocation :: "string option"
  daoRecipientsLocation :: "string option"
  claimRecipientsLocation :: "string option"
  deployedContractsLocation :: "string option"
  arbTransferAssetsTXsLocation :: "string option"
  novaTransferAssetsTXsLocation :: "string option"

datatype signer = WalletSigner string | ProviderSigner

type_synonym deployerConfig = "(string \<times> string) list"

type_synonym recipients = "string \<Rightarrow> int option option"

text \<open>
  What the machine and the imported modules answer: whether a file exists, the parsed
  claim-recipients file, \<^verbatim>\<open>loadRecipients\<close> of \<^verbatim>\<open>testUtils\<close>,
  \<^verbatim>\<open>getProvidersAndSetupNetworks\<close> of \<^verbatim>\<open>testSetup\<close>, the chain ID that the provider of a
  chain reports, the parsed deployer configuration, \<^verbatim>\<open>getL2Network\<close>, and the
  \<^verbatim>\<open>Wallet\<close> constructor. \<open>Inl\<close> is a thrown exception. Locations are given as they
  stand in the environment variable.
\<close>

record host =
  existsSync :: "string \<Rightarrow> bool"
  readClaimRecipients :: "string \<Rightarrow> error + (string \<times> int) list"
  loadRecipients :: "string \<Rightarrow> error + recipients"
  getProvidersAndSetupNetworks :: "string option \<Rightarrow> string option \<Rightarrow> string \<Rightarrow> error + unit"
  chainId :: "chain \<Rightarrow> error + int"
  readDeployerConfig :: "string \<Rightarrow> error + deployerConfig"
  getL2Network :: "chain \<Rightarrow> error + unit"
  newWallet :: "string \<Rightarrow> error + unit"

definition bindE :: "error + 'a \<Rightarrow> ('a \<Rightarrow> error + 'b) \<Rightarrow> error + 'b" where
  "bindE r f = (case r of Inl e \<Rightarrow> Inl e | Inr x \<Rightarrow> f x)"

definition ETH_CHAIN_ID :: int where
  "ETH_CHAIN_ID = 1"

definition ARBITRUM_ONE_CHAIN_ID :: int where
  "ARBITRUM_ONE_CHAIN_ID = 42161"

definition ARBITRUM_NOVA_CHAIN_ID :: int where
  "ARBITRUM_NOVA_CHAIN_ID = 42170"

definition missing :: "string \<Rightarrow> error" where
  "missing name = Error [Lit ''Missing '', Lit name, Lit '' in env vars'']"

definition missing_file :: "string \<Rightarrow> error" where
  "missing_file location = Error [Lit ''Missing file at '', Lit location]"

text \<open>
  \<^verbatim>\<open>!conf.isLocalDeployment\<close> holds for the empty string only, once the variable is known
  to be set.
\<close>

definition checkEnvVars :: "host \<Rightarrow> envVars \<Rightarrow> error + unit" where
  "checkEnvVars h conf =
     (if isLocalDeploymentVar conf = None then Inl (missing ''isLocalDeployment'')
      else if ethRpc conf = None then Inl (missing ''ethRpc'')
      else if arbRpc conf = None then Inl (missing ''arbRpc'')
      else if novaRpc conf = None then Inl (missing ''novaRpc'')
      else if isLocalDeploymentVar conf = Some [] \<and> ethDeployerKey conf = None then
        Inl (missing ''ethDeployerKey'')
      else if arbDeployerKey conf = None then Inl (missing ''arbDeployerKey'')
      else if novaDeployerKey conf = None then Inl (missing ''novaDeployerKey'')
      else if deployerConfigLocation conf = None then
        Inl (missing ''deployerConfigLocation'')
      else if \<not> existsSync h (the (deployerConfigLocation conf)) then
        Inl (missing_file (the (deployerConfigLocation conf)))
      else if vestedRecipientsLocation conf = None then
        Inl (missing ''vestedRecipientsLocation'')
      else if \<not> existsSync h (the (vestedRecipientsLocation conf)) then
        Inl (missing_file (the (vestedRecipientsLocation conf)))
      else if daoRecipientsLocation conf = None then
        Inl (missing ''daoRecipientsLocation'')
      else if \<not> existsSync h (the (daoRecipientsLocation conf)) then
        Inl (missing_file (the (daoRecipientsLocation conf)))
      else if claimRecipientsLocation conf = None then
        Inl (missing ''claimRecipientsLocation'')
      else if \<not> existsSync h (the (claimRecipientsLocation conf)) then
        Inl (missing_file (the (claimRecipientsLocation conf)))
      else if deployedContractsLocation conf = None then
        Inl (missing ''deployedContractsLocation'')
      else if arbTransferAssetsTXsLocation conf = None then
        Inl (missing ''arbTransferAssetsTXsLocation'')
      else if novaTransferAssetsTXsLocation conf = None then
        Inl (missing ''novaTransferAssetsTXsLocation'')
      else Inr ())"

text \<open>
  \<^verbatim>\<open>getSigner(provider, key)\<close>; \<open>provider\<close> tells whether a provider was passed. A key
  counts when it is set and not empty.
\<close>

definition getSigner :: "host \<Rightarrow> bool \<Rightarrow> string option \<Rightarrow> error + signer" where
  "getSigner h provider key =
     (let has_key = (key \<noteq> None \<and> key \<noteq> Some []) in
      if \<not> has_key \<and> \<not> provider then
        Inl (Error [Lit ''Provide at least one of key or provider.''])
      else if has_key then bindE (newWallet h (the key)) (\<lambda>_. Inr (WalletSigner (the key)))
      else Inr ProviderSigner)"

text \<open>A location handed to \<^verbatim>\<open>path.join\<close>, which throws on \<^verbatim>\<open>undefined\<close>.\<close>

definition location :: "string option \<Rightarrow> error + string" where
  "location l =
     (case l of
        None \<Rightarrow> Inl (Error [Lit ''The path argument must be of type string''])
      | Some loc \<Rightarrow> Inr loc)"

definition loadDaoRecipients :: "host \<Rightarrow> envVars \<Rightarrow> error + recipients" where
  "loadDaoRecipients h conf =
     bindE (checkEnvVars h conf) (\<lambda>_.
     bindE (location (daoRecipientsLocation conf)) (\<lambda>daoRecipientsFileLocation.
       loadRecipients h daoRecipientsFileLocation))"

definition loadVestedRecipients :: "host \<Rightarrow> envVars \<Rightarrow> error + recipients" where
  "loadVestedRecipients h conf =
     bindE (checkEnvVars h conf) (\<lambda>_.
     bindE (location (vestedRecipientsLocation conf)) (\<lambda>vestedRecipientsFileLocation.
       loadRecipients h vestedRecipientsFileLocation))"

text \<open>\<^verbatim>\<open>xs[i]\<close>: \<open>None\<close> is \<^verbatim>\<open>undefined\<close>.\<close>

definition index :: "'a list \<Rightarrow> nat \<Rightarrow> 'a option" where
  "index xs i = (if i < length xs then Some (xs ! i) else None)"

text \<open>\<^verbatim>\<open>Object.fromEntries\<close>: a later entry with the same key replaces an earlier one.\<close>

definition Object_fromEntries :: "('k \<times> 'v) list \<Rightarrow> ('k \<Rightarrow> 'v option)" where
  "Object_fromEntries entries = fold (\<lambda>(k, v) obj. obj(k \<mapsto> v)) entries Map.empty"

text \<open>
  \<^verbatim>\<open>loadClaimRecipients\<close> imports \<^verbatim>\<open>mapPointsToAmounts\<close> from \<^verbatim>\<open>testUtils\<close>; the function
  of that name in the deployment script is used for it.
\<close>

definition loadClaimRecipients :: "host \<Rightarrow> envVars \<Rightarrow> error + recipients" where
  "loadClaimRecipients h conf =
     bindE (checkEnvVars h conf) (\<lambda>_.
     bindE (location (claimRecipientsLocation conf)) (\<lambda>claimLoc.
     bindE (readClaimRecipients h claimLoc) (\<lambda>tokenRecipientsByPoints.
     bindE (mapPointsToAmounts tokenRecipientsByPoints) (\<lambda>(tokenRecipients, tokenAmounts).
       Inr (Object_fromEntries
              (map (\<lambda>(i, tr). (tr, index tokenAmounts i)) (enumerate 0 tokenRecipients)))))))"

text \<open>
  \<^verbatim>\<open>updateDeployedContracts\<close>, with the file write as a parameter so that the same body can
  be run with a write that completes and with one that is cut short. \<open>stringify\<close> is
  \<^verbatim>\<open>JSON.stringify(cache, null, 2)\<close>.
\<close>

definition updateDeployedContracts_with ::
  "(string \<Rightarrow> string \<Rightarrow> files \<Rightarrow> files) \<Rightarrow> ('c \<Rightarrow> string) \<Rightarrow> envVars \<Rightarrow> 'c \<Rightarrow> files \<Rightarrow> error + files" where
  "updateDeployedContracts_with write stringify conf cache fs =
     bindE (location (deployedContractsLocation conf)) (\<lambda>path.
       Inr (write path (stringify cache) fs))"

definition updateDeployedContracts ::
  "('c \<Rightarrow> string) \<Rightarrow> envVars \<Rightarrow> 'c \<Rightarrow> files \<Rightarrow> error + files" where
  "updateDeployedContracts = updateDeployedContracts_with writeFileSync"

definition isLocalDeployment :: "envVars \<Rightarrow> bool" where
  "isLocalDeployment conf = (isLocalDeploymentVar conf \<noteq> Some ''false'')"

record deployersAndConfig =
  ethDeployer :: signer
  arbDeployer :: signer
  novaDeployer :: signer
  deployerConfig :: deployerConfig
  daoRecipients :: recipients
  vestedRecipients :: recipients
  claimRecipients :: recipients

text \<open>The three checks of the local branch and the three checks of the production branch.\<close>

definition localChainIdChecks :: "host \<Rightarrow> error + unit" where
  "localChainIdChecks h =
     bindE (chainId h Eth) (\<lambda>l1ChainId.
     if l1ChainId = ETH_CHAIN_ID then
       Inl (Error [Lit ''Production chain ID used in test env for L1''])
     else
     bindE (chainId h Arb) (\<lambda>l2ChainId.
     if l2ChainId = ARBITRUM_ONE_CHAIN_ID then
       Inl (Error [Lit ''Production chain ID used in test env for L2''])
     else
     bindE (chainId h Nova) (\<lambda>novaChainId.
     if novaChainId = ARBITRUM_NOVA_CHAIN_ID then
       Inl (Error [Lit ''Production chain ID used in test env for Nova''])
     else Inr ())))"

definition productionChainIdChecks :: "host \<Rightarrow> error + unit" where
  "productionChainIdChecks h =
     bindE (chainId h Eth) (\<lambda>ethChainId.
     if ethChainId \<noteq> ETH_CHAIN_ID then
       Inl (Error [Lit ''Production chain ID should be used in production mode for L1''])
     else
     bindE (chainId h Arb) (\<lambda>arbChainId.
     if arbChainId \<noteq> ARBITRUM_ONE_CHAIN_ID then
       Inl (Error [Lit ''Production chain ID should be used in production mode for L2''])
     else
     bindE (chainId h Nova) (\<lambda>novaChainId.
     if novaChainId \<noteq> ARBITRUM_NOVA_CHAIN_ID then
       Inl (Error [Lit ''Production chain ID should be used in production mode for Nova''])
     else Inr ())))"

text \<open>
  The two branches of \<^verbatim>\<open>getDeployersAndConfig\<close>. The signers made by \<^verbatim>\<open>getSigner\<close> carry
  the provider they were made from, so each \<^verbatim>\<open>if (deployer.provider)\<close> of the local branch
  is entered. The network objects of the result are left out.
\<close>

definition localBranch ::
  "host \<Rightarrow> envVars \<Rightarrow> recipients \<Rightarrow> recipients \<Rightarrow> recipients \<Rightarrow> error + deployersAndConfig" where
  "localBranch h conf dao vested claim =
     bindE (getProvidersAndSetupNetworks h (ethRpc conf) (arbRpc conf)
              ''files/local/network.json'') (\<lambda>_.
     bindE (getProvidersAndSetupNetworks h (ethRpc conf) (novaRpc conf)
              ''files/local/networkNova.json'') (\<lambda>_.
     bindE (getSigner h True (ethDeployerKey conf)) (\<lambda>l1Deployer.
     bindE (getSigner h True (arbDeployerKey conf)) (\<lambda>l2Deployer.
     bindE (getSigner h True (novaDeployerKey conf)) (\<lambda>novaDeployer'.
     bindE (localChainIdChecks h) (\<lambda>_.
     bindE (location (deployerConfigLocation conf)) (\<lambda>testDeployerConfigName.
     bindE (readDeployerConfig h testDeployerConfigName) (\<lambda>config.
       Inr \<lparr>ethDeployer = l1Deployer, arbDeployer = l2Deployer, novaDeployer = novaDeployer',
            deployerConfig = config, daoRecipients = dao, vestedRecipients = vested,
            claimRecipients = claim\<rparr>))))))))"

definition productionBranch ::
  "host \<Rightarrow> envVars \<Rightarrow> recipients \<Rightarrow> recipients \<Rightarrow> recipients \<Rightarrow> error + deployersAndConfig" where
  "productionBranch h conf dao vested claim =
     bindE (productionChainIdChecks h) (\<lambda>_.
     bindE (getSigner h True (ethDeployerKey conf)) (\<lambda>ethDeployer'.
     bindE (getSigner h True (arbDeployerKey conf)) (\<lambda>arbDeployer'.
     bindE (getSigner h True (novaDeployerKey conf)) (\<lambda>novaDeployer'.
     bindE (location (deployerConfigLocation conf)) (\<lambda>testDeployerConfigName.
     bindE (readDeployerConfig h testDeployerConfigName) (\<lambda>config.
     bindE (getL2Network h Arb) (\<lambda>_.
     bindE (getL2Network h Nova) (\<lambda>_.
       Inr \<lparr>ethDeployer = ethDeployer', arbDeployer = arbDeployer', novaDeployer = novaDeployer',
            deployerConfig = config, daoRecipients = dao, vestedRecipients = vested,
            claimRecipients = claim\<rparr>))))))))"

definition getDeployersAndConfig :: "host \<Rightarrow> envVars \<Rightarrow> error + deployersAndConfig" where
  "getDeployersAndConfig h conf =
     bindE (checkEnvVars h conf) (\<lambda>_.
     bindE (loadDaoRecipients h conf) (\<lambda>dao.
     bindE (loadVestedRecipients h conf) (\<lambda>vested.
     bindE (loadClaimRecipients h conf) (\<lambda>claim.
       if isLocalDeployment conf then localBranch h conf dao vested claim
       else productionBranch h conf dao vested claim))))"


section \<open>Example inputs\<close>

definition example_recipients :: "(string \<times> int) list" where
  "example_recipients = [(''0xa1'', 3), (''0xb2'', 7), (''0xc3'', 15)]"

definition example_conf :: envVars where
  "example_conf =
     \<lparr>isLocalDeploymentVar = Some ''true'',
      ethRpc = Some ''http://localhost:8545'',
      arbRpc = Some ''http://localhost:8547'',
      novaRpc = Some ''http://localhost:8548'',
      ethDeployerKey = Some ''0x01'',
      arbDeployerKey = Some ''0x02'',
      novaDeployerKey = Some ''0x03'',
      deployerConfigLocation = Some ''files/local/deployConfig.json'',
      vestedRecipientsLocation = Some ''files/local/vestedRecipients.json'',
      daoRecipientsLocation = Some ''files/local/daoRecipients.json'',
      claimRecipientsLocation = Some ''files/local/claimRecipients.json'',
      deployedContractsLocation = Some ''files/local/deployedContracts.json'',
      arbTransferAssetsTXsLocation = Some ''files/local/arbTXs.json'',
      novaTransferAssetsTXsLocation = Some ''files/local/novaTXs.json''\<rparr>"

text \<open>A machine where every file exists and every chain answers with a test chain ID.\<close>

definition example_host :: host where
  "example_host =
     \<lparr>existsSync = (\<lambda>_. True),
      readClaimRecipients = (\<lambda>_. Inr example_recipients),
      loadRecipients = (\<lambda>_. Inr Map.empty),
      getProvidersAndSetupNetworks = (\<lambda>_ _ _. Inr ()),
      chainId = (\<lambda>c. Inr (case c of Eth \<Rightarrow> 1337 | Arb \<Rightarrow> 412346 | Nova \<Rightarrow> 412347)),
      readDeployerConfig = (\<lambda>_. Inr []),
      getL2Network = (\<lambda>_. Inr ()),
      newWallet = (\<lambda>_. Inr ())\<rparr>"

text \<open>A store file as an earlier run left it.\<close>

definition example_store :: files where
  "example_store = [''files/local/deployedContracts.json'' \<mapsto> ''{step1: done}'']"

text \<open>A machine whose providers report the production chain IDs.\<close>

definition production_host :: host where
  "production_host =
     example_host\<lparr>chainId := (\<lambda>c. Inr (case c of Eth \<Rightarrow> 1 | Arb \<Rightarrow> 42161 | Nova \<Rightarrow> 42170))\<rparr>"

section \<open>Vocabulary of the properties\<close>

text \<open>The gas price sample of the batch loop, and \<open>k\<close> rounds of its waiting loop.\<close>

definition gasPriceCall :: call where
  "gasPriceCall = Read Arb ''provider'' ''getGasPrice'' []"

definition polls :: "nat \<Rightarrow> event list" where
  "polls k = concat (replicate k [Sleep 30000, Chain gasPriceCall])"

text \<open>The transactions of a trace, in order, and the transaction that submits one batch.\<close>

fun is_transaction :: "event \<Rightarrow> bool" where
  "is_transaction (Chain (Transact c address method args waited)) = True"
| "is_transaction _ = False"

definition transactions :: "event list \<Rightarrow> event list" where
  "transactions tr = filter is_transaction tr"

definition setRecipients_call :: "string \<Rightarrow> string list \<Rightarrow> int list \<Rightarrow> event" where
  "setRecipients_call tokenDistributor recipientsBatch amountsBatch =
     Chain (Transact Arb tokenDistributor ''setRecipients''
              [Strs recipientsBatch, Bigs amountsBatch, Struct [(''gasLimit'', Big 30000000)]]
              True)"

text \<open>The deployments of a trace, in order: chain and contract.\<close>

fun deployment :: "event \<Rightarrow> (chain \<times> string) option" where
  "deployment (Chain (Deploy c factory args)) = Some (c, factory)"
| "deployment _ = None"

definition deployments :: "event list \<Rightarrow> (chain \<times> string) list" where
  "deployments tr = List.map_filter deployment tr"

definition getL1ToL2Messages :: call where
  "getL1ToL2Messages = Read Nova ''l1RegistrationTxReceipt'' ''getL1ToL2Messages'' []"

section \<open>An example outside\<close>

fun method_of :: "call \<Rightarrow> string" where
  "method_of (Deploy c factory args) = ''deploy''"
| "method_of (AwaitDeployed c address) = ''deployed''"
| "method_of (Transact c address method args waited) = method"
| "method_of (Read c target method args) = method"
| "method_of (WaitForStatus i) = ''waitForStatus''"

fun chain_name :: "chain \<Rightarrow> string" where
  "chain_name Eth = ''eth''"
| "chain_name Arb = ''arb''"
| "chain_name Nova = ''nova''"

text \<open>
  Example addresses: a proxy is named after its logic contract, any other contract after
  its chain and factory.
\<close>

fun example_address :: "call \<Rightarrow> string" where
  "example_address (Deploy c factory args) =
     (case args of
        Str logic # rest \<Rightarrow>
          if factory = ''TransparentUpgradeableProxy'' then logic @ ''/proxy''
          else chain_name c @ '':'' @ factory
      | _ \<Rightarrow> chain_name c @ '':'' @ factory)"
| "example_address (Read c target method args) = chain_name c @ '':'' @ method"
| "example_address _ = []"

definition example_receipt :: "string \<Rightarrow> string" where
  "example_receipt field = ''0x'' @ field"

text \<open>
  An outside where every deployment and every read answers, every gas price sample is the
  base gas price and both messages are redeemed. A transaction, or another call that yields
  a receipt, whose method has the given name throws. The recipients file holds the three
  example recipients.
\<close>

definition env_reverting :: "string \<Rightarrow> env" where
  "env_reverting method =
     \<lparr>address_result = (\<lambda>c n. Inr (example_address c)),
      number_result =
        (\<lambda>c n. Inr (case c of WaitForStatus i \<Rightarrow> REDEEMED | _ \<Rightarrow> BASE_GAS_PRICE)),
      receipt_result =
        (\<lambda>c n. if method_of c = method then Inl (Error [Lit ''reverted''])
                else Inr example_receipt),
      recipients_file = Inr example_recipients,
      JSON_stringify =
        (\<lambda>object. concat (map (\<lambda>(key, address). key @ ''='' @ address @ '';'') object)),
      getDeployers_result = Inr (),
      L2_NUM_OF_RECIPIENT_BATCHES_ALREADY_SET = 0\<rparr>"

text \<open>No call of the script has the empty method name: nothing throws.\<close>

definition example_env :: env where
  "example_env = env_reverting []"

text \<open>The same outside with the gas price samples \<open>samples\<close>, then \<open>later\<close> forever.\<close>

definition env_sampling :: "int list \<Rightarrow> int \<Rightarrow> env" where
  "env_sampling samples later =
     example_env\<lparr>number_result :=
       (\<lambda>c n. Inr (if n < length samples then samples ! n else later))\<rparr>"

text \<open>The same outside with the given statuses of the two messages.\<close>

definition env_statuses :: "int \<Rightarrow> int \<Rightarrow> env" where
  "env_statuses status0 status1 =
     example_env\<lparr>number_result :=
       (\<lambda>c n. Inr (case c of WaitForStatus i \<Rightarrow> if i = 0 then status0 else status1
                     | _ \<Rightarrow> BASE_GAS_PRICE))\<rparr>"

text \<open>The same outside with a recipients file of \<open>n\<close> accounts of 3 points each.\<close>

definition many_recipients :: "nat \<Rightarrow> (string \<times> int) list" where
  "many_recipients n = map (\<lambda>i. (''0x'' @ replicate (Suc i) (CHR ''a''), 3)) [0..<n]"

definition env_recipients :: "nat \<Rightarrow> env" where
  "env_recipients n = example_env\<lparr>recipients_file := Inr (many_recipients n)\<rparr>"

text \<open>
  The world at the start of a run: the script's module has just been loaded, so
  \<^verbatim>\<open>deployedContracts\<close> is empty; the disk holds \<open>fs\<close>.
\<close>

definition fresh :: "files \<Rightarrow> world" where
  "fresh fs = \<lparr>trace = [], deployedContracts = [], files = fs\<rparr>"

section \<open>What a computation touches\<close>

text \<open>
  \<open>on_trace m\<close>: the computation neither reads nor changes the files, and it only adds
  events to the trace.
\<close>

definition on_trace :: "'a io \<Rightarrow> bool" where
  "on_trace m \<longleftrightarrow>
     (\<forall>w fs. m (w\<lparr>files := fs\<rparr>) = map_option (\<lambda>(r, w'). (r, w'\<lparr>files := fs\<rparr>)) (m w))
     \<and> (\<forall>w r w'. m w = Some (r, w') \<longrightarrow> (\<exists>evs. trace w' = trace w @ evs))"

text \<open>\<open>store_blind m\<close>: the computation neither reads nor changes \<^verbatim>\<open>deployedContracts\<close>.\<close>

definition store_blind :: "'a io \<Rightarrow> bool" where
  "store_blind m \<longleftrightarrow>
     (\<forall>w d. m (w\<lparr>deployedContracts := d\<rparr>) =
            map_option (\<lambda>(r, w'). (r, w'\<lparr>deployedContracts := d\<rparr>)) (m w))"

text \<open>
  \<open>ends_with_write env m\<close>: what the computation returns, its trace and its
  \<^verbatim>\<open>deployedContracts\<close> do not depend on the files; it only adds events to the trace; when
  it throws the files are as before, and when it returns the file of the deployed
  contracts holds the serialised \<^verbatim>\<open>deployedContracts\<close> and no other file has changed.
\<close>

definition ends_with_write :: "env \<Rightarrow> 'a io \<Rightarrow> bool" where
  "ends_with_write env m \<longleftrightarrow>
     (\<forall>w fs. map_option (\<lambda>(r, w'). (r, trace w', deployedContracts w')) (m (w\<lparr>files := fs\<rparr>)) =
             map_option (\<lambda>(r, w'). (r, trace w', deployedContracts w')) (m w))
     \<and> (\<forall>w r w'. m w = Some (r, w') \<longrightarrow>
           (\<exists>evs. trace w' = trace w @ evs)
           \<and> (case r of
                 Inl e \<Rightarrow> files w' = files w
               | Inr u \<Rightarrow> files w' = (files w)(DEPLOYED_CONTRACTS_FILE_NAME \<mapsto>
                                                  JSON_stringify env (deployedContracts w'))))"

text \<open>\<open>first_event e m\<close>: whenever the computation ends, the first event it added is \<open>e\<close>.\<close>

definition first_event :: "event \<Rightarrow> 'a io \<Rightarrow> bool" where
  "first_event e m \<longleftrightarrow> (\<forall>w r w'. m w = Some (r, w') \<longrightarrow> (\<exists>evs. trace w' = trace w @ e # evs))"

named_theorems on_trace_intros

named_theorems store_blind_intros

named_theorems ends_with_write_intros

section \<open>A store left by an earlier run\<close>

text \<open>
  The addresses that steps 1 to 8 record under the example outside, the file that holds
  them, and the world of a run that starts with both.
\<close>

definition steps_1_to_8 :: "(string \<times> string) list" where
  "steps_1_to_8 =
     [(''l1UpgradeExecutorLogic'', ''eth:UpgradeExecutor''),
      (''l2TimelockLogic'', ''arb:ArbitrumTimelock''),
      (''l2GovernorLogic'', ''arb:L2ArbitrumGovernor''),
      (''l2FixedDelegateLogic'', ''arb:FixedDelegateErc20Wallet''),
      (''l2TokenLogic'', ''arb:L2ArbitrumToken''),
      (''l2UpgradeExecutorLogic'', ''arb:UpgradeExecutor''),
      (''l1GovernanceFactory'', ''eth:L1GovernanceFactory''),
      (''l1TokenLogic'', ''eth:L1ArbitrumToken''),
      (''l1TokenProxy'', ''eth:L1ArbitrumToken/proxy''),
      (''l2GovernanceFactory'', ''arb:L2GovernanceFactory''),
      (''novaProxyAdmin'', ''nova:ProxyAdmin''),
      (''novaUpgradeExecutorLogic'', ''nova:UpgradeExecutor''),
      (''novaUpgradeExecutorProxy'', ''nova:UpgradeExecutor/proxy''),
      (''novaTokenLogic'', ''nova:L2CustomGatewayToken''),
      (''novaTokenProxy'', ''nova:L2CustomGatewayToken/proxy''),
      (''l2CoreGoverner'', ''0xcoreGoverner''),
      (''l2CoreTimelock'', ''0xcoreTimelock''),
      (''l2Executor'', ''0xexecutor''),
      (''l2ProxyAdmin'', ''0xproxyAdmin''),
      (''l2Token'', ''0xtoken''),
      (''l2TreasuryGoverner'', ''0xtreasuryGoverner''),
      (''l2ArbTreasury'', ''0xarbTreasury'')]"

definition store_steps_1_to_8 :: files where
  "store_steps_1_to_8 =
     Map.empty(DEPLOYED_CONTRACTS_FILE_NAME \<mapsto> JSON_stringify example_env steps_1_to_8)"

definition resumed :: world where
  "resumed = \<lparr>trace = [], deployedContracts = steps_1_to_8, files = store_steps_1_to_8\<rparr>"

text \<open>The files written by a trace, in order: path and content.\<close>

fun written :: "event \<Rightarrow> (string \<times> string) option" where
  "written (WriteFileSync path data) = Some (path, data)"
| "written _ = None"

definition writes :: "event list \<Rightarrow> (string \<times> string) list" where
  "writes tr = List.map_filter written tr"

section \<open>Properties of the recipient mapper\<close>

lemma spec_amount_cases:
  "spec_amount p =
     (if p = 3 then Some 3000 else if p = 4 then Some 4500 else if p = 5 then Some 6000
      else if p = 6 then Some 9000 else if p = 7 then Some 10500
      else if 8 \<le> p \<and> p \<le> 15 then Some 12000 else None)"
  unfolding spec_amount_def spec_amount_table_def by (auto; presburger)

lemma mapPointsToAmounts_loop_valid:
  "\<forall>(key, points) \<in> set raw. valid_points points \<Longrightarrow>
   mapPointsToAmounts_loop raw rs as =
     Inr (rs @ map fst raw, as @ map (\<lambda>(key, points). parseEther (the (spec_amount points))) raw)"
proof (induction raw arbitrary: rs as)
  case Nil
  then show ?case by simp
next
  case (Cons a raw)
  obtain key points where a: "a = (key, points)" by (cases a)
  from Cons.prems a have v: "valid_points points"
    and rest: "\<forall>(key, points) \<in> set raw. valid_points points" by auto
  from v have "points \<in> {3,4,5,6,7,8,9,10,11,12,13,14,15}" by (simp add: valid_points_def)
  then obtain amt where amt: "spec_amount points = Some amt"
     and step: "mapPointsToAmounts_loop (a # raw) rs as = mapPointsToAmounts_loop raw (rs @ [key]) (as @ [parseEther amt])"
    unfolding a by (auto simp: spec_amount_cases)
  show ?case using Cons.IH[OF rest, of "rs @ [key]" "as @ [parseEther amt]"] step amt a
    by simp
qed

lemma mapPointsToAmounts_loop_invalid:
  "\<forall>(k, p) \<in> set pre. valid_points p \<Longrightarrow> \<not> valid_points points \<Longrightarrow>
   mapPointsToAmounts_loop (pre @ (key, points) # post) rs as =
     Inl (Error [Lit ''Incorrect number of points for account '', Lit key, Lit '': '', Num points])"
proof (induction pre arbitrary: rs as)
  case Nil
  then show ?case by (simp add: valid_points_def)
next
  case (Cons a pre)
  obtain k p where a: "a = (k, p)" by (cases a)
  from Cons.prems a have "p \<in> {3,4,5,6,7,8,9,10,11,12,13,14,15}" by (simp add: valid_points_def)
  then obtain amt where
     step: "mapPointsToAmounts_loop (a # pre @ (key, points) # post) rs as = mapPointsToAmounts_loop (pre @ (key, points) # post) (rs @ [k]) (as @ [parseEther amt])"
    unfolding a by auto
  show ?case using Cons.IH[of "rs @ [k]" "as @ [parseEther amt]"] Cons.prems step by simp
qed

lemma valid_points_dom: "valid_points p \<longleftrightarrow> spec_amount p \<noteq> None"
  unfolding valid_points_def spec_amount_cases by (auto; presburger)

text \<open>
  Claim C3. When every points value of the input lies in 3..15, the mapper returns the keys
  in order and, for each, the amount of the fixed table (3 to 3000, 4 to 4500, 5 to 6000,
  6 to 9000, 7 to 10500, 8..15 to 12000 tokens, in base units). When some points value lies
  outside, the mapper returns no lists at all but the error that names the first such
  account in enumeration order, with its points.
\<close>

theorem mapPointsToAmounts_fixed_table:
  "((\<forall>(key, points) \<in> set raw. valid_points points) \<longrightarrow>
      mapPointsToAmounts raw =
        Inr (map fst raw, map (\<lambda>(key, points). parseEther (the (spec_amount points))) raw))
   \<and> ((\<forall>(k, p) \<in> set pre. valid_points p) \<and> \<not> valid_points points \<longrightarrow>
      mapPointsToAmounts (pre @ (key, points) # post) =
        Inl (Error [Lit ''Incorrect number of points for account '', Lit key, Lit '': '',
                    Num points]))
   \<and> ((\<exists>(k, p) \<in> set raw. \<not> valid_points p) \<longrightarrow>
      (\<exists>(k, p) \<in> set raw. \<not> valid_points p \<and>
         mapPointsToAmounts raw =
           Inl (Error [Lit ''Incorrect number of points for account '', Lit k, Lit '': '',
                       Num p])))
   \<and> (\<forall>p. valid_points p \<longleftrightarrow> p \<in> {3..15})
   \<and> (\<forall>p. spec_amount p =
         (if p = 3 then Some 3000 else if p = 4 then Some 4500 else if p = 5 then Some 6000
          else if p = 6 then Some 9000 else if p = 7 then Some 10500
          else if 8 \<le> p \<and> p \<le> 15 then Some 12000 else None))"
proof (intro conjI impI allI)
  assume "\<forall>(key, points) \<in> set raw. valid_points points"
  then show "mapPointsToAmounts raw =
        Inr (map fst raw, map (\<lambda>(key, points). parseEther (the (spec_amount points))) raw)"
    unfolding mapPointsToAmounts_def using mapPointsToAmounts_loop_valid[of raw "[]" "[]"] by simp
next
  assume "(\<forall>(k, p) \<in> set pre. valid_points p) \<and> \<not> valid_points points"
  then show "mapPointsToAmounts (pre @ (key, points) # post) =
        Inl (Error [Lit ''Incorrect number of points for account '', Lit key, Lit '': '',
                    Num points])"
    unfolding mapPointsToAmounts_def using mapPointsToAmounts_loop_invalid by blast
next
  assume "\<exists>(k, p) \<in> set raw. \<not> valid_points p"
  then have "\<exists>x \<in> set raw. \<not> valid_points (snd x)" by (simp add: case_prod_beta)
  then obtain pre x post where raw: "raw = pre @ x # post" and bad: "\<not> valid_points (snd x)"
    and pre: "\<forall>y \<in> set pre. \<not> \<not> valid_points (snd y)"
    using split_list_first_prop[of raw "\<lambda>x. \<not> valid_points (snd x)"] by blast
  obtain k p where x: "x = (k, p)" by (cases x)
  have "\<forall>(k, p) \<in> set pre. valid_points p" using pre by auto
  then have "mapPointsToAmounts raw =
        Inl (Error [Lit ''Incorrect number of points for account '', Lit k, Lit '': '', Num p])"
    unfolding mapPointsToAmounts_def raw x
    using mapPointsToAmounts_loop_invalid bad x by auto
  moreover have "(k, p) \<in> set raw" "\<not> valid_points p" using raw x bad by auto
  ultimately show "\<exists>(k, p) \<in> set raw. \<not> valid_points p \<and>
         mapPointsToAmounts raw =
           Inl (Error [Lit ''Incorrect number of points for account '', Lit k, Lit '': '',
                       Num p])"
    by blast
next
  fix p show "valid_points p \<longleftrightarrow> p \<in> {3..15}"
    unfolding valid_points_def by (auto; presburger)
next
  fix p show "spec_amount p =
         (if p = 3 then Some 3000 else if p = 4 then Some 4500 else if p = 5 then Some 6000
          else if p = 6 then Some 9000 else if p = 7 then Some 10500
          else if 8 \<le> p \<and> p \<le> 15 then Some 12000 else None)"
    by (rule spec_amount_cases)
qed

theorem mapPointsToAmounts_fixed_table_witness:
  "mapPointsToAmounts [(''0xa1'', 3), (''0xb2'', 7), (''0xc3'', 15)] =
     Inr ([''0xa1'', ''0xb2'', ''0xc3''], [parseEther 3000, parseEther 10500, parseEther 12000])
   \<and> mapPointsToAmounts ([(''0xa1'', 3)] @ (''0xb2'', 2) # [(''0xc3'', 16)]) =
     Inl (Error [Lit ''Incorrect number of points for account '', Lit ''0xb2'', Lit '': '',
                 Num 2])"
  using mapPointsToAmounts_fixed_table
          [of "[(''0xa1'', 3), (''0xb2'', 7), (''0xc3'', 15)]" "[(''0xa1'', 3)]" 2 "''0xb2''"
              "[(''0xc3'', 16)]"]
  by (simp add: valid_points_def)

lemma fold_upd_map_of:
  "fold (\<lambda>(k, v) obj. obj(k \<mapsto> v)) es m = m ++ map_of (rev es)"
  by (induction es arbitrary: m) (auto simp: map_add_def fun_eq_iff split: option.splits)

lemma Object_fromEntries_Some:
  assumes "distinct (map fst es)"
  shows "Object_fromEntries es k = Some v \<longleftrightarrow> (k, v) \<in> set es"
proof -
  have "distinct (map fst (rev es))" using assms by (metis distinct_rev rev_map)
  then have "map_of (rev es) k = Some v \<longleftrightarrow> (k, v) \<in> set (rev es)"
    by (rule map_of_eq_Some_iff)
  then show ?thesis
    unfolding Object_fromEntries_def fold_upd_map_of by simp
qed

lemma Object_fromEntries_dom: "dom (Object_fromEntries es) = fst ` set es"
  unfolding Object_fromEntries_def fold_upd_map_of by (simp add: dom_map_of_conv_image_fst)

lemma entries_zip:
  "length as = length rs \<Longrightarrow>
   map (\<lambda>(i, tr). (tr, index as i)) (enumerate 0 rs) = zip rs (map Some as)"
  by (auto intro!: nth_equalityI simp: index_def nth_enumerate_eq)

text \<open>
  Claim C9. For an input whose points are all valid, the mapper returns two lists with one
  entry per input account, and at every index the recipient is the account at that index and
  the amount is the table amount of that account's points. When the keys are distinct, as
  those of an object are, \<open>loadClaimRecipients\<close> gives every account its own amount and has
  no other keys.
\<close>

theorem loadClaimRecipients_aligned:
  assumes valid: "\<forall>(key, points) \<in> set raw. valid_points points"
  shows "\<exists>tokenRecipients tokenAmounts.
           mapPointsToAmounts raw = Inr (tokenRecipients, tokenAmounts)
           \<and> length tokenRecipients = length raw \<and> length tokenAmounts = length raw
           \<and> (\<forall>i < length raw. tokenRecipients ! i = fst (raw ! i)
                 \<and> Some (tokenAmounts ! i) = map_option parseEther (spec_amount (snd (raw ! i))))
           \<and> (distinct (map fst raw) \<and> checkEnvVars h conf = Inr ()
                 \<and> claimRecipientsLocation conf = Some loc \<and> readClaimRecipients h loc = Inr raw
               \<longrightarrow> (\<exists>claim. loadClaimRecipients h conf = Inr claim
                      \<and> dom claim = fst ` set raw
                      \<and> (\<forall>(key, points) \<in> set raw.
                            claim key = Some (map_option parseEther (spec_amount points)))))"
proof -
  let ?f = "\<lambda>(key, points). parseEther (the (spec_amount points))"
  have m: "mapPointsToAmounts raw = Inr (map fst raw, map ?f raw)"
    using mapPointsToAmounts_loop_valid[OF valid, of "[]" "[]"]
    by (simp add: mapPointsToAmounts_def)
  have amt: "Some (?f x) = map_option parseEther (spec_amount (snd x))" if "x \<in> set raw" for x
  proof -
    from that valid have "valid_points (snd x)" by auto
    then obtain t where "spec_amount (snd x) = Some t" by (auto simp: valid_points_dom)
    then show ?thesis by (cases x) simp
  qed
  have aligned: "\<forall>i < length raw. map fst raw ! i = fst (raw ! i)
       \<and> Some (map ?f raw ! i) = map_option parseEther (spec_amount (snd (raw ! i)))"
    using amt by simp
  have load: "\<exists>claim. loadClaimRecipients h conf = Inr claim
                      \<and> dom claim = fst ` set raw
                      \<and> (\<forall>(key, points) \<in> set raw.
                            claim key = Some (map_option parseEther (spec_amount points)))"
    if d: "distinct (map fst raw)" and c: "checkEnvVars h conf = Inr ()"
      and l: "claimRecipientsLocation conf = Some loc" and r: "readClaimRecipients h loc = Inr raw"
  proof -
    let ?es = "zip (map fst raw) (map Some (map ?f raw))"
    have es: "?es = map (\<lambda>x. (fst x, Some (?f x))) raw"
      by (simp add: zip_map_map zip_same_conv_map)
    have l': "loadClaimRecipients h conf = Inr (Object_fromEntries ?es)"
      unfolding loadClaimRecipients_def
      by (simp add: c l r m bindE_def location_def entries_zip)
    have de: "distinct (map fst ?es)" using d by simp
    have "Object_fromEntries ?es key = Some (map_option parseEther (spec_amount points))"
      if kp: "(key, points) \<in> set raw" for key points
    proof -
      have "(key, Some (?f (key, points))) \<in> set ?es"
        unfolding es using kp by force
      then have "Object_fromEntries ?es key = Some (Some (?f (key, points)))"
        using Object_fromEntries_Some[OF de] by blast
      then show ?thesis using amt[OF kp] by simp
    qed
    moreover have "dom (Object_fromEntries ?es) = fst ` set raw"
      unfolding Object_fromEntries_dom es by force
    ultimately show ?thesis using l' by blast
  qed
  show ?thesis using m aligned load by simp
qed

theorem loadClaimRecipients_aligned_witness:
  "\<exists>claim. loadClaimRecipients example_host example_conf = Inr claim
     \<and> dom claim = {''0xa1'', ''0xb2'', ''0xc3''}
     \<and> claim ''0xa1'' = Some (Some (parseEther 3000))
     \<and> claim ''0xb2'' = Some (Some (parseEther 10500))
     \<and> claim ''0xc3'' = Some (Some (parseEther 12000))"
proof -
  have v: "\<forall>(key, points) \<in> set example_recipients. valid_points points"
    by (simp add: example_recipients_def valid_points_def)
  have d: "distinct (map fst example_recipients)"
    by (simp add: example_recipients_def)
  have c: "checkEnvVars example_host example_conf = Inr ()"
    by (simp add: checkEnvVars_def example_host_def example_conf_def)
  have l: "claimRecipientsLocation example_conf = Some ''files/local/claimRecipients.json''"
    by (simp add: example_conf_def)
  have r: "readClaimRecipients example_host ''files/local/claimRecipients.json'' =
             Inr example_recipients"
    by (simp add: example_host_def)
  from loadClaimRecipients_aligned [OF v, of example_host example_conf
         "''files/local/claimRecipients.json''"] d c l r
  obtain claim where "loadClaimRecipients example_host example_conf = Inr claim"
    and "dom claim = fst ` set example_recipients"
    and "\<forall>(key, points) \<in> set example_recipients.
           claim key = Some (map_option parseEther (spec_amount points))"
    by blast
  then show ?thesis
    by (simp add: example_recipients_def spec_amount_def spec_amount_table_def)
qed

section \<open>Persisting the store\<close>

text \<open>
  Claim C7, as stated, fails. \<open>updateDeployedContracts\<close> writes straight onto the store's
  own path. Run with a write that is cut short after five characters, it leaves a file
  that is neither the old store nor the new one.
\<close>

theorem updateDeployedContracts_atomic_counterexample:
  "updateDeployedContracts_with (\<lambda>path data. writeFileSync_interrupted path data 5)
      (\<lambda>cache. cache) example_conf ''{step1: done, step2: done}'' example_store
     = Inr (example_store(''files/local/deployedContracts.json'' \<mapsto> ''{step''))
   \<and> Some ''{step'' \<noteq> example_store ''files/local/deployedContracts.json''
   \<and> ''{step'' \<noteq> ''{step1: done, step2: done}''"
  by (simp add: updateDeployedContracts_with_def bindE_def location_def example_conf_def
      writeFileSync_interrupted_def example_store_def)

text \<open>
  Claim C7, amended. Each persistence is one \<^verbatim>\<open>fs.writeFileSync\<close> onto the store's own
  path, with no temporary file and no rename: a write that completes replaces the whole
  content of that file and touches no other file, and a write that is cut short after
  \<open>n\<close> characters leaves the first \<open>n\<close> characters of the new content there. The same holds
  for \<open>writeAddresses\<close> of the deployment script.
\<close>

theorem updateDeployedContracts_direct_write:
  "(deployedContractsLocation conf = Some path \<longrightarrow>
      updateDeployedContracts stringify conf cache fs = Inr (fs(path \<mapsto> stringify cache))
      \<and> updateDeployedContracts_with (\<lambda>path data. writeFileSync_interrupted path data n)
            stringify conf cache fs = Inr (fs(path \<mapsto> take n (stringify cache))))
   \<and> writeAddresses env w =
        Some (Inr (),
              w\<lparr>trace := trace w @ [WriteFileSync DEPLOYED_CONTRACTS_FILE_NAME
                                       (JSON_stringify env (deployedContracts w))],
                files := (files w)(DEPLOYED_CONTRACTS_FILE_NAME \<mapsto>
                                     JSON_stringify env (deployedContracts w))\<rparr>)"
  by (simp add: updateDeployedContracts_def updateDeployedContracts_with_def bindE_def
      location_def writeFileSync_def writeFileSync_interrupted_def writeAddresses_def Let_def)

theorem updateDeployedContracts_direct_write_witness:
  "updateDeployedContracts (\<lambda>cache. cache) example_conf ''{step1: done, step2: done}''
      example_store
     = Inr (example_store(''files/local/deployedContracts.json'' \<mapsto>
              ''{step1: done, step2: done}''))
   \<and> updateDeployedContracts_with (\<lambda>path data. writeFileSync_interrupted path data 7)
      (\<lambda>cache. cache) example_conf ''{step1: done, step2: done}'' example_store
     = Inr (example_store(''files/local/deployedContracts.json'' \<mapsto> ''{step1:''))"
  using updateDeployedContracts_direct_write
          [of example_conf "''files/local/deployedContracts.json''" "\<lambda>cache. cache"
              "''{step1: done, step2: done}''" example_store 7]
  by (simp add: example_conf_def)

section \<open>Local and production mode\<close>

lemma checkEnvVars_unset:
  "isLocalDeploymentVar conf = None \<Longrightarrow> checkEnvVars h conf = Inl (missing ''isLocalDeployment'')"
  by (simp add: checkEnvVars_def)

lemma example_conf_checks:
  "checkEnvVars (example_host\<lparr>chainId := ids\<rparr>) (example_conf\<lparr>isLocalDeploymentVar := Some v\<rparr>) = Inr ()"
  by (simp add: checkEnvVars_def example_conf_def example_host_def)

lemma example_conf_loads:
  "loadDaoRecipients (example_host\<lparr>chainId := ids\<rparr>) (example_conf\<lparr>isLocalDeploymentVar := Some v\<rparr>) = Inr Map.empty"
  "loadVestedRecipients (example_host\<lparr>chainId := ids\<rparr>) (example_conf\<lparr>isLocalDeploymentVar := Some v\<rparr>) = Inr Map.empty"
  "\<exists>claim. loadClaimRecipients (example_host\<lparr>chainId := ids\<rparr>) (example_conf\<lparr>isLocalDeploymentVar := Some v\<rparr>) = Inr claim"
    apply (simp add: loadDaoRecipients_def example_conf_checks bindE_def)
    apply (simp add: example_conf_def example_host_def location_def)
   apply (simp add: loadVestedRecipients_def example_conf_checks bindE_def)
   apply (simp add: example_conf_def example_host_def location_def)
  apply (simp add: loadClaimRecipients_def example_conf_checks bindE_def)
  apply (simp add: example_conf_def example_host_def location_def example_recipients_def
      mapPointsToAmounts_def)
  done

lemma localChainIdChecks_production:
  "localChainIdChecks production_host
       = Inl (Error [Lit ''Production chain ID used in test env for L1''])"
  by (simp add: localChainIdChecks_def bindE_def production_host_def ETH_CHAIN_ID_def)

lemma localBranch_production:
  "localBranch production_host (example_conf\<lparr>isLocalDeploymentVar := Some v\<rparr>) dao vested claim
       = Inl (Error [Lit ''Production chain ID used in test env for L1''])"
  unfolding localBranch_def localChainIdChecks_production
  by (simp add: bindE_def production_host_def example_host_def example_conf_def getSigner_def)

text \<open>
  Claim C10, as stated, fails for an unset variable: \<open>isLocalDeployment\<close> is true, but the
  run stops in \<open>checkEnvVars\<close> and reaches no chain ID check. On the same machine, whose
  providers report production chain IDs, the local checks would have thrown, as they do
  when the variable is set to \<^verbatim>\<open>true\<close>.
\<close>

theorem isLocalDeployment_unset_counterexample:
  "isLocalDeployment (example_conf\<lparr>isLocalDeploymentVar := None\<rparr>)
   \<and> getDeployersAndConfig production_host (example_conf\<lparr>isLocalDeploymentVar := None\<rparr>)
       = Inl (Error [Lit ''Missing '', Lit ''isLocalDeployment'', Lit '' in env vars''])
   \<and> localChainIdChecks production_host
       = Inl (Error [Lit ''Production chain ID used in test env for L1''])
   \<and> getDeployersAndConfig production_host (example_conf\<lparr>isLocalDeploymentVar := Some ''true''\<rparr>)
       = Inl (Error [Lit ''Production chain ID used in test env for L1''])"
proof (intro conjI)
  show "isLocalDeployment (example_conf\<lparr>isLocalDeploymentVar := None\<rparr>)"
    by (simp add: isLocalDeployment_def)
  show "getDeployersAndConfig production_host (example_conf\<lparr>isLocalDeploymentVar := None\<rparr>)
       = Inl (Error [Lit ''Missing '', Lit ''isLocalDeployment'', Lit '' in env vars''])"
    by (simp add: getDeployersAndConfig_def bindE_def checkEnvVars_unset missing_def)
  show "localChainIdChecks production_host
       = Inl (Error [Lit ''Production chain ID used in test env for L1''])"
    by (rule localChainIdChecks_production)
  obtain claim where c:
    "loadClaimRecipients (example_host\<lparr>chainId := (\<lambda>c. Inr (case c of Eth \<Rightarrow> 1 | Arb \<Rightarrow> 42161 | Nova \<Rightarrow> 42170))\<rparr>)
       (example_conf\<lparr>isLocalDeploymentVar := Some ''true''\<rparr>) = Inr claim"
    using example_conf_loads(3) by blast
  show "getDeployersAndConfig production_host (example_conf\<lparr>isLocalDeploymentVar := Some ''true''\<rparr>)
       = Inl (Error [Lit ''Production chain ID used in test env for L1''])"
    unfolding production_host_def
    by (simp add: getDeployersAndConfig_def bindE_def c example_conf_checks example_conf_loads(1,2)
        localBranch_production[unfolded production_host_def] isLocalDeployment_def)
qed

lemma bindE_Inr: "bindE r f = Inr y \<Longrightarrow> \<exists>x. r = Inr x \<and> f x = Inr y"
  by (cases r) (simp_all add: bindE_def)

lemma localChainIdChecks_Inr:
  "localChainIdChecks h = Inr () \<longleftrightarrow>
     (\<exists>l1ChainId l2ChainId novaChainId.
        chainId h Eth = Inr l1ChainId \<and> l1ChainId \<noteq> 1 \<and>
        chainId h Arb = Inr l2ChainId \<and> l2ChainId \<noteq> 42161 \<and>
        chainId h Nova = Inr novaChainId \<and> novaChainId \<noteq> 42170)"
  unfolding localChainIdChecks_def bindE_def ETH_CHAIN_ID_def ARBITRUM_ONE_CHAIN_ID_def
    ARBITRUM_NOVA_CHAIN_ID_def
  by (auto split: sum.splits)

lemma productionChainIdChecks_Inr:
  "productionChainIdChecks h = Inr () \<longleftrightarrow>
     chainId h Eth = Inr 1 \<and> chainId h Arb = Inr 42161 \<and> chainId h Nova = Inr 42170"
  unfolding productionChainIdChecks_def bindE_def ETH_CHAIN_ID_def ARBITRUM_ONE_CHAIN_ID_def
    ARBITRUM_NOVA_CHAIN_ID_def
  by (auto split: sum.splits)

lemma localBranch_checks:
  "localBranch h conf dao vested claim = Inr result \<Longrightarrow> localChainIdChecks h = Inr ()"
  unfolding localBranch_def by (auto dest!: bindE_Inr)

lemma productionBranch_checks:
  "productionBranch h conf dao vested claim = Inr result \<Longrightarrow> productionChainIdChecks h = Inr ()"
  unfolding productionBranch_def by (auto dest!: bindE_Inr)

text \<open>
  Claim C10, amended. \<open>isLocalDeployment\<close> is false only when the variable is exactly
  \<^verbatim>\<open>false\<close>. When the variable is not set, \<open>getDeployersAndConfig\<close> fails with
  \<^verbatim>\<open>Missing isLocalDeployment in env vars\<close>. For every value that is set, a run that passes
  \<open>checkEnvVars\<close> and loads its recipients is the production branch when the value is
  \<^verbatim>\<open>false\<close> and the local branch otherwise; a local branch that returns has passed the
  local chain ID checks (no chain reports its production ID), a production branch that
  returns has passed the production checks (every chain reports its production ID).
\<close>

theorem isLocalDeployment_selects_branch:
  "(isLocalDeployment conf \<longleftrightarrow> isLocalDeploymentVar conf \<noteq> Some ''false'')
   \<and> (isLocalDeploymentVar conf = None \<longrightarrow>
        getDeployersAndConfig h conf =
          Inl (Error [Lit ''Missing '', Lit ''isLocalDeployment'', Lit '' in env vars'']))
   \<and> (checkEnvVars h conf = Inr () \<and> loadDaoRecipients h conf = Inr dao
        \<and> loadVestedRecipients h conf = Inr vested \<and> loadClaimRecipients h conf = Inr claim \<longrightarrow>
        isLocalDeploymentVar conf \<noteq> None
        \<and> getDeployersAndConfig h conf =
            (if isLocalDeploymentVar conf = Some ''false''
             then productionBranch h conf dao vested claim
             else localBranch h conf dao vested claim))
   \<and> (localBranch h conf dao vested claim = Inr result \<longrightarrow> localChainIdChecks h = Inr ())
   \<and> (productionBranch h conf dao vested claim = Inr result \<longrightarrow>
        productionChainIdChecks h = Inr ())
   \<and> (localChainIdChecks h = Inr () \<longleftrightarrow>
        (\<exists>l1ChainId l2ChainId novaChainId.
           chainId h Eth = Inr l1ChainId \<and> l1ChainId \<noteq> 1 \<and>
           chainId h Arb = Inr l2ChainId \<and> l2ChainId \<noteq> 42161 \<and>
           chainId h Nova = Inr novaChainId \<and> novaChainId \<noteq> 42170))
   \<and> (productionChainIdChecks h = Inr () \<longleftrightarrow>
        chainId h Eth = Inr 1 \<and> chainId h Arb = Inr 42161 \<and> chainId h Nova = Inr 42170)"
proof (intro conjI impI)
  show "isLocalDeployment conf \<longleftrightarrow> isLocalDeploymentVar conf \<noteq> Some ''false''"
    by (simp add: isLocalDeployment_def)
  show "getDeployersAndConfig h conf =
          Inl (Error [Lit ''Missing '', Lit ''isLocalDeployment'', Lit '' in env vars''])"
    if "isLocalDeploymentVar conf = None"
    using that by (simp add: getDeployersAndConfig_def bindE_def checkEnvVars_unset missing_def)
  assume a: "checkEnvVars h conf = Inr () \<and> loadDaoRecipients h conf = Inr dao
        \<and> loadVestedRecipients h conf = Inr vested \<and> loadClaimRecipients h conf = Inr claim"
  then show "isLocalDeploymentVar conf \<noteq> None"
    using checkEnvVars_unset[of conf h] by auto
  from a show "getDeployersAndConfig h conf =
            (if isLocalDeploymentVar conf = Some ''false''
             then productionBranch h conf dao vested claim
             else localBranch h conf dao vested claim)"
    by (simp add: getDeployersAndConfig_def bindE_def isLocalDeployment_def)
qed (simp_all only: localBranch_checks productionBranch_checks localChainIdChecks_Inr
       productionChainIdChecks_Inr)


lemma example_localBranch:
  "\<exists>result. localBranch example_host (example_conf\<lparr>isLocalDeploymentVar := Some v\<rparr>)
              dao vested claim = Inr result"
  by (simp add: localBranch_def bindE_def example_host_def example_conf_def getSigner_def
      localChainIdChecks_def location_def ETH_CHAIN_ID_def ARBITRUM_ONE_CHAIN_ID_def
      ARBITRUM_NOVA_CHAIN_ID_def)

lemma example_productionBranch:
  "\<exists>result. productionBranch production_host (example_conf\<lparr>isLocalDeploymentVar := Some v\<rparr>)
              dao vested claim = Inr result"
  by (simp add: productionBranch_def bindE_def production_host_def example_host_def
      example_conf_def getSigner_def productionChainIdChecks_def location_def ETH_CHAIN_ID_def
      ARBITRUM_ONE_CHAIN_ID_def ARBITRUM_NOVA_CHAIN_ID_def)

theorem isLocalDeployment_selects_branch_witness:
  "(\<exists>result. getDeployersAndConfig example_host
                (example_conf\<lparr>isLocalDeploymentVar := Some ''flase''\<rparr>) = Inr result)
   \<and> localChainIdChecks example_host = Inr ()
   \<and> (\<exists>result. getDeployersAndConfig production_host
                (example_conf\<lparr>isLocalDeploymentVar := Some ''false''\<rparr>) = Inr result)
   \<and> productionChainIdChecks production_host = Inr ()
   \<and> getDeployersAndConfig example_host (example_conf\<lparr>isLocalDeploymentVar := None\<rparr>) =
       Inl (Error [Lit ''Missing '', Lit ''isLocalDeployment'', Lit '' in env vars''])"
proof -
  let ?local = "example_conf\<lparr>isLocalDeploymentVar := Some ''flase''\<rparr>"
  let ?prod = "example_conf\<lparr>isLocalDeploymentVar := Some ''false''\<rparr>"
  have eh: "example_host = example_host\<lparr>chainId := chainId example_host\<rparr>" by simp
  obtain claim where c: "loadClaimRecipients example_host ?local = Inr claim"
    using example_conf_loads(3)[of "chainId example_host" "''flase''"] by auto
  obtain result where r: "localBranch example_host ?local Map.empty Map.empty claim = Inr result"
    using example_localBranch by blast
  have l: "checkEnvVars example_host ?local = Inr ()"
    "loadDaoRecipients example_host ?local = Inr Map.empty"
    "loadVestedRecipients example_host ?local = Inr Map.empty"
    using example_conf_checks[of "chainId example_host" "''flase''"]
      example_conf_loads(1,2)[of "chainId example_host" "''flase''"] by simp_all
  note local = isLocalDeployment_selects_branch
                 [of ?local example_host Map.empty Map.empty claim result]
  obtain claim' where c': "loadClaimRecipients production_host ?prod = Inr claim'"
    using example_conf_loads(3) unfolding production_host_def by blast
  obtain result' where
    r': "productionBranch production_host ?prod Map.empty Map.empty claim' = Inr result'"
    using example_productionBranch by blast
  have p: "checkEnvVars production_host ?prod = Inr ()"
    "loadDaoRecipients production_host ?prod = Inr Map.empty"
    "loadVestedRecipients production_host ?prod = Inr Map.empty"
    unfolding production_host_def by (rule example_conf_checks example_conf_loads)+
  note prod = isLocalDeployment_selects_branch
                [of ?prod production_host Map.empty Map.empty claim' result']
  note unset = isLocalDeployment_selects_branch
                [of "example_conf\<lparr>isLocalDeploymentVar := None\<rparr>" example_host]
  have "getDeployersAndConfig example_host ?local = Inr result"
    using local c r l by simp
  moreover have "localChainIdChecks example_host = Inr ()"
    using local r by blast
  moreover have "getDeployersAndConfig production_host ?prod = Inr result'"
    using prod c' r' p by simp
  moreover have "productionChainIdChecks production_host = Inr ()"
    using prod r' by blast
  moreover have "getDeployersAndConfig example_host (example_conf\<lparr>isLocalDeploymentVar := None\<rparr>) =
       Inl (Error [Lit ''Missing '', Lit ''isLocalDeployment'', Lit '' in env vars''])"
    using unset by simp
  ultimately show ?thesis by blast
qed

section \<open>The gas price guard and the batches\<close>

lemma bindM_Some_Inr: "m w = Some (Inr x, w') \<Longrightarrow> bindM m f w = f x w'"
  by (simp add: bindM_def)

lemma bindM_Some_Inl: "m w = Some (Inl e, w') \<Longrightarrow> bindM m f w = Some (Inl e, w')"
  by (simp add: bindM_def)

lemma bindM_None: "m w = None \<Longrightarrow> bindM m f w = None"
  by (simp add: bindM_def)

lemma occurrences_append:
  "occurrences (tr @ tr') c = occurrences tr c + occurrences tr' c"
  by (induction tr) (simp_all add: occurrences_def)

lemma occurrences_polls: "occurrences (polls k) gasPriceCall = k"
  by (induction k) (simp_all add: polls_def occurrences_def)

lemma poll_once:
  "thenM (sleep 30000) (getGasPrice env Arb) w =
     Some (number_result env gasPriceCall (occurrences (trace w) gasPriceCall),
           w\<lparr>trace := trace w @ [Sleep 30000, Chain gasPriceCall]\<rparr>)"
  by (simp add: thenM_def bindM_def sleep_def getGasPrice_def read_number_def ask_def
      gasPriceCall_def occurrences_def)

lemma polls_Suc': "polls (Suc k) = polls k @ [Sleep 30000, Chain gasPriceCall]"
  by (induction k) (simp_all add: polls_def)

lemma wait_exit:
  assumes "number_result env gasPriceCall (occurrences (trace w) gasPriceCall) = Inr BASE_GAS_PRICE"
  shows "waitForBaseGasPrice env w = Some (Inr (), w\<lparr>trace := trace w @ [Sleep 30000, Chain gasPriceCall]\<rparr>)"
  by (subst waitForBaseGasPrice.simps) (simp add: poll_once assms)

lemma wait_throw:
  assumes "number_result env gasPriceCall (occurrences (trace w) gasPriceCall) = Inl e"
  shows "waitForBaseGasPrice env w = Some (Inl e, w\<lparr>trace := trace w @ [Sleep 30000, Chain gasPriceCall]\<rparr>)"
  by (subst waitForBaseGasPrice.simps) (simp add: poll_once assms)

lemma wait_again:
  assumes "number_result env gasPriceCall (occurrences (trace w) gasPriceCall) = Inr g"
    and "g \<noteq> BASE_GAS_PRICE"
  shows "waitForBaseGasPrice env w = waitForBaseGasPrice env (w\<lparr>trace := trace w @ [Sleep 30000, Chain gasPriceCall]\<rparr>)"
  by (subst waitForBaseGasPrice.simps) (simp add: poll_once assms)

lemma wait_skip:
  assumes "\<forall>j < k. \<exists>g. number_result env gasPriceCall (occurrences (trace w) gasPriceCall + j) = Inr g
              \<and> g \<noteq> BASE_GAS_PRICE"
  shows "waitForBaseGasPrice env w = waitForBaseGasPrice env (w\<lparr>trace := trace w @ polls k\<rparr>)"
  using assms
proof (induction k)
  case 0
  then show ?case by (simp add: polls_def)
next
  case (Suc k)
  let ?w = "w\<lparr>trace := trace w @ polls k\<rparr>"
  from Suc have a: "waitForBaseGasPrice env w = waitForBaseGasPrice env ?w" by simp
  from Suc.prems obtain g where
    g: "number_result env gasPriceCall (occurrences (trace w) gasPriceCall + k) = Inr g"
    and ne: "g \<noteq> BASE_GAS_PRICE" by blast
  have o: "occurrences (trace ?w) gasPriceCall = occurrences (trace w) gasPriceCall + k"
    by (simp add: occurrences_append occurrences_polls)
  have s: "number_result env gasPriceCall (occurrences (trace ?w) gasPriceCall) = Inr g"
    unfolding o by (rule g)
  have "waitForBaseGasPrice env ?w = waitForBaseGasPrice env (?w\<lparr>trace := trace ?w @ [Sleep 30000, Chain gasPriceCall]\<rparr>)"
    by (rule wait_again[OF s ne])
  also have "?w\<lparr>trace := trace ?w @ [Sleep 30000, Chain gasPriceCall]\<rparr> = w\<lparr>trace := trace w @ polls (Suc k)\<rparr>"
    by (simp add: polls_Suc')
  finally show ?case using a by simp
qed

lemma wait_forever:
  assumes "\<forall>j. \<exists>g. number_result env gasPriceCall (occurrences (trace w) gasPriceCall + j) = Inr g
              \<and> g \<noteq> BASE_GAS_PRICE"
  shows "waitForBaseGasPrice env w = None"
proof (rule ccontr)
  assume "waitForBaseGasPrice env w \<noteq> None"
  then obtain y where y: "waitForBaseGasPrice env w = Some y" by blast
  let ?never = "\<lambda>env w. \<forall>j. \<exists>g. number_result env gasPriceCall
                    (occurrences (trace w) gasPriceCall + j) = Inr g \<and> g \<noteq> BASE_GAS_PRICE"
  have "\<not> ?never env w"
  proof (rule waitForBaseGasPrice.raw_induct[OF _ y, where P = "\<lambda>env w y. \<not> ?never env w"])
    fix wait env w and y :: "(error + unit) \<times> world"
    assume IH: "\<And>env w y. wait env w = Some y \<Longrightarrow> \<not> ?never env w"
      and body: "(case thenM (sleep 30000) (getGasPrice env Arb) w of
                    None \<Rightarrow> None
                  | Some (Inl e, w') \<Rightarrow> Some (Inl e, w')
                  | Some (Inr gasPriceBestGuess, w') \<Rightarrow>
                      if gasPriceBestGuess = BASE_GAS_PRICE then Some (Inr (), w')
                      else wait env w') = Some y"
    show "\<not> ?never env w"
    proof
      assume all: "?never env w"
      then obtain g where g: "number_result env gasPriceCall (occurrences (trace w) gasPriceCall) = Inr g"
         "g \<noteq> BASE_GAS_PRICE" by (metis add.right_neutral)
      let ?w = "w\<lparr>trace := trace w @ [Sleep 30000, Chain gasPriceCall]\<rparr>"
      have op: "occurrences [Sleep 30000, Chain gasPriceCall] gasPriceCall = 1"
        by (simp add: occurrences_def)
      from body g have "wait env ?w = Some y" by (simp add: poll_once)
      from IH[OF this] have n: "\<not> ?never env ?w" .
      have "occurrences (trace ?w) gasPriceCall + j = occurrences (trace w) gasPriceCall + Suc j" for j
        by (simp add: occurrences_append op)
      with n all show False by metis
    qed
  qed
  with assms show False by blast
qed

lemma bindM_returns:
  "bindM m f w = Some (Inr y, w') \<Longrightarrow> \<exists>x w1. m w = Some (Inr x, w1) \<and> f x w1 = Some (Inr y, w')"
  by (auto simp: bindM_def split: option.splits sum.splits prod.splits)

lemma thenM_returns:
  "thenM m k w = Some (Inr y, w') \<Longrightarrow> \<exists>x w1. m w = Some (Inr x, w1) \<and> k w1 = Some (Inr y, w')"
  unfolding thenM_def by (rule bindM_returns)

lemma wait_stops:
  assumes "\<forall>j < k. \<exists>g. number_result env gasPriceCall (occurrences (trace w) gasPriceCall + j) = Inr g
              \<and> g \<noteq> BASE_GAS_PRICE"
    and "number_result env gasPriceCall (occurrences (trace w) gasPriceCall + k) = r"
    and "\<not> (\<exists>g. r = Inr g \<and> g \<noteq> BASE_GAS_PRICE)"
  shows "waitForBaseGasPrice env w =
           Some (case r of Inl e \<Rightarrow> Inl e | Inr g \<Rightarrow> Inr (),
                 w\<lparr>trace := trace w @ polls (Suc k)\<rparr>)"
proof -
  let ?w = "w\<lparr>trace := trace w @ polls k\<rparr>"
  have o: "occurrences (trace ?w) gasPriceCall = occurrences (trace w) gasPriceCall + k"
    by (simp add: occurrences_append occurrences_polls)
  have e: "?w\<lparr>trace := trace ?w @ [Sleep 30000, Chain gasPriceCall]\<rparr> =
           w\<lparr>trace := trace w @ polls (Suc k)\<rparr>"
    by (simp add: polls_Suc')
  have "waitForBaseGasPrice env ?w =
          Some (case r of Inl e \<Rightarrow> Inl e | Inr g \<Rightarrow> Inr (),
                ?w\<lparr>trace := trace ?w @ [Sleep 30000, Chain gasPriceCall]\<rparr>)"
  proof (cases r)
    case (Inl e)
    then show ?thesis using wait_throw[of env ?w e] assms(2) o by simp
  next
    case (Inr g)
    with assms(3) have "g = BASE_GAS_PRICE" by simp
    then show ?thesis using wait_exit[of env ?w] assms(2) o Inr by simp
  qed
  then show ?thesis using wait_skip[OF assms(1)] e by simp
qed

lemma wait_cases:
  fixes env w
  defines "s \<equiv> \<lambda>j. number_result env gasPriceCall (occurrences (trace w) gasPriceCall + j)"
  shows "(\<exists>k. (\<forall>j < k. \<exists>g. s j = Inr g \<and> g \<noteq> BASE_GAS_PRICE)
              \<and> \<not> (\<exists>g. s k = Inr g \<and> g \<noteq> BASE_GAS_PRICE)
              \<and> waitForBaseGasPrice env w =
                  Some (case s k of Inl e \<Rightarrow> Inl e | Inr g \<Rightarrow> Inr (),
                        w\<lparr>trace := trace w @ polls (Suc k)\<rparr>))
         \<or> ((\<forall>j. \<exists>g. s j = Inr g \<and> g \<noteq> BASE_GAS_PRICE) \<and> waitForBaseGasPrice env w = None)"
proof (cases "\<exists>k. \<not> (\<exists>g. s k = Inr g \<and> g \<noteq> BASE_GAS_PRICE)")
  case True
  define k where "k = (LEAST k. \<not> (\<exists>g. s k = Inr g \<and> g \<noteq> BASE_GAS_PRICE))"
  from True have stop: "\<not> (\<exists>g. s k = Inr g \<and> g \<noteq> BASE_GAS_PRICE)"
    unfolding k_def by (rule LeastI_ex)
  have before: "\<forall>j < k. \<exists>g. s j = Inr g \<and> g \<noteq> BASE_GAS_PRICE"
    unfolding k_def using not_less_Least by blast
  have "waitForBaseGasPrice env w =
          Some (case s k of Inl e \<Rightarrow> Inl e | Inr g \<Rightarrow> Inr (),
                w\<lparr>trace := trace w @ polls (Suc k)\<rparr>)"
    using wait_stops[of k env w "s k"] before stop unfolding s_def by blast
  with before stop show ?thesis by blast
next
  case False
  then have all: "\<forall>j. \<exists>g. s j = Inr g \<and> g \<noteq> BASE_GAS_PRICE" by blast
  then have "waitForBaseGasPrice env w = None"
    unfolding s_def by (rule wait_forever)
  with all show ?thesis by blast
qed

lemma wait_Some:
  assumes "waitForBaseGasPrice env w = Some (r, w')"
  shows "\<exists>k. w' = w\<lparr>trace := trace w @ polls (Suc k)\<rparr>
           \<and> (\<forall>j < k. \<exists>g. number_result env gasPriceCall (occurrences (trace w) gasPriceCall + j) = Inr g
                         \<and> g \<noteq> BASE_GAS_PRICE)
           \<and> (case r of
                 Inr u \<Rightarrow> number_result env gasPriceCall (occurrences (trace w) gasPriceCall + k)
                            = Inr BASE_GAS_PRICE
               | Inl e \<Rightarrow> number_result env gasPriceCall (occurrences (trace w) gasPriceCall + k)
                            = Inl e)"
proof -
  let ?s = "\<lambda>j. number_result env gasPriceCall (occurrences (trace w) gasPriceCall + j)"
  from wait_cases[of env w] assms obtain k where
    before: "\<forall>j < k. \<exists>g. ?s j = Inr g \<and> g \<noteq> BASE_GAS_PRICE"
    and stop: "\<not> (\<exists>g. ?s k = Inr g \<and> g \<noteq> BASE_GAS_PRICE)"
    and eq: "waitForBaseGasPrice env w =
               Some (case ?s k of Inl e \<Rightarrow> Inl e | Inr g \<Rightarrow> Inr (),
                     w\<lparr>trace := trace w @ polls (Suc k)\<rparr>)"
    by auto
  from eq assms have r: "r = (case ?s k of Inl e \<Rightarrow> Inl e | Inr g \<Rightarrow> Inr ())"
    and w': "w' = w\<lparr>trace := trace w @ polls (Suc k)\<rparr>" by simp_all
  have "case r of Inr u \<Rightarrow> ?s k = Inr BASE_GAS_PRICE | Inl e \<Rightarrow> ?s k = Inl e"
  proof (cases "?s k")
    case (Inl e)
    then show ?thesis using r by simp
  next
    case (Inr g)
    with stop have "g = BASE_GAS_PRICE" by simp
    then show ?thesis using r Inr by simp
  qed
  with before w' show ?thesis by blast
qed

lemma getGasPrice_Arb:
  "getGasPrice env Arb w =
     Some (number_result env gasPriceCall (occurrences (trace w) gasPriceCall),
           w\<lparr>trace := trace w @ [Chain gasPriceCall]\<rparr>)"
  by (simp add: getGasPrice_def read_number_def ask_def gasPriceCall_def)

lemma occurrences_sampled:
  "occurrences (trace (w\<lparr>trace := trace w @ [Chain gasPriceCall]\<rparr>)) gasPriceCall + j =
   occurrences (trace w) gasPriceCall + Suc j"
  by (simp add: occurrences_append occurrences_def)

lemma guard_low:
  assumes "number_result env gasPriceCall (occurrences (trace w) gasPriceCall) = Inr g"
    and "g \<le> GAS_PRICE_UNACCEPTABLE_LIMIT"
  shows "gasPriceGuard env w = Some (Inr (), w\<lparr>trace := trace w @ [Chain gasPriceCall]\<rparr>)"
  using assms by (simp add: gasPriceGuard_def bindM_def getGasPrice_Arb returnM_def)

lemma guard_high:
  assumes "number_result env gasPriceCall (occurrences (trace w) gasPriceCall) = Inr g"
    and "g > GAS_PRICE_UNACCEPTABLE_LIMIT"
  shows "gasPriceGuard env w =
           waitForBaseGasPrice env (w\<lparr>trace := trace w @ [Chain gasPriceCall]\<rparr>)"
  using assms by (simp add: gasPriceGuard_def bindM_def getGasPrice_Arb)

lemma guard_throw:
  assumes "number_result env gasPriceCall (occurrences (trace w) gasPriceCall) = Inl e"
  shows "gasPriceGuard env w = Some (Inl e, w\<lparr>trace := trace w @ [Chain gasPriceCall]\<rparr>)"
  using assms by (simp add: gasPriceGuard_def bindM_def getGasPrice_Arb)

lemma guard_resumes:
  assumes first: "number_result env gasPriceCall (occurrences (trace w) gasPriceCall) = Inr g"
    and high: "g > GAS_PRICE_UNACCEPTABLE_LIMIT"
    and k: "1 \<le> k"
    and before: "\<forall>j. 1 \<le> j \<and> j < k \<longrightarrow>
        (\<exists>p. number_result env gasPriceCall (occurrences (trace w) gasPriceCall + j) = Inr p
              \<and> p \<noteq> BASE_GAS_PRICE)"
    and base: "number_result env gasPriceCall (occurrences (trace w) gasPriceCall + k)
                 = Inr BASE_GAS_PRICE"
  shows "gasPriceGuard env w =
           Some (Inr (), w\<lparr>trace := trace w @ Chain gasPriceCall # polls k\<rparr>)"
proof -
  let ?w = "w\<lparr>trace := trace w @ [Chain gasPriceCall]\<rparr>"
  obtain k' where k': "k = Suc k'" using k by (cases k) auto
  have b: "\<forall>j < k'. \<exists>p. number_result env gasPriceCall (occurrences (trace ?w) gasPriceCall + j) = Inr p
              \<and> p \<noteq> BASE_GAS_PRICE"
    unfolding occurrences_sampled using before k' by auto
  have s: "number_result env gasPriceCall (occurrences (trace ?w) gasPriceCall + k')
             = Inr BASE_GAS_PRICE"
    unfolding occurrences_sampled using base k' by simp
  have "waitForBaseGasPrice env ?w = Some (Inr (), ?w\<lparr>trace := trace ?w @ polls (Suc k')\<rparr>)"
    using wait_stops[OF b s] by simp
  then show ?thesis using guard_high[OF first high] k' by simp
qed

lemma guard_returned:
  assumes first: "number_result env gasPriceCall (occurrences (trace w) gasPriceCall) = Inr g"
    and high: "g > GAS_PRICE_UNACCEPTABLE_LIMIT"
    and ret: "gasPriceGuard env w = Some (Inr (), w')"
  shows "\<exists>k. 1 \<le> k
           \<and> number_result env gasPriceCall (occurrences (trace w) gasPriceCall + k)
                = Inr BASE_GAS_PRICE
           \<and> (\<forall>j. 1 \<le> j \<and> j < k \<longrightarrow>
                (\<exists>p. number_result env gasPriceCall (occurrences (trace w) gasPriceCall + j) = Inr p
                      \<and> p \<noteq> BASE_GAS_PRICE))
           \<and> w' = w\<lparr>trace := trace w @ Chain gasPriceCall # polls k\<rparr>"
proof -
  let ?w = "w\<lparr>trace := trace w @ [Chain gasPriceCall]\<rparr>"
  from ret guard_high[OF first high] have "waitForBaseGasPrice env ?w = Some (Inr (), w')"
    by simp
  from wait_Some[OF this] obtain k where
    w': "w' = ?w\<lparr>trace := trace ?w @ polls (Suc k)\<rparr>"
    and before: "\<forall>j < k. \<exists>g. number_result env gasPriceCall
                     (occurrences (trace ?w) gasPriceCall + j) = Inr g \<and> g \<noteq> BASE_GAS_PRICE"
    and base: "number_result env gasPriceCall (occurrences (trace ?w) gasPriceCall + k)
                 = Inr BASE_GAS_PRICE"
    by auto
  have "\<forall>j. 1 \<le> j \<and> j < Suc k \<longrightarrow>
                (\<exists>p. number_result env gasPriceCall (occurrences (trace w) gasPriceCall + j) = Inr p
                      \<and> p \<noteq> BASE_GAS_PRICE)"
  proof (intro allI impI)
    fix j assume j: "1 \<le> j \<and> j < Suc k"
    then obtain j' where "j = Suc j'" "j' < k" by (cases j) auto
    with before show "\<exists>p. number_result env gasPriceCall (occurrences (trace w) gasPriceCall + j) = Inr p
                      \<and> p \<noteq> BASE_GAS_PRICE"
      unfolding occurrences_sampled by simp
  qed
  moreover have "number_result env gasPriceCall (occurrences (trace w) gasPriceCall + Suc k)
                = Inr BASE_GAS_PRICE" using base unfolding occurrences_sampled .
  moreover have "w' = w\<lparr>trace := trace w @ Chain gasPriceCall # polls (Suc k)\<rparr>"
    using w' by simp
  ultimately show ?thesis by (intro exI[of _ "Suc k"]) simp
qed

lemma guard_never:
  assumes first: "number_result env gasPriceCall (occurrences (trace w) gasPriceCall) = Inr g"
    and high: "g > GAS_PRICE_UNACCEPTABLE_LIMIT"
    and never: "\<forall>j. 1 \<le> j \<longrightarrow>
        (\<exists>p. number_result env gasPriceCall (occurrences (trace w) gasPriceCall + j) = Inr p
              \<and> p \<noteq> BASE_GAS_PRICE)"
  shows "gasPriceGuard env w = None"
proof -
  let ?w = "w\<lparr>trace := trace w @ [Chain gasPriceCall]\<rparr>"
  have "\<forall>j. \<exists>p. number_result env gasPriceCall (occurrences (trace ?w) gasPriceCall + j) = Inr p
              \<and> p \<noteq> BASE_GAS_PRICE"
  proof
    fix j
    from never have "\<exists>p. number_result env gasPriceCall
        (occurrences (trace w) gasPriceCall + Suc j) = Inr p \<and> p \<noteq> BASE_GAS_PRICE"
      by (metis Suc_le_mono One_nat_def le0)
    then show "\<exists>p. number_result env gasPriceCall (occurrences (trace ?w) gasPriceCall + j) = Inr p
              \<and> p \<noteq> BASE_GAS_PRICE"
      unfolding occurrences_sampled .
  qed
  then have "waitForBaseGasPrice env ?w = None" by (rule wait_forever)
  then show ?thesis using guard_high[OF first high] by simp
qed

text \<open>
  Claim C2. Let the samples be counted from the one that the guard takes first. When the
  first sample is at most the ceiling, the guard returns at once: one sample, no sleep.
  When it is above the ceiling, the guard sleeps and samples again, round after round, and
  returns after the first later sample that equals the base gas price; a run that has
  returned has seen such a sample, and none before it. When no later sample ever equals
  the base gas price, the guard never returns, even if the samples are below the ceiling.
\<close>

theorem gasPriceGuard_resume:
  "(number_result env gasPriceCall (occurrences (trace w) gasPriceCall) = Inr g
      \<and> g \<le> GAS_PRICE_UNACCEPTABLE_LIMIT \<longrightarrow>
      gasPriceGuard env w = Some (Inr (), w\<lparr>trace := trace w @ [Chain gasPriceCall]\<rparr>))
   \<and> (number_result env gasPriceCall (occurrences (trace w) gasPriceCall) = Inr g
      \<and> GAS_PRICE_UNACCEPTABLE_LIMIT < g \<and> 1 \<le> k
      \<and> (\<forall>j. 1 \<le> j \<and> j < k \<longrightarrow>
            (\<exists>p. number_result env gasPriceCall (occurrences (trace w) gasPriceCall + j) = Inr p
                  \<and> p \<noteq> BASE_GAS_PRICE))
      \<and> number_result env gasPriceCall (occurrences (trace w) gasPriceCall + k)
            = Inr BASE_GAS_PRICE \<longrightarrow>
      gasPriceGuard env w =
        Some (Inr (), w\<lparr>trace := trace w @ Chain gasPriceCall # polls k\<rparr>))
   \<and> (number_result env gasPriceCall (occurrences (trace w) gasPriceCall) = Inr g
      \<and> GAS_PRICE_UNACCEPTABLE_LIMIT < g \<and> gasPriceGuard env w = Some (Inr (), w') \<longrightarrow>
      (\<exists>k. 1 \<le> k
         \<and> number_result env gasPriceCall (occurrences (trace w) gasPriceCall + k)
              = Inr BASE_GAS_PRICE
         \<and> (\<forall>j. 1 \<le> j \<and> j < k \<longrightarrow>
              (\<exists>p. number_result env gasPriceCall (occurrences (trace w) gasPriceCall + j) = Inr p
                    \<and> p \<noteq> BASE_GAS_PRICE))
         \<and> w' = w\<lparr>trace := trace w @ Chain gasPriceCall # polls k\<rparr>))
   \<and> (number_result env gasPriceCall (occurrences (trace w) gasPriceCall) = Inr g
      \<and> GAS_PRICE_UNACCEPTABLE_LIMIT < g
      \<and> (\<forall>j. 1 \<le> j \<longrightarrow>
            (\<exists>p. number_result env gasPriceCall (occurrences (trace w) gasPriceCall + j) = Inr p
                  \<and> p \<noteq> BASE_GAS_PRICE)) \<longrightarrow>
      gasPriceGuard env w = None)"
  using guard_low[of env w g] guard_resumes[of env w g k] guard_returned[of env w g w']
    guard_never[of env w g]
  by blast

theorem gasPriceGuard_resume_witness:
  "gasPriceGuard (env_sampling [150000000, 130000000, 100000000] 100000000) (fresh Map.empty) =
     Some (Inr (),
           \<lparr>trace = [Chain gasPriceCall, Sleep 30000, Chain gasPriceCall, Sleep 30000,
                     Chain gasPriceCall],
            deployedContracts = [], files = Map.empty\<rparr>)
   \<and> gasPriceGuard (env_sampling [80000000] 80000000) (fresh Map.empty) =
     Some (Inr (), \<lparr>trace = [Chain gasPriceCall], deployedContracts = [], files = Map.empty\<rparr>)
   \<and> gasPriceGuard (env_sampling [150000000] 110000000) (fresh Map.empty) = None"
proof (intro conjI)
  let ?w = "fresh Map.empty"
  have o: "occurrences (trace ?w) gasPriceCall = 0"
    by (simp add: fresh_def occurrences_def)
  let ?env = "env_sampling [150000000, 130000000, 100000000] 100000000"
  have first: "number_result ?env gasPriceCall (occurrences (trace ?w) gasPriceCall) = Inr 150000000"
    unfolding o by (simp add: env_sampling_def)
  have high: "GAS_PRICE_UNACCEPTABLE_LIMIT < 150000000"
    by (simp add: GAS_PRICE_UNACCEPTABLE_LIMIT_def)
  have before: "\<forall>j. 1 \<le> j \<and> j < 2 \<longrightarrow>
       (\<exists>p. number_result ?env gasPriceCall (occurrences (trace ?w) gasPriceCall + j) = Inr p
             \<and> p \<noteq> BASE_GAS_PRICE)"
  proof (intro allI impI)
    fix j :: nat assume "1 \<le> j \<and> j < 2"
    then have "j = 1" by simp
    then show "\<exists>p. number_result ?env gasPriceCall (occurrences (trace ?w) gasPriceCall + j) = Inr p
             \<and> p \<noteq> BASE_GAS_PRICE"
      unfolding o by (simp add: env_sampling_def BASE_GAS_PRICE_def)
  qed
  have base: "number_result ?env gasPriceCall (occurrences (trace ?w) gasPriceCall + 2)
                = Inr BASE_GAS_PRICE"
    unfolding o by (simp add: env_sampling_def BASE_GAS_PRICE_def)
  from gasPriceGuard_resume[of ?env ?w 150000000 2] first high before base
  have "gasPriceGuard ?env ?w = Some (Inr (), ?w\<lparr>trace := trace ?w @ Chain gasPriceCall # polls 2\<rparr>)"
    by simp
  then show "gasPriceGuard ?env ?w =
     Some (Inr (),
           \<lparr>trace = [Chain gasPriceCall, Sleep 30000, Chain gasPriceCall, Sleep 30000,
                     Chain gasPriceCall],
            deployedContracts = [], files = Map.empty\<rparr>)"
    by (simp add: fresh_def polls_def numeral_2_eq_2)
next
  let ?w = "fresh Map.empty"
  have o: "occurrences (trace ?w) gasPriceCall = 0"
    by (simp add: fresh_def occurrences_def)
  let ?env = "env_sampling [80000000] 80000000"
  have first: "number_result ?env gasPriceCall (occurrences (trace ?w) gasPriceCall) = Inr 80000000"
    unfolding o by (simp add: env_sampling_def)
  have low: "80000000 \<le> GAS_PRICE_UNACCEPTABLE_LIMIT"
    by (simp add: GAS_PRICE_UNACCEPTABLE_LIMIT_def)
  from gasPriceGuard_resume[of ?env ?w 80000000] first low
  have "gasPriceGuard ?env ?w = Some (Inr (), ?w\<lparr>trace := trace ?w @ [Chain gasPriceCall]\<rparr>)"
    by simp
  then show "gasPriceGuard ?env ?w =
     Some (Inr (), \<lparr>trace = [Chain gasPriceCall], deployedContracts = [], files = Map.empty\<rparr>)"
    by (simp add: fresh_def)
next
  let ?w = "fresh Map.empty"
  have o: "occurrences (trace ?w) gasPriceCall = 0"
    by (simp add: fresh_def occurrences_def)
  let ?env = "env_sampling [150000000] 110000000"
  have first: "number_result ?env gasPriceCall (occurrences (trace ?w) gasPriceCall) = Inr 150000000"
    unfolding o by (simp add: env_sampling_def)
  have high: "GAS_PRICE_UNACCEPTABLE_LIMIT < 150000000"
    by (simp add: GAS_PRICE_UNACCEPTABLE_LIMIT_def)
  have never: "\<forall>j. 1 \<le> j \<longrightarrow>
       (\<exists>p. number_result ?env gasPriceCall (occurrences (trace ?w) gasPriceCall + j) = Inr p
             \<and> p \<noteq> BASE_GAS_PRICE)"
    unfolding o by (simp add: env_sampling_def BASE_GAS_PRICE_def)
  from gasPriceGuard_resume[of ?env ?w 150000000] first high never
  show "gasPriceGuard ?env ?w = None" by simp
qed

lemma transactions_append: "transactions (a @ b) = transactions a @ transactions b"
  by (simp add: transactions_def)

lemma transactions_Nil: "transactions [] = []"
  by (simp add: transactions_def)

lemma transactions_Cons:
  "transactions (x # xs) = (if is_transaction x then x # transactions xs else transactions xs)"
  by (simp add: transactions_def)

lemma not_transaction_sample: "\<not> is_transaction (Chain gasPriceCall)"
  by (simp add: gasPriceCall_def)

lemma transactions_polls: "transactions (polls k) = []"
  by (induction k) (simp_all add: polls_def transactions_def gasPriceCall_def)

lemma guard_trace:
  assumes "gasPriceGuard env w = Some (r, w')"
  shows "\<exists>evs. w' = w\<lparr>trace := trace w @ evs\<rparr> \<and> transactions evs = []"
proof (cases "number_result env gasPriceCall (occurrences (trace w) gasPriceCall)")
  case (Inl e)
  from assms guard_throw[OF Inl] show ?thesis
    by (intro exI[of _ "[Chain gasPriceCall]"]) (simp add: transactions_def gasPriceCall_def)
next
  case (Inr g)
  show ?thesis
  proof (cases "g > GAS_PRICE_UNACCEPTABLE_LIMIT")
    case False
    with assms guard_low[OF Inr] show ?thesis
      by (intro exI[of _ "[Chain gasPriceCall]"])
         (simp add: transactions_Cons transactions_Nil not_transaction_sample)
  next
    case True
    let ?w = "w\<lparr>trace := trace w @ [Chain gasPriceCall]\<rparr>"
    from assms guard_high[OF Inr True] have "waitForBaseGasPrice env ?w = Some (r, w')" by simp
    from wait_Some[OF this] obtain k where "w' = ?w\<lparr>trace := trace ?w @ polls (Suc k)\<rparr>"
      by blast
    then show ?thesis
      by (intro exI[of _ "Chain gasPriceCall # polls (Suc k)"])
         (simp add: transactions_Cons transactions_polls not_transaction_sample)
  qed
qed

lemma sleep_run: "sleep ms w = Some (Inr (), w\<lparr>trace := trace w @ [Sleep ms]\<rparr>)"
  by (simp add: sleep_def)

lemma setRecipients_returns:
  assumes "setRecipients env td rs as w = Some (Inr u, w')"
  shows "w' = w\<lparr>trace := trace w @ [setRecipients_call td rs as]\<rparr>"
  using assms
  by (auto simp: setRecipients_def thenM_def bindM_def transact_def ask_def returnM_def
      setRecipients_call_def split: sum.splits)

lemma loop_submits:
  "setClaimRecipients_loop env td rs as n i w = Some (Inr (), w') \<Longrightarrow>
   transactions (trace w') =
     transactions (trace w)
     @ map (\<lambda>j. setRecipients_call td (slice rs (j * BATCH_SIZE) ((j + 1) * BATCH_SIZE))
                                        (slice as (j * BATCH_SIZE) ((j + 1) * BATCH_SIZE)))
           [i..<n]
     @ (if i \<le> n \<and> length rs \<noteq> n * BATCH_SIZE
        then [setRecipients_call td (slice_from rs (n * BATCH_SIZE))
                                    (slice_from as (n * BATCH_SIZE))]
        else [])"
proof (induction env td rs as n i arbitrary: w w' rule: setClaimRecipients_loop.induct)
  case (1 env td rs as n i)
  let ?full = "\<lambda>j. setRecipients_call td (slice rs (j * BATCH_SIZE) ((j + 1) * BATCH_SIZE))
                                        (slice as (j * BATCH_SIZE) ((j + 1) * BATCH_SIZE))"
  let ?rest = "setRecipients_call td (slice_from rs (n * BATCH_SIZE))
                                    (slice_from as (n * BATCH_SIZE))"
  have tx: "transactions [x] = [x]" if "is_transaction x" for x
    using that by (simp add: transactions_def)
  have is_tx: "is_transaction (setRecipients_call td a b)" for a b
    by (simp add: setRecipients_call_def)
  show ?case
  proof (cases "i \<le> n")
    case False
    with "1.prems" have "w' = w"
      by (subst (asm) setClaimRecipients_loop.simps) (simp add: returnM_def)
    with False show ?thesis by simp
  next
    case True
    from "1.prems" True have run:
      "thenM (gasPriceGuard env)
         (thenM (sleep 1000)
           (if i < n then
              thenM (setRecipients env td (slice rs (i * BATCH_SIZE) ((i + 1) * BATCH_SIZE))
                       (slice as (i * BATCH_SIZE) ((i + 1) * BATCH_SIZE)))
                (setClaimRecipients_loop env td rs as n (i + 1))
            else if length rs = n * BATCH_SIZE then returnM ()
            else
              thenM (setRecipients env td (slice_from rs (i * BATCH_SIZE))
                       (slice_from as (i * BATCH_SIZE)))
                (setClaimRecipients_loop env td rs as n (i + 1)))) w = Some (Inr (), w')"
      by (subst (asm) setClaimRecipients_loop.simps) simp
    from thenM_returns[OF run] obtain x w1 where
      g: "gasPriceGuard env w = Some (Inr x, w1)"
      and run1: "thenM (sleep 1000)
           (if i < n then
              thenM (setRecipients env td (slice rs (i * BATCH_SIZE) ((i + 1) * BATCH_SIZE))
                       (slice as (i * BATCH_SIZE) ((i + 1) * BATCH_SIZE)))
                (setClaimRecipients_loop env td rs as n (i + 1))
            else if length rs = n * BATCH_SIZE then returnM ()
            else
              thenM (setRecipients env td (slice_from rs (i * BATCH_SIZE))
                       (slice_from as (i * BATCH_SIZE)))
                (setClaimRecipients_loop env td rs as n (i + 1))) w1 = Some (Inr (), w')"
      by blast
    from guard_trace[OF g] have t1: "transactions (trace w1) = transactions (trace w)"
      by (auto simp: transactions_append)
    let ?w2 = "w1\<lparr>trace := trace w1 @ [Sleep 1000]\<rparr>"
    have t2: "transactions (trace ?w2) = transactions (trace w)"
      using t1 by (simp add: transactions_append transactions_Cons transactions_Nil)
    from run1 have run2:
      "(if i < n then
              thenM (setRecipients env td (slice rs (i * BATCH_SIZE) ((i + 1) * BATCH_SIZE))
                       (slice as (i * BATCH_SIZE) ((i + 1) * BATCH_SIZE)))
                (setClaimRecipients_loop env td rs as n (i + 1))
            else if length rs = n * BATCH_SIZE then returnM ()
            else
              thenM (setRecipients env td (slice_from rs (i * BATCH_SIZE))
                       (slice_from as (i * BATCH_SIZE)))
                (setClaimRecipients_loop env td rs as n (i + 1))) ?w2 = Some (Inr (), w')"
      by (simp add: thenM_def bindM_def sleep_run)
    show ?thesis
    proof (cases "i < n")
      case less: True
      with run2 have "thenM (setRecipients env td (slice rs (i * BATCH_SIZE) ((i + 1) * BATCH_SIZE))
                       (slice as (i * BATCH_SIZE) ((i + 1) * BATCH_SIZE)))
                (setClaimRecipients_loop env td rs as n (i + 1)) ?w2 = Some (Inr (), w')" by simp
      from thenM_returns[OF this] obtain u w3 where
        s: "setRecipients env td (slice rs (i * BATCH_SIZE) ((i + 1) * BATCH_SIZE))
                       (slice as (i * BATCH_SIZE) ((i + 1) * BATCH_SIZE)) ?w2 = Some (Inr u, w3)"
        and rec: "setClaimRecipients_loop env td rs as n (i + 1) w3 = Some (Inr (), w')"
        by blast
      from setRecipients_returns[OF s] have
        t3: "transactions (trace w3) = transactions (trace w) @ [?full i]"
        using t1 by (simp add: transactions_append transactions_Cons transactions_Nil is_tx)
      from "1.IH"(1)[OF True less rec] t3 less
      show ?thesis by (simp add: upt_conv_Cons)
    next
      case notless: False
      with True have eq: "i = n" by simp
      show ?thesis
      proof (cases "length rs = n * BATCH_SIZE")
        case exact: True
        with run2 notless have "w' = ?w2" by (simp add: returnM_def)
        with t2 exact eq show ?thesis by simp
      next
        case rem: False
        with run2 notless have "thenM (setRecipients env td (slice_from rs (i * BATCH_SIZE))
                       (slice_from as (i * BATCH_SIZE)))
                (setClaimRecipients_loop env td rs as n (i + 1)) ?w2 = Some (Inr (), w')" by simp
        from thenM_returns[OF this] obtain u w3 where
          s: "setRecipients env td (slice_from rs (i * BATCH_SIZE))
                       (slice_from as (i * BATCH_SIZE)) ?w2 = Some (Inr u, w3)"
          and rec: "setClaimRecipients_loop env td rs as n (i + 1) w3 = Some (Inr (), w')"
          by blast
        from setRecipients_returns[OF s] have
          t3: "transactions (trace w3) = transactions (trace w) @ [?rest]"
          using t1 eq by (simp add: transactions_append transactions_Cons transactions_Nil is_tx)
        from "1.IH"(2)[OF True notless rem rec] t3 eq rem
        show ?thesis by simp
      qed
    qed
  qed
qed

lemma on_trace_keeps_files:
  assumes "on_trace m" and "m w = Some (r, w')"
  shows "files w' = files w"
proof -
  from assms(1) have "m (w\<lparr>files := files w\<rparr>) =
      map_option (\<lambda>(r, w'). (r, w'\<lparr>files := files w\<rparr>)) (m w)"
    unfolding on_trace_def by blast
  with assms(2) have "w' = w'\<lparr>files := files w\<rparr>" by simp
  then have "files w' = files (w'\<lparr>files := files w\<rparr>)" by simp
  then show ?thesis by simp
qed

lemma on_trace_extends:
  assumes "on_trace m" and "m w = Some (r, w')"
  shows "\<exists>evs. trace w' = trace w @ evs"
  using assms unfolding on_trace_def by blast

lemma store_blind_keeps:
  assumes "store_blind m" and "m w = Some (r, w')"
  shows "deployedContracts w' = deployedContracts w"
proof -
  from assms(1) have "m (w\<lparr>deployedContracts := deployedContracts w\<rparr>) =
      map_option (\<lambda>(r, w'). (r, w'\<lparr>deployedContracts := deployedContracts w\<rparr>)) (m w)"
    unfolding store_blind_def by blast
  with assms(2) have "w' = w'\<lparr>deployedContracts := deployedContracts w\<rparr>" by simp
  then have "deployedContracts w' = deployedContracts (w'\<lparr>deployedContracts := deployedContracts w\<rparr>)"
    by simp
  then show ?thesis by simp
qed

lemma on_trace_returnM [on_trace_intros]: "on_trace (returnM x)"
  by (simp add: on_trace_def returnM_def)

lemma on_trace_throwM [on_trace_intros]: "on_trace (throwM e)"
  by (simp add: on_trace_def throwM_def)

lemma on_trace_liftE [on_trace_intros]: "on_trace (liftE r)"
  by (simp add: on_trace_def liftE_def)

lemma on_trace_ask [on_trace_intros]: "on_trace (ask answer c)"
  by (simp add: on_trace_def ask_def)

lemma on_trace_sleep [on_trace_intros]: "on_trace (sleep ms)"
  by (simp add: on_trace_def sleep_def)

lemma on_trace_store [on_trace_intros]: "on_trace (store key address)"
  by (simp add: on_trace_def store_def)

lemma on_trace_bindM [on_trace_intros]:
  assumes m: "on_trace m" and f: "\<And>x. on_trace (f x)"
  shows "on_trace (bindM m f)"
  unfolding on_trace_def
proof (intro conjI allI impI)
  fix w fs
  have mw: "m (w\<lparr>files := fs\<rparr>) = map_option (\<lambda>(r, w'). (r, w'\<lparr>files := fs\<rparr>)) (m w)"
    using m unfolding on_trace_def by blast
  show "bindM m f (w\<lparr>files := fs\<rparr>) =
          map_option (\<lambda>(r, w'). (r, w'\<lparr>files := fs\<rparr>)) (bindM m f w)"
  proof (cases "m w")
    case None
    then show ?thesis using mw by (simp add: bindM_def)
  next
    case (Some a)
    obtain r w1 where a: "a = (r, w1)" by (cases a)
    show ?thesis
    proof (cases r)
      case (Inl e)
      then show ?thesis using mw Some a by (simp add: bindM_def)
    next
      case (Inr x)
      have "f x (w1\<lparr>files := fs\<rparr>) = map_option (\<lambda>(r, w'). (r, w'\<lparr>files := fs\<rparr>)) (f x w1)"
        using f[of x] unfolding on_trace_def by blast
      then show ?thesis using mw Some a Inr by (simp add: bindM_def)
    qed
  qed
next
  fix w r w' assume run: "bindM m f w = Some (r, w')"
  show "\<exists>evs. trace w' = trace w @ evs"
  proof (cases "m w")
    case None
    with run show ?thesis by (simp add: bindM_def)
  next
    case (Some a)
    obtain r1 w1 where a: "a = (r1, w1)" by (cases a)
    from on_trace_extends[OF m] Some a obtain evs1 where e1: "trace w1 = trace w @ evs1" by blast
    show ?thesis
    proof (cases r1)
      case (Inl e)
      with run Some a have "w' = w1" by (simp add: bindM_def)
      with e1 show ?thesis by blast
    next
      case (Inr x)
      with run Some a have "f x w1 = Some (r, w')" by (simp add: bindM_def)
      from on_trace_extends[OF f this] obtain evs2 where "trace w' = trace w1 @ evs2" by blast
      with e1 show ?thesis by simp
    qed
  qed
qed

lemma on_trace_thenM [on_trace_intros]:
  "on_trace m \<Longrightarrow> on_trace k \<Longrightarrow> on_trace (thenM m k)"
  unfolding thenM_def by (rule on_trace_bindM)

lemma on_trace_if [on_trace_intros]:
  "(b \<Longrightarrow> on_trace m) \<Longrightarrow> (\<not> b \<Longrightarrow> on_trace k) \<Longrightarrow> on_trace (if b then m else k)"
  by simp

lemma on_trace_case_prod [on_trace_intros]:
  "(\<And>a b. on_trace (f a b)) \<Longrightarrow> on_trace (case p of (a, b) \<Rightarrow> f a b)"
  by (cases p) simp

lemma store_blind_returnM [store_blind_intros]: "store_blind (returnM x)"
  by (simp add: store_blind_def returnM_def)

lemma store_blind_liftE [store_blind_intros]: "store_blind (liftE r)"
  by (simp add: store_blind_def liftE_def)

lemma store_blind_ask [store_blind_intros]: "store_blind (ask answer c)"
  by (simp add: store_blind_def ask_def)

lemma store_blind_sleep [store_blind_intros]: "store_blind (sleep ms)"
  by (simp add: store_blind_def sleep_def)

lemma store_blind_bindM [store_blind_intros]:
  assumes m: "store_blind m" and f: "\<And>x. store_blind (f x)"
  shows "store_blind (bindM m f)"
  unfolding store_blind_def
proof (intro allI)
  fix w d
  have mw: "m (w\<lparr>deployedContracts := d\<rparr>) =
              map_option (\<lambda>(r, w'). (r, w'\<lparr>deployedContracts := d\<rparr>)) (m w)"
    using m unfolding store_blind_def by blast
  show "bindM m f (w\<lparr>deployedContracts := d\<rparr>) =
          map_option (\<lambda>(r, w'). (r, w'\<lparr>deployedContracts := d\<rparr>)) (bindM m f w)"
  proof (cases "m w")
    case None
    then show ?thesis using mw by (simp add: bindM_def)
  next
    case (Some a)
    obtain r w1 where a: "a = (r, w1)" by (cases a)
    show ?thesis
    proof (cases r)
      case (Inl e)
      then show ?thesis using mw Some a by (simp add: bindM_def)
    next
      case (Inr x)
      have "f x (w1\<lparr>deployedContracts := d\<rparr>) =
              map_option (\<lambda>(r, w'). (r, w'\<lparr>deployedContracts := d\<rparr>)) (f x w1)"
        using f[of x] unfolding store_blind_def by blast
      then show ?thesis using mw Some a Inr by (simp add: bindM_def)
    qed
  qed
qed

lemma store_blind_thenM [store_blind_intros]:
  "store_blind m \<Longrightarrow> store_blind k \<Longrightarrow> store_blind (thenM m k)"
  unfolding thenM_def by (rule store_blind_bindM)

lemma store_blind_if [store_blind_intros]:
  "(b \<Longrightarrow> store_blind m) \<Longrightarrow> (\<not> b \<Longrightarrow> store_blind k) \<Longrightarrow> store_blind (if b then m else k)"
  by simp

lemma store_blind_case_prod [store_blind_intros]:
  "(\<And>a b. store_blind (f a b)) \<Longrightarrow> store_blind (case p of (a, b) \<Rightarrow> f a b)"
  by (cases p) simp

lemma wait_same_trace:
  assumes "trace v = trace w"
  shows "waitForBaseGasPrice env v =
           map_option (\<lambda>(r, w'). (r, v\<lparr>trace := trace w'\<rparr>)) (waitForBaseGasPrice env w)"
  using wait_cases[of env w]
proof (elim disjE exE conjE)
  fix k
  assume before: "\<forall>j<k. \<exists>g. number_result env gasPriceCall
                     (occurrences (trace w) gasPriceCall + j) = Inr g \<and> g \<noteq> BASE_GAS_PRICE"
    and stop: "\<not> (\<exists>g. number_result env gasPriceCall
                     (occurrences (trace w) gasPriceCall + k) = Inr g \<and> g \<noteq> BASE_GAS_PRICE)"
    and eq: "waitForBaseGasPrice env w =
               Some (case number_result env gasPriceCall
                            (occurrences (trace w) gasPriceCall + k) of
                       Inl e \<Rightarrow> Inl e | Inr g \<Rightarrow> Inr (),
                     w\<lparr>trace := trace w @ polls (Suc k)\<rparr>)"
  have "waitForBaseGasPrice env v =
          Some (case number_result env gasPriceCall
                            (occurrences (trace w) gasPriceCall + k) of
                  Inl e \<Rightarrow> Inl e | Inr g \<Rightarrow> Inr (),
                v\<lparr>trace := trace v @ polls (Suc k)\<rparr>)"
  proof (rule wait_stops)
    show "\<forall>j<k. \<exists>g. number_result env gasPriceCall
                     (occurrences (trace v) gasPriceCall + j) = Inr g \<and> g \<noteq> BASE_GAS_PRICE"
      unfolding assms by (rule before)
    show "number_result env gasPriceCall (occurrences (trace v) gasPriceCall + k) =
          number_result env gasPriceCall (occurrences (trace w) gasPriceCall + k)"
      unfolding assms ..
    show "\<not> (\<exists>g. number_result env gasPriceCall
                     (occurrences (trace w) gasPriceCall + k) = Inr g \<and> g \<noteq> BASE_GAS_PRICE)"
      by (rule stop)
  qed
  then show ?thesis unfolding eq assms by simp
next
  assume never: "\<forall>j. \<exists>g. number_result env gasPriceCall
                     (occurrences (trace w) gasPriceCall + j) = Inr g \<and> g \<noteq> BASE_GAS_PRICE"
    and eq: "waitForBaseGasPrice env w = None"
  have "waitForBaseGasPrice env v = None"
  proof (rule wait_forever)
    show "\<forall>j. \<exists>g. number_result env gasPriceCall
                     (occurrences (trace v) gasPriceCall + j) = Inr g \<and> g \<noteq> BASE_GAS_PRICE"
      unfolding assms by (rule never)
  qed
  then show ?thesis unfolding eq by simp
qed

lemma on_trace_wait [on_trace_intros]: "on_trace (waitForBaseGasPrice env)"
  unfolding on_trace_def
proof (intro conjI allI impI)
  fix w fs
  show "waitForBaseGasPrice env (w\<lparr>files := fs\<rparr>) =
          map_option (\<lambda>(r, w'). (r, w'\<lparr>files := fs\<rparr>)) (waitForBaseGasPrice env w)"
  proof (cases "waitForBaseGasPrice env w")
    case None
    then show ?thesis using wait_same_trace[of "w\<lparr>files := fs\<rparr>" w env] by simp
  next
    case (Some a)
    obtain r w' where a: "a = (r, w')" by (cases a)
    from wait_Some[of env w r w'] Some a obtain k where
      "w' = w\<lparr>trace := trace w @ polls (Suc k)\<rparr>" by blast
    then show ?thesis using wait_same_trace[of "w\<lparr>files := fs\<rparr>" w env] Some a by simp
  qed
next
  fix w r w' assume "waitForBaseGasPrice env w = Some (r, w')"
  from wait_Some[OF this] show "\<exists>evs. trace w' = trace w @ evs" by auto
qed

lemma store_blind_wait [store_blind_intros]: "store_blind (waitForBaseGasPrice env)"
  unfolding store_blind_def
proof (intro allI)
  fix w d
  show "waitForBaseGasPrice env (w\<lparr>deployedContracts := d\<rparr>) =
          map_option (\<lambda>(r, w'). (r, w'\<lparr>deployedContracts := d\<rparr>)) (waitForBaseGasPrice env w)"
  proof (cases "waitForBaseGasPrice env w")
    case None
    then show ?thesis using wait_same_trace[of "w\<lparr>deployedContracts := d\<rparr>" w env] by simp
  next
    case (Some a)
    obtain r w' where a: "a = (r, w')" by (cases a)
    from wait_Some[of env w r w'] Some a obtain k where
      "w' = w\<lparr>trace := trace w @ polls (Suc k)\<rparr>" by blast
    then show ?thesis
      using wait_same_trace[of "w\<lparr>deployedContracts := d\<rparr>" w env] Some a by simp
  qed
qed

lemmas io_defs =
  deploy_def deployed_def transact_def read_address_def read_number_def getGasPrice_def
  waitForStatus_def

lemma on_trace_guard [on_trace_intros]: "on_trace (gasPriceGuard env)"
  unfolding gasPriceGuard_def io_defs by (intro on_trace_intros)

lemma store_blind_guard [store_blind_intros]: "store_blind (gasPriceGuard env)"
  unfolding gasPriceGuard_def io_defs by (intro store_blind_intros)

lemma on_trace_setRecipients [on_trace_intros]: "on_trace (setRecipients env td rs as)"
  unfolding setRecipients_def io_defs by (intro on_trace_intros)

lemma store_blind_setRecipients [store_blind_intros]: "store_blind (setRecipients env td rs as)"
  unfolding setRecipients_def io_defs by (intro store_blind_intros)

lemma on_trace_loop [on_trace_intros]: "on_trace (setClaimRecipients_loop env td rs as n i)"
proof (induction env td rs as n i rule: setClaimRecipients_loop.induct)
  case (1 env td rs as n i)
  show ?case
    apply (subst setClaimRecipients_loop.simps)
    apply (intro on_trace_intros)
     apply (rule 1(1); assumption)
    apply (rule 1(2); assumption)
    done
qed

lemma store_blind_loop [store_blind_intros]:
  "store_blind (setClaimRecipients_loop env td rs as n i)"
proof (induction env td rs as n i rule: setClaimRecipients_loop.induct)
  case (1 env td rs as n i)
  show ?case
    apply (subst setClaimRecipients_loop.simps)
    apply (intro store_blind_intros)
     apply (rule 1(1); assumption)
    apply (rule 1(2); assumption)
    done
qed

lemma on_trace_setClaimRecipients [on_trace_intros]: "on_trace (setClaimRecipients env td)"
  unfolding setClaimRecipients_def Let_def by (intro on_trace_intros)

lemma store_blind_setClaimRecipients [store_blind_intros]:
  "store_blind (setClaimRecipients env td)"
  unfolding setClaimRecipients_def Let_def by (intro store_blind_intros)

lemma on_trace_waitForL2TXs [on_trace_intros]: "on_trace (waitForL2TXs env)"
  unfolding waitForL2TXs_def io_defs by (intro on_trace_intros)

lemma on_trace_steps [on_trace_intros]:
  "on_trace (deployL1LogicContracts env)"
  "on_trace (deployL2LogicContracts env)"
  "on_trace (deployL1GovernanceFactory env)"
  "on_trace (deployAndInitL1Token env)"
  "on_trace (deployL2GovernanceFactory env a b c d e)"
  "on_trace (deployNovaUpgradeExecutor env)"
  "on_trace (deployTokenToNova env a b)"
  "on_trace (initL2Governance env a b)"
  "on_trace (initL1Governance env a b f)"
  "on_trace (setExecutorRoles env f a b c)"
  "on_trace (postDeploymentL1TokenTasks env a b c)"
  "on_trace (postDeploymentL2TokenTasks env f)"
  "on_trace (deployAndInitTokenDistributor env f)"
  unfolding deployL1LogicContracts_def deployL2LogicContracts_def deployL1GovernanceFactory_def
    deployAndInitL1Token_def deployL2GovernanceFactory_def deployNovaUpgradeExecutor_def
    deployTokenToNova_def initL2Governance_def initL1Governance_def setExecutorRoles_def
    postDeploymentL1TokenTasks_def postDeploymentL2TokenTasks_def
    deployAndInitTokenDistributor_def io_defs Let_def
  by (intro on_trace_intros)+

lemma ends_with_write_writeAddresses [ends_with_write_intros]:
  "ends_with_write env (writeAddresses env)"
  by (simp add: ends_with_write_def writeAddresses_def Let_def writeFileSync_def
      writeFileSync_interrupted_def)

lemma ends_with_write_bindM [ends_with_write_intros]:
  assumes m: "on_trace m" and f: "\<And>x. ends_with_write env (f x)"
  shows "ends_with_write env (bindM m f)"
  unfolding ends_with_write_def
proof (intro conjI allI impI)
  fix w fs
  let ?sum = "\<lambda>(r, w'). (r, trace w', deployedContracts w')"
  have mw: "m (w\<lparr>files := fs\<rparr>) = map_option (\<lambda>(r, w'). (r, w'\<lparr>files := fs\<rparr>)) (m w)"
    using m unfolding on_trace_def by blast
  show "map_option ?sum (bindM m f (w\<lparr>files := fs\<rparr>)) = map_option ?sum (bindM m f w)"
  proof (cases "m w")
    case None
    then show ?thesis using mw by (simp add: bindM_def)
  next
    case (Some a)
    obtain r w1 where a: "a = (r, w1)" by (cases a)
    show ?thesis
    proof (cases r)
      case (Inl e)
      then show ?thesis using mw Some a by (simp add: bindM_def)
    next
      case (Inr x)
      have "map_option ?sum (f x (w1\<lparr>files := fs\<rparr>)) = map_option ?sum (f x w1)"
        using f[of x] unfolding ends_with_write_def by blast
      then show ?thesis using mw Some a Inr by (simp add: bindM_def)
    qed
  qed
next
  fix w r w' assume run: "bindM m f w = Some (r, w')"
  show "\<exists>evs. trace w' = trace w @ evs"
  proof (cases "m w")
    case None
    with run show ?thesis by (simp add: bindM_def)
  next
    case (Some a)
    obtain r1 w1 where a: "a = (r1, w1)" by (cases a)
    from on_trace_extends[OF m] Some a obtain evs1 where e1: "trace w1 = trace w @ evs1" by blast
    show ?thesis
    proof (cases r1)
      case (Inl e)
      with run Some a have "w' = w1" by (simp add: bindM_def)
      with e1 show ?thesis by blast
    next
      case (Inr x)
      with run Some a have "f x w1 = Some (r, w')" by (simp add: bindM_def)
      with f[of x] obtain evs2 where "trace w' = trace w1 @ evs2"
        unfolding ends_with_write_def by blast
      with e1 show ?thesis by simp
    qed
  qed
next
  fix w r w' assume run: "bindM m f w = Some (r, w')"
  show "case r of
          Inl e \<Rightarrow> files w' = files w
        | Inr u \<Rightarrow> files w' = (files w)(DEPLOYED_CONTRACTS_FILE_NAME \<mapsto>
                                           JSON_stringify env (deployedContracts w'))"
  proof (cases "m w")
    case None
    with run show ?thesis by (simp add: bindM_def)
  next
    case (Some a)
    obtain r1 w1 where a: "a = (r1, w1)" by (cases a)
    from on_trace_keeps_files[OF m] Some a have k: "files w1 = files w" by blast
    show ?thesis
    proof (cases r1)
      case (Inl e)
      with run Some a have "w' = w1" "r = Inl e" by (simp_all add: bindM_def)
      with k show ?thesis by simp
    next
      case (Inr x)
      with run Some a have "f x w1 = Some (r, w')" by (simp add: bindM_def)
      with f[of x] have "case r of
          Inl e \<Rightarrow> files w' = files w1
        | Inr u \<Rightarrow> files w' = (files w1)(DEPLOYED_CONTRACTS_FILE_NAME \<mapsto>
                                           JSON_stringify env (deployedContracts w'))"
        unfolding ends_with_write_def by blast
      with k show ?thesis by (cases r) simp_all
    qed
  qed
qed

lemma ends_with_write_thenM [ends_with_write_intros]:
  "on_trace m \<Longrightarrow> ends_with_write env k \<Longrightarrow> ends_with_write env (thenM m k)"
  unfolding thenM_def by (rule ends_with_write_bindM)

lemma ends_with_write_case_prod [ends_with_write_intros]:
  "(\<And>a b. ends_with_write env (f a b)) \<Longrightarrow> ends_with_write env (case p of (a, b) \<Rightarrow> f a b)"
  by (cases p) simp

lemma ends_with_write_deployGovernance: "ends_with_write env (deployGovernance env)"
  unfolding deployGovernance_def
  by (intro ends_with_write_intros on_trace_intros)

lemma first_event_bindM:
  assumes m: "first_event e m" and f: "\<And>x. ends_with_write env (f x)"
  shows "first_event e (bindM m f)"
  unfolding first_event_def
proof (intro allI impI)
  fix w r w' assume run: "bindM m f w = Some (r, w')"
  show "\<exists>evs. trace w' = trace w @ e # evs"
  proof (cases "m w")
    case None
    with run show ?thesis by (simp add: bindM_def)
  next
    case (Some a)
    obtain r1 w1 where a: "a = (r1, w1)" by (cases a)
    from m Some a obtain evs1 where e1: "trace w1 = trace w @ e # evs1"
      unfolding first_event_def by blast
    show ?thesis
    proof (cases r1)
      case (Inl err)
      with run Some a have "w' = w1" by (simp add: bindM_def)
      with e1 show ?thesis by blast
    next
      case (Inr x)
      with run Some a have "f x w1 = Some (r, w')" by (simp add: bindM_def)
      with f[of x] obtain evs2 where "trace w' = trace w1 @ evs2"
        unfolding ends_with_write_def by blast
      with e1 show ?thesis by simp
    qed
  qed
qed

lemma first_event_deployL1LogicContracts:
  "first_event (Chain (Deploy Eth ''UpgradeExecutor'' [])) (deployL1LogicContracts env)"
  unfolding first_event_def deployL1LogicContracts_def
  by (auto simp: bindM_def thenM_def deploy_def ask_def store_def returnM_def
      split: option.splits sum.splits prod.splits)

lemma deployGovernance_first:
  assumes "getDeployers_result env = Inr ()"
  shows "first_event (Chain (Deploy Eth ''UpgradeExecutor'' [])) (deployGovernance env)"
proof -
  have "thenM (liftE (Inr ())) m = m" for m :: "unit io"
    by (rule ext) (simp add: thenM_def bindM_def liftE_def)
  then show ?thesis
    unfolding deployGovernance_def assms
    by (simp only:)
       (intro first_event_bindM[where env = env, OF first_event_deployL1LogicContracts]
          ends_with_write_intros on_trace_intros)
qed

lemma loop_returns:
  assumes receipts: "\<forall>c k. method_of c = ''setRecipients'' \<longrightarrow>
                         (\<exists>x. receipt_result env c k = Inr x)"
    and prices: "\<forall>k. \<exists>g. number_result env gasPriceCall k = Inr g
                     \<and> g \<le> GAS_PRICE_UNACCEPTABLE_LIMIT"
  shows "\<exists>w'. setClaimRecipients_loop env td rs as n i w = Some (Inr (), w')"
  using assms
proof (induction env td rs as n i arbitrary: w rule: setClaimRecipients_loop.induct)
  case (1 env td rs as n i)
  note receipts = "1.prems"(1) and prices = "1.prems"(2)
  have guard: "gasPriceGuard env v = Some (Inr (), v\<lparr>trace := trace v @ [Chain gasPriceCall]\<rparr>)"
    for v
    using prices guard_low[of env v] by blast
  have submit: "setRecipients env td a b v =
                  Some (Inr (), v\<lparr>trace := trace v @ [setRecipients_call td a b]\<rparr>)" for a b v
  proof -
    obtain x where "receipt_result env
        (Transact Arb td ''setRecipients'' [Strs a, Bigs b, Struct [(''gasLimit'', Big 30000000)]] True)
        (occurrences (trace v)
          (Transact Arb td ''setRecipients'' [Strs a, Bigs b, Struct [(''gasLimit'', Big 30000000)]] True))
        = Inr x"
      using receipts method_of.simps(3) by blast
    then show ?thesis
      by (simp add: setRecipients_def thenM_def bindM_def transact_def ask_def returnM_def
          setRecipients_call_def)
  qed
  show ?case
  proof (cases "i \<le> n")
    case False
    then show ?thesis by (subst setClaimRecipients_loop.simps) (simp add: returnM_def)
  next
    case True
    show ?thesis
    proof (cases "i < n")
      case less: True
      let ?v = "w\<lparr>trace := trace w @ [Chain gasPriceCall, Sleep 1000,
                  setRecipients_call td (slice rs (i * BATCH_SIZE) ((i + 1) * BATCH_SIZE))
                                        (slice as (i * BATCH_SIZE) ((i + 1) * BATCH_SIZE))]\<rparr>"
      from "1.IH"(1)[OF True less receipts prices, of ?v] obtain w' where
        "setClaimRecipients_loop env td rs as n (i + 1) ?v = Some (Inr (), w')" by blast
      then show ?thesis using True less
        by (subst setClaimRecipients_loop.simps)
           (simp add: thenM_def bindM_def guard sleep_run submit)
    next
      case notless: False
      show ?thesis
      proof (cases "length rs = n * BATCH_SIZE")
        case exact: True
        then show ?thesis using True notless
          by (subst setClaimRecipients_loop.simps)
             (simp add: thenM_def bindM_def guard sleep_run returnM_def)
      next
        case rem: False
        let ?v = "w\<lparr>trace := trace w @ [Chain gasPriceCall, Sleep 1000,
                  setRecipients_call td (slice_from rs (i * BATCH_SIZE))
                                        (slice_from as (i * BATCH_SIZE))]\<rparr>"
        from "1.IH"(2)[OF True notless rem receipts prices, of ?v] obtain w' where
          "setClaimRecipients_loop env td rs as n (i + 1) ?v = Some (Inr (), w')" by blast
        then show ?thesis using True notless rem
          by (subst setClaimRecipients_loop.simps)
             (simp add: thenM_def bindM_def guard sleep_run submit)
      qed
    qed
  qed
qed

lemma setClaimRecipients_unfold:
  assumes "recipients_file env = Inr raw" and "mapPointsToAmounts raw = Inr (recipients, amounts)"
  shows "setClaimRecipients env td =
           setClaimRecipients_loop env td recipients amounts (length recipients div BATCH_SIZE)
             (L2_NUM_OF_RECIPIENT_BATCHES_ALREADY_SET env)"
  by (rule ext) (simp add: setClaimRecipients_def assms bindM_def liftE_def)

lemma div_mult_neq: "(length (rs :: 'a list) \<noteq> length rs div 100 * 100) = (length rs mod 100 \<noteq> 0)"
proof -
  have "length rs div 100 * 100 + length rs mod 100 = length rs"
    by (rule div_mult_mod_eq)
  then show ?thesis by linarith
qed

lemma general_batches:
  assumes recfile: "recipients_file env = Inr raw"
    and mapped: "mapPointsToAmounts raw = Inr (recipients, amounts)"
    and run: "setClaimRecipients env td w = Some (Inr (), w')"
  shows "transactions (trace w') =
          transactions (trace w)
          @ map (\<lambda>i. setRecipients_call td (slice recipients (i * 100) ((i + 1) * 100))
                                             (slice amounts (i * 100) ((i + 1) * 100)))
                [L2_NUM_OF_RECIPIENT_BATCHES_ALREADY_SET env ..< length recipients div 100]
          @ (if L2_NUM_OF_RECIPIENT_BATCHES_ALREADY_SET env \<le> length recipients div 100
                \<and> length recipients mod 100 \<noteq> 0
             then [setRecipients_call td
                     (slice_from recipients (length recipients div 100 * 100))
                     (slice_from amounts (length recipients div 100 * 100))]
             else [])"
proof -
  have "setClaimRecipients_loop env td recipients amounts (length recipients div BATCH_SIZE)
             (L2_NUM_OF_RECIPIENT_BATCHES_ALREADY_SET env) w = Some (Inr (), w')"
    using run unfolding setClaimRecipients_unfold[OF recfile mapped] .
  from loop_submits[OF this] show ?thesis
    unfolding BATCH_SIZE_def div_mult_neq .
qed

text \<open>
  Claim C1. With the recipients file mapped to \<open>recipients\<close> and \<open>amounts\<close>, a run of
  \<open>setClaimRecipients\<close> that returns has sent, in this order, one \<^verbatim>\<open>setRecipients\<close>
  transaction for every index \<open>i\<close> from the start index up to the number of full batches,
  with the slices \<open>[100 i, 100 (i + 1))\<close>, and then, when the length is not a multiple of
  100 and the start index is not beyond the number of full batches, one more with the
  remainder; it has sent no other transaction. The run returns when every
  \<^verbatim>\<open>setRecipients\<close> transaction is confirmed and no gas price sample exceeds the ceiling.
  For 250 recipients from index 0 these are the slices 0..100, 100..200 and 200..250; for
  200 recipients the first two only.
\<close>

theorem setClaimRecipients_batches:
  assumes recfile: "recipients_file env = Inr raw"
    and mapped: "mapPointsToAmounts raw = Inr (recipients, amounts)"
  shows
    "(setClaimRecipients env td w = Some (Inr (), w') \<longrightarrow>
        transactions (trace w') =
          transactions (trace w)
          @ map (\<lambda>i. setRecipients_call td (slice recipients (i * 100) ((i + 1) * 100))
                                             (slice amounts (i * 100) ((i + 1) * 100)))
                [L2_NUM_OF_RECIPIENT_BATCHES_ALREADY_SET env ..< length recipients div 100]
          @ (if L2_NUM_OF_RECIPIENT_BATCHES_ALREADY_SET env \<le> length recipients div 100
                \<and> length recipients mod 100 \<noteq> 0
             then [setRecipients_call td
                     (slice_from recipients (length recipients div 100 * 100))
                     (slice_from amounts (length recipients div 100 * 100))]
             else []))
     \<and> ((\<forall>c k. method_of c = ''setRecipients'' \<longrightarrow>
                  (\<exists>x. receipt_result env c k = Inr x))
          \<and> (\<forall>k. \<exists>g. number_result env gasPriceCall k = Inr g
                      \<and> g \<le> GAS_PRICE_UNACCEPTABLE_LIMIT) \<longrightarrow>
        (\<exists>w'. setClaimRecipients env td w = Some (Inr (), w')))
     \<and> (setClaimRecipients env td w = Some (Inr (), w')
          \<and> L2_NUM_OF_RECIPIENT_BATCHES_ALREADY_SET env = 0 \<and> length recipients = 250 \<longrightarrow>
        transactions (trace w') =
          transactions (trace w)
          @ [setRecipients_call td (slice recipients 0 100) (slice amounts 0 100),
             setRecipients_call td (slice recipients 100 200) (slice amounts 100 200),
             setRecipients_call td (slice_from recipients 200) (slice_from amounts 200)])
     \<and> (setClaimRecipients env td w = Some (Inr (), w')
          \<and> L2_NUM_OF_RECIPIENT_BATCHES_ALREADY_SET env = 0 \<and> length recipients = 200 \<longrightarrow>
        transactions (trace w') =
          transactions (trace w)
          @ [setRecipients_call td (slice recipients 0 100) (slice amounts 0 100),
             setRecipients_call td (slice recipients 100 200) (slice amounts 100 200)])"
proof (intro conjI impI)
  assume "setClaimRecipients env td w = Some (Inr (), w')"
  then show "transactions (trace w') =
          transactions (trace w)
          @ map (\<lambda>i. setRecipients_call td (slice recipients (i * 100) ((i + 1) * 100))
                                             (slice amounts (i * 100) ((i + 1) * 100)))
                [L2_NUM_OF_RECIPIENT_BATCHES_ALREADY_SET env ..< length recipients div 100]
          @ (if L2_NUM_OF_RECIPIENT_BATCHES_ALREADY_SET env \<le> length recipients div 100
                \<and> length recipients mod 100 \<noteq> 0
             then [setRecipients_call td
                     (slice_from recipients (length recipients div 100 * 100))
                     (slice_from amounts (length recipients div 100 * 100))]
             else [])"
    by (rule general_batches[OF recfile mapped])
next
  assume "(\<forall>c k. method_of c = ''setRecipients'' \<longrightarrow>
                  (\<exists>x. receipt_result env c k = Inr x))
          \<and> (\<forall>k. \<exists>g. number_result env gasPriceCall k = Inr g
                      \<and> g \<le> GAS_PRICE_UNACCEPTABLE_LIMIT)"
  then show "\<exists>w'. setClaimRecipients env td w = Some (Inr (), w')"
    unfolding setClaimRecipients_unfold[OF recfile mapped] using loop_returns by blast
next
  have upt2: "[0..<2] = [0, 1::nat]" by (simp add: upt_rec)
  assume a: "setClaimRecipients env td w = Some (Inr (), w')
          \<and> L2_NUM_OF_RECIPIENT_BATCHES_ALREADY_SET env = 0 \<and> length recipients = 250"
  then have "setClaimRecipients env td w = Some (Inr (), w')" by simp
  from general_batches[OF recfile mapped this] a
  show "transactions (trace w') =
          transactions (trace w)
          @ [setRecipients_call td (slice recipients 0 100) (slice amounts 0 100),
             setRecipients_call td (slice recipients 100 200) (slice amounts 100 200),
             setRecipients_call td (slice_from recipients 200) (slice_from amounts 200)]"
    by (simp add: upt2)
next
  have upt2: "[0..<2] = [0, 1::nat]" by (simp add: upt_rec)
  assume a: "setClaimRecipients env td w = Some (Inr (), w')
          \<and> L2_NUM_OF_RECIPIENT_BATCHES_ALREADY_SET env = 0 \<and> length recipients = 200"
  then have "setClaimRecipients env td w = Some (Inr (), w')" by simp
  from general_batches[OF recfile mapped this] a
  show "transactions (trace w') =
          transactions (trace w)
          @ [setRecipients_call td (slice recipients 0 100) (slice amounts 0 100),
             setRecipients_call td (slice recipients 100 200) (slice amounts 100 200)]"
    by (simp add: upt2)
qed

lemma env_recipients_fields:
  "recipients_file (env_recipients n) = Inr (many_recipients n)"
  "L2_NUM_OF_RECIPIENT_BATCHES_ALREADY_SET (env_recipients n) = 0"
  "\<forall>c k. method_of c = ''setRecipients'' \<longrightarrow>
          (\<exists>x. receipt_result (env_recipients n) c k = Inr x)"
  "\<forall>k. \<exists>g. number_result (env_recipients n) gasPriceCall k = Inr g
          \<and> g \<le> GAS_PRICE_UNACCEPTABLE_LIMIT"
  by (simp_all add: env_recipients_def example_env_def env_reverting_def
      gasPriceCall_def BASE_GAS_PRICE_def GAS_PRICE_UNACCEPTABLE_LIMIT_def)

lemma many_recipients_mapped:
  "mapPointsToAmounts (many_recipients n) =
     Inr (map fst (many_recipients n),
          map (\<lambda>(key, points). parseEther (the (spec_amount points))) (many_recipients n))"
proof -
  have "\<forall>(key, points) \<in> set (many_recipients n). valid_points points"
    by (auto simp: many_recipients_def valid_points_def)
  from mapPointsToAmounts_loop_valid[OF this, of "[]" "[]"] show ?thesis
    by (simp add: mapPointsToAmounts_def)
qed

theorem setClaimRecipients_batches_witness:
  "\<exists>recipients amounts w1.
      mapPointsToAmounts (many_recipients 250) = Inr (recipients, amounts)
      \<and> length recipients = 250 \<and> length amounts = 250
      \<and> setClaimRecipients (env_recipients 250) ''arb:TokenDistributor'' (fresh Map.empty)
          = Some (Inr (), w1)
      \<and> transactions (trace w1) =
          [setRecipients_call ''arb:TokenDistributor'' (slice recipients 0 100)
             (slice amounts 0 100),
           setRecipients_call ''arb:TokenDistributor'' (slice recipients 100 200)
             (slice amounts 100 200),
           setRecipients_call ''arb:TokenDistributor'' (slice_from recipients 200)
             (slice_from amounts 200)]
      \<and> map length [slice recipients 0 100, slice recipients 100 200, slice_from recipients 200]
          = [100, 100, 50]"
proof -
  let ?env = "env_recipients 250"
  let ?rs = "map fst (many_recipients 250)"
  let ?as = "map (\<lambda>(key, points). parseEther (the (spec_amount points))) (many_recipients 250)"
  let ?w = "fresh Map.empty"
  note claim = setClaimRecipients_batches
                 [OF env_recipients_fields(1) many_recipients_mapped,
                  where td = "''arb:TokenDistributor''" and w = ?w]
  from claim env_recipients_fields(3,4)[of 250] obtain w1 where
    run: "setClaimRecipients ?env ''arb:TokenDistributor'' ?w = Some (Inr (), w1)" by blast
  have len: "length ?rs = 250" "length ?as = 250" by (simp_all add: many_recipients_def)
  from claim[where w' = w1] run env_recipients_fields(2)[of 250] len(1)
  have "transactions (trace w1) =
          transactions (trace ?w)
          @ [setRecipients_call ''arb:TokenDistributor'' (slice ?rs 0 100) (slice ?as 0 100),
             setRecipients_call ''arb:TokenDistributor'' (slice ?rs 100 200) (slice ?as 100 200),
             setRecipients_call ''arb:TokenDistributor'' (slice_from ?rs 200)
               (slice_from ?as 200)]"
    by blast
  then have tx: "transactions (trace w1) =
          [setRecipients_call ''arb:TokenDistributor'' (slice ?rs 0 100) (slice ?as 0 100),
           setRecipients_call ''arb:TokenDistributor'' (slice ?rs 100 200) (slice ?as 100 200),
           setRecipients_call ''arb:TokenDistributor'' (slice_from ?rs 200)
             (slice_from ?as 200)]"
    by (simp add: fresh_def transactions_Nil)
  have lens: "map length [slice ?rs 0 100, slice ?rs 100 200, slice_from ?rs 200] = [100, 100, 50]"
    by (simp add: slice_def slice_from_def many_recipients_def)
  show ?thesis
    apply (rule exI[of _ ?rs], rule exI[of _ ?as], rule exI[of _ w1])
    apply (intro conjI)
         apply (rule many_recipients_mapped len run tx lens)+
    done
qed


section \<open>Two complete runs\<close>

lemma ask_address:
  "ask (address_result (env_reverting m)) c w =
     Some (Inr (example_address c), w\<lparr>trace := trace w @ [Chain c]\<rparr>)"
  by (simp add: ask_def env_reverting_def)

lemma ask_receipt:
  "method_of c \<noteq> m \<Longrightarrow> ask (receipt_result (env_reverting m)) c w =
     Some (Inr example_receipt, w\<lparr>trace := trace w @ [Chain c]\<rparr>)"
  by (simp add: ask_def env_reverting_def)

lemma ask_receipt_reverts:
  "method_of c = m \<Longrightarrow> ask (receipt_result (env_reverting m)) c w =
     Some (Inl (Error [Lit ''reverted'']), w\<lparr>trace := trace w @ [Chain c]\<rparr>)"
  by (simp add: ask_def env_reverting_def)

lemma ask_number:
  "ask (number_result (env_reverting m)) c w =
     Some (Inr (case c of WaitForStatus i \<Rightarrow> REDEEMED | _ \<Rightarrow> BASE_GAS_PRICE),
           w\<lparr>trace := trace w @ [Chain c]\<rparr>)"
  by (simp add: ask_def env_reverting_def)

lemmas prim_defs =
  bindM_def thenM_def returnM_def throwM_def liftE_def deploy_def deployed_def transact_def
  read_address_def read_number_def getGasPrice_def waitForStatus_def sleep_def store_def

lemmas asks = ask_address ask_receipt ask_number example_receipt_def

lemma step01: "deployL1LogicContracts (env_reverting m) w =
     Some
       (Inr ''eth:UpgradeExecutor'',
        w\<lparr>trace := trace w @ [Chain (Deploy Eth ''UpgradeExecutor'' [])],
            deployedContracts :=
              AList.update ''l1UpgradeExecutorLogic'' ''eth:UpgradeExecutor''
               (deployedContracts w)\<rparr>)"
  by (simp add: deployL1LogicContracts_def prim_defs asks)

lemma step02: "deployL2LogicContracts (env_reverting m) w =
     Some
       (Inr (''arb:ArbitrumTimelock'', ''arb:L2ArbitrumGovernor'',
             ''arb:FixedDelegateErc20Wallet'', ''arb:L2ArbitrumToken'',
             ''arb:UpgradeExecutor''),
        w\<lparr>trace :=
            trace w @
            [Chain (Deploy Arb ''ArbitrumTimelock'' []),
             Chain (Deploy Arb ''L2ArbitrumGovernor'' []),
             Chain (Deploy Arb ''FixedDelegateErc20Wallet'' []),
             Chain (Deploy Arb ''L2ArbitrumToken'' []),
             Chain (Deploy Arb ''UpgradeExecutor'' [])],
            deployedContracts :=
              AList.update ''l2UpgradeExecutorLogic'' ''arb:UpgradeExecutor''
               (AList.update ''l2TokenLogic'' ''arb:L2ArbitrumToken''
                 (AList.update ''l2FixedDelegateLogic''
                   ''arb:FixedDelegateErc20Wallet''
                   (AList.update ''l2GovernorLogic''
                     ''arb:L2ArbitrumGovernor''
                     (AList.update ''l2TimelockLogic''
                       ''arb:ArbitrumTimelock'' (deployedContracts w)))))\<rparr>)"
  by (simp add: deployL2LogicContracts_def prim_defs asks)

lemma step03: "m \<noteq> ''deployed'' \<Longrightarrow> deployL1GovernanceFactory (env_reverting m) w =
     Some
       (Inr ''eth:L1GovernanceFactory'',
        w\<lparr>trace :=
            trace w @
            [Chain (Deploy Eth ''L1GovernanceFactory'' []),
             Chain (AwaitDeployed Eth ''eth:L1GovernanceFactory'')],
            deployedContracts :=
              AList.update ''l1GovernanceFactory'' ''eth:L1GovernanceFactory''
               (deployedContracts w)\<rparr>)"
  by (simp add: deployL1GovernanceFactory_def prim_defs asks)

lemma step04: "m \<noteq> ''deployed'' \<Longrightarrow> deployAndInitL1Token (env_reverting m) w =
     Some
       (Inr (''eth:L1ArbitrumToken/proxy'', ''eth:L1ArbitrumToken/proxy''),
        w\<lparr>trace :=
            trace w @
            [Chain (Deploy Eth ''L1ArbitrumToken'' []),
             Chain
              (Deploy Eth ''TransparentUpgradeableProxy''
                [Str ''eth:L1ArbitrumToken'', AddressOf Eth, Str ''0x'',
                 Struct [(''gasLimit'', Big 3000000)]]),
             Chain (AwaitDeployed Eth ''eth:L1ArbitrumToken/proxy'')],
            deployedContracts :=
              AList.update ''l1TokenProxy'' ''eth:L1ArbitrumToken/proxy''
               (AList.update ''l1TokenLogic'' ''eth:L1ArbitrumToken''
                 (deployedContracts w))\<rparr>)"
  by (simp add: deployAndInitL1Token_def prim_defs asks)

lemma step05: "deployL2GovernanceFactory (env_reverting m) timelockLogic governorLogic
    fixedDelegateLogic l2TokenLogic upgradeExecutor w =
     Some
       (Inr ''arb:L2GovernanceFactory'',
        w\<lparr>trace :=
            trace w @
            [Chain
              (Deploy Arb ''L2GovernanceFactory''
                [Str timelockLogic, Str governorLogic, Str timelockLogic,
                 Str fixedDelegateLogic, Str governorLogic, Str l2TokenLogic,
                 Str upgradeExecutor])],
            deployedContracts :=
              AList.update ''l2GovernanceFactory'' ''arb:L2GovernanceFactory''
               (deployedContracts w)\<rparr>)"
  by (simp add: deployL2GovernanceFactory_def prim_defs asks)

lemma step06: "m \<noteq> ''deployed'' \<Longrightarrow> deployNovaUpgradeExecutor (env_reverting m) w =
     Some
       (Inr (''nova:ProxyAdmin'', ''nova:UpgradeExecutor/proxy''),
        w\<lparr>trace :=
            trace w @
            [Chain (Deploy Nova ''ProxyAdmin'' []),
             Chain (AwaitDeployed Nova ''nova:ProxyAdmin''),
             Chain (Deploy Nova ''UpgradeExecutor'' []),
             Chain
              (Deploy Nova ''TransparentUpgradeableProxy''
                [Str ''nova:UpgradeExecutor'', Str ''nova:ProxyAdmin'',
                 Str ''0x'']),
             Chain (AwaitDeployed Nova ''nova:UpgradeExecutor/proxy'')],
            deployedContracts :=
              AList.update ''novaUpgradeExecutorProxy''
               ''nova:UpgradeExecutor/proxy''
               (AList.update ''novaUpgradeExecutorLogic''
                 ''nova:UpgradeExecutor''
                 (AList.update ''novaProxyAdmin'' ''nova:ProxyAdmin''
                   (deployedContracts w)))\<rparr>)"
  by (simp add: deployNovaUpgradeExecutor_def prim_defs asks)

lemma step07: "m \<noteq> ''deployed'' \<Longrightarrow> m \<noteq> ''initialize'' \<Longrightarrow>
    deployTokenToNova (env_reverting m) proxyAdmin l1Token w =
     Some
       (Inr ''nova:L2CustomGatewayToken/proxy'',
        w\<lparr>trace :=
            trace w @
            [Chain (Deploy Nova ''L2CustomGatewayToken'' []),
             Chain
              (Deploy Nova ''TransparentUpgradeableProxy''
                [Str ''nova:L2CustomGatewayToken'', Str proxyAdmin,
                 Str ''0x'']),
             Chain
              (AwaitDeployed Nova ''nova:L2CustomGatewayToken/proxy''),
             Chain
              (Transact Nova ''nova:L2CustomGatewayToken/proxy''
                ''initialize''
                [Const ''NOVA_TOKEN_NAME'', Const ''NOVA_TOKEN_SYMBOL'',
                 Const ''NOVA_TOKEN_DECIMALS'',
                 Const ''NOVA_TOKEN_GATEWAY'', Str l1Token]
                False)],
            deployedContracts :=
              AList.update ''novaTokenProxy''
               ''nova:L2CustomGatewayToken/proxy''
               (AList.update ''novaTokenLogic''
                 ''nova:L2CustomGatewayToken'' (deployedContracts w))\<rparr>)"
  by (simp add: deployTokenToNova_def prim_defs asks)

lemma step08: "m \<noteq> ''deployStep1'' \<Longrightarrow>
    initL2Governance (env_reverting m) l2GovernanceFactory l1TokenAddress w =
     Some
       (Inr example_receipt,
        w\<lparr>trace :=
            trace w @
            [Chain
              (Transact Arb l2GovernanceFactory ''deployStep1''
                [Struct
                  [(''_l2MinTimelockDelay'', Const ''L2_TIMELOCK_DELAY''),
                   (''_l2TokenInitialSupply'',
                    ParseEtherConst ''L2_TOKEN_INITIAL_SUPPLY''),
                   (''_upgradeProposer'',
                    Const ''L2_7_OF_12_SECURITY_COUNCIL''),
                   (''_coreQuorumThreshold'',
                    Const ''L2_CORE_QUORUM_TRESHOLD''),
                   (''_l1Token'', Str l1TokenAddress),
                   (''_treasuryQuorumThreshold'',
                    Const ''L2_TREASURY_QUORUM_TRESHOLD''),
                   (''_proposalThreshold'', Const ''L2_PROPOSAL_TRESHOLD''),
                   (''_votingDelay'', Const ''L2_VOTING_DELAY''),
                   (''_votingPeriod'', Const ''L2_VOTING_PERIOD''),
                   (''_minPeriodAfterQuorum'',
                    Const ''L2_MIN_PERIOD_AFTER_QUORUM''),
                   (''_l2InitialSupplyRecipient'', AddressOf Arb),
                   (''_l2EmergencySecurityCouncil'',
                    Const ''L2_9_OF_12_SECURITY_COUNCIL'')]]
                True)],
            deployedContracts :=
              AList.update ''l2ArbTreasury'' ''0xarbTreasury''
               (AList.update ''l2TreasuryGoverner'' ''0xtreasuryGoverner''
                 (AList.update ''l2Token'' ''0xtoken''
                   (AList.update ''l2ProxyAdmin'' ''0xproxyAdmin''
                     (AList.update ''l2Executor'' ''0xexecutor''
                       (AList.update ''l2CoreTimelock'' ''0xcoreTimelock''
                         (AList.update ''l2CoreGoverner'' ''0xcoreGoverner''
                           (deployedContracts w)))))))\<rparr>)"
  by (simp add: initL2Governance_def prim_defs asks)

lemma step09: "m \<noteq> ''deployStep2'' \<Longrightarrow>
    initL1Governance (env_reverting m) l1GovernanceFactory l1UpgradeExecutorLogic
      l2DeployResult w =
     Some
       (Inr example_receipt,
        w\<lparr>trace :=
            trace w @
            [Chain
              (Transact Eth l1GovernanceFactory ''deployStep2''
                [Str l1UpgradeExecutorLogic, Const ''L1_TIMELOCK_DELAY'',
                 Const ''L1_ARB_INBOX'',
                 Str (l2DeployResult ''coreTimelock''),
                 Const ''L1_9_OF_12_SECURITY_COUNCIL'']
                True)],
            deployedContracts :=
              AList.update ''l1Timelock'' ''0xtimelock''
               (AList.update ''l1ProxyAdmin'' ''0xproxyAdmin''
                 (AList.update ''l1Executor'' ''0xexecutor''
                   (deployedContracts w)))\<rparr>)"
  by (simp add: initL1Governance_def prim_defs asks)

lemma step09_reverts:
    "initL1Governance (env_reverting ''deployStep2'') l1GovernanceFactory l1UpgradeExecutorLogic
      l2DeployResult w =
     Some
       (Inl (Error [Lit ''reverted'']),
        w\<lparr>trace :=
            trace w @
            [Chain
              (Transact Eth l1GovernanceFactory ''deployStep2''
                [Str l1UpgradeExecutorLogic, Const ''L1_TIMELOCK_DELAY'',
                 Const ''L1_ARB_INBOX'',
                 Str (l2DeployResult ''coreTimelock''),
                 Const ''L1_9_OF_12_SECURITY_COUNCIL'']
                True)]\<rparr>)"
  by (simp add: initL1Governance_def prim_defs asks ask_receipt_reverts)

lemma step10: "m \<noteq> ''deployStep3'' \<Longrightarrow> m \<noteq> ''initialize'' \<Longrightarrow> m \<noteq> ''transferOwnership'' \<Longrightarrow>
    setExecutorRoles (env_reverting m) l1DeployResult l2GovernanceFactory
      novaUpgradeExecutorProxy novaProxyAdmin w =
     Some
       (Inr (),
        w\<lparr>trace :=
            trace w @
            [Chain
              (Transact Arb l2GovernanceFactory ''deployStep3''
                [Aliased (l1DeployResult ''timelock'')] False),
             Chain
              (Transact Nova novaUpgradeExecutorProxy ''initialize''
                [Str novaUpgradeExecutorProxy,
                 Array
                  [Aliased (l1DeployResult ''timelock''),
                   Const ''NOVA_9_OF_12_SECURITY_COUNCIL'']]
                False),
             Chain
              (Transact Nova novaProxyAdmin ''transferOwnership''
                [Str novaUpgradeExecutorProxy] False)]\<rparr>)"
  by (simp add: setExecutorRoles_def prim_defs asks Let_def)

lemma step11w: "m \<noteq> ''getL1ToL2Messages'' \<Longrightarrow> waitForL2TXs (env_reverting m) w =
     Some
       (Inr (),
        w\<lparr>trace :=
            trace w @
            [Chain
              (Read Nova ''l1RegistrationTxReceipt'' ''getL1ToL2Messages''
                []),
             Chain (WaitForStatus 0), Chain (WaitForStatus (Suc 0))]\<rparr>)"
  by (simp add: waitForL2TXs_def prim_defs asks checkRedeemed_def)

lemma step11: "m \<noteq> ''changeAdmin'' \<Longrightarrow> m \<noteq> ''initialize'' \<Longrightarrow> m \<noteq> ''registerTokenOnL2'' \<Longrightarrow>
    m \<noteq> ''getL1ToL2Messages'' \<Longrightarrow>
    postDeploymentL1TokenTasks (env_reverting m) l1TokenProxy l1ProxyAdminAddress
      novaTokenAddress w =
     Some
       (Inr (),
        w\<lparr>trace :=
            trace w @
            [Chain
              (Transact Eth l1TokenProxy ''changeAdmin''
                [Str l1ProxyAdminAddress] True),
             Chain
              (Transact Eth l1TokenProxy ''initialize''
                [Const ''L1_ARB_GATEWAY'', Const ''L1_NOVA_ROUTER'',
                 Const ''L1_NOVA_GATEWAY'']
                True),
             Chain (Read Nova ''provider'' ''getGasPrice'' []),
             Chain (Read Eth l1TokenProxy ''novaGateway'' []),
             Chain (Read Eth ''eth:novaGateway'' ''inbox'' []),
             Chain
              (Read Eth ''eth:inbox'' ''calculateRetryableSubmissionFee''
                [CalldataLength ''registerTokenFromL1''
                  [Strs [l1TokenProxy], Strs [novaTokenAddress]],
                 Big 0]),
             Chain
              (Read Eth ''eth:inbox'' ''calculateRetryableSubmissionFee''
                [CalldataLength ''setGateway''
                  [Strs [l1TokenProxy], Strs [''eth:novaGateway'']],
                 Big 0]),
             Chain
              (Transact Eth l1TokenProxy ''registerTokenOnL2''
                [Struct
                  [(''l2TokenAddress'', Str novaTokenAddress),
                   (''maxSubmissionCostForCustomGateway'', Big 200000000),
                   (''maxSubmissionCostForRouter'', Big 200000000),
                   (''maxGasForCustomGateway'', Big 1000000),
                   (''maxGasForRouter'', Big 1000000),
                   (''gasPriceBid'', Big 200000000),
                   (''valueForGateway'', Big 200000200000000),
                   (''valueForRouter'', Big 200000200000000),
                   (''creditBackAddress'', AddressOf Eth)],
                 Struct
                  [(''value'', Big 400000400001000),
                   (''gasLimit'', Big 3000000)]]
                True),
             Chain
              (Read Nova ''l1RegistrationTxReceipt'' ''getL1ToL2Messages''
                []),
             Chain (WaitForStatus 0), Chain (WaitForStatus (Suc 0))]\<rparr>)"
  by (simp add: postDeploymentL1TokenTasks_def waitForL2TXs_def prim_defs asks Let_def
      checkRedeemed_def BASE_GAS_PRICE_def)

lemma step12: "m \<noteq> ''transferOwnership'' \<Longrightarrow> m \<noteq> ''transfer'' \<Longrightarrow>
    postDeploymentL2TokenTasks (env_reverting m) l2DeployResult w =
     Some
       (Inr (),
        w\<lparr>trace :=
            trace w @
            [Chain
              (Transact Arb (l2DeployResult ''token'')
                ''transferOwnership'' [Str (l2DeployResult ''executor'')]
                False),
             Chain
              (Transact Arb (l2DeployResult ''token'') ''transfer''
                [Str (l2DeployResult ''arbTreasury''),
                 ParseEtherConst ''L2_NUM_OF_TOKENS_FOR_TREASURY'']
                False)]\<rparr>)"
  by (simp add: postDeploymentL2TokenTasks_def prim_defs asks Let_def)

lemma step13c: "m \<noteq> ''setRecipients'' \<Longrightarrow>
    setClaimRecipients (env_reverting m) tokenDistributor w =
     Some
       (Inr (),
        w\<lparr>trace :=
            trace w @
            [Chain (Read Arb ''provider'' ''getGasPrice'' []), Sleep 1000,
             Chain
              (Transact Arb tokenDistributor ''setRecipients''
                [Strs [''0xa1'', ''0xb2'', ''0xc3''],
                 Bigs [parseEther 3000, parseEther 10500, parseEther 12000],
                 Struct [(''gasLimit'', Big 30000000)]]
                True)]\<rparr>)"
  by (simp add: setClaimRecipients_def gasPriceGuard_def setRecipients_def prim_defs asks Let_def
      env_reverting_def[of m, THEN arg_cong, of recipients_file, simplified]
      env_reverting_def[of m, THEN arg_cong, of L2_NUM_OF_RECIPIENT_BATCHES_ALREADY_SET, simplified]
      example_recipients_def mapPointsToAmounts_def
      setClaimRecipients_loop.simps BATCH_SIZE_def slice_def slice_from_def
      BASE_GAS_PRICE_def GAS_PRICE_UNACCEPTABLE_LIMIT_def)


lemmas steps =
  step01 step02 step03 step04 step05 step06 step07 step08 step09 step10 step11 step12

lemma step13: "m \<noteq> ''deployed'' \<Longrightarrow> m \<noteq> ''transfer'' \<Longrightarrow> m \<noteq> ''setRecipients'' \<Longrightarrow>
    m \<noteq> ''transferOwnership'' \<Longrightarrow>
    deployAndInitTokenDistributor (env_reverting m) l2DeployResult w =
     Some
       (Inr (),
        w\<lparr>deployedContracts :=
            AList.update ''l2TokenDistributor'' ''arb:TokenDistributor''
             (deployedContracts w),
            trace :=
              trace w @
              [Chain
                (Deploy Arb ''TokenDistributor''
                  [Str (l2DeployResult ''token''),
                   Const ''L2_SWEEP_RECECIVER'', AddressOf Arb,
                   Const ''L2_CLAIM_PERIOD_START'',
                   Const ''L2_CLAIM_PERIOD_END'']),
               Chain (AwaitDeployed Arb ''arb:TokenDistributor''),
               Chain
                (Transact Arb (l2DeployResult ''token'') ''transfer''
                  [Str ''arb:TokenDistributor'',
                   ParseEtherConst ''L2_NUM_OF_TOKENS_FOR_CLAIMING'']
                  True),
               Chain (Read Arb ''provider'' ''getGasPrice'' []),
               Sleep 1000,
               Chain
                (Transact Arb ''arb:TokenDistributor'' ''setRecipients''
                  [Strs [''0xa1'', ''0xb2'', ''0xc3''],
                   Bigs
                    [parseEther 3000, parseEther 10500, parseEther 12000],
                   Struct [(''gasLimit'', Big 30000000)]]
                  True),
               Chain
                (Transact Arb ''arb:TokenDistributor''
                  ''transferOwnership'' [Str (l2DeployResult ''executor'')]
                  True)]\<rparr>)"
  by (simp add: deployAndInitTokenDistributor_def step13c prim_defs asks)


lemma failing_run:
  "deployGovernance (env_reverting ''deployStep2'') (fresh fs) =
     Some
       (Inl (Error [Lit ''reverted'']),
        \<lparr>trace =
           [Chain (Deploy Eth ''UpgradeExecutor'' []),
            Chain (Deploy Arb ''ArbitrumTimelock'' []),
            Chain (Deploy Arb ''L2ArbitrumGovernor'' []),
            Chain (Deploy Arb ''FixedDelegateErc20Wallet'' []),
            Chain (Deploy Arb ''L2ArbitrumToken'' []),
            Chain (Deploy Arb ''UpgradeExecutor'' []),
            Chain (Deploy Eth ''L1GovernanceFactory'' []),
            Chain (AwaitDeployed Eth ''eth:L1GovernanceFactory''),
            Chain (Deploy Eth ''L1ArbitrumToken'' []),
            Chain
             (Deploy Eth ''TransparentUpgradeableProxy''
               [Str ''eth:L1ArbitrumToken'', AddressOf Eth, Str ''0x'',
                Struct [(''gasLimit'', Big 3000000)]]),
            Chain (AwaitDeployed Eth ''eth:L1ArbitrumToken/proxy''),
            Chain
             (Deploy Arb ''L2GovernanceFactory''
               [Str ''arb:ArbitrumTimelock'', Str ''arb:L2ArbitrumGovernor'',
                Str ''arb:ArbitrumTimelock'',
                Str ''arb:FixedDelegateErc20Wallet'',
                Str ''arb:L2ArbitrumGovernor'', Str ''arb:L2ArbitrumToken'',
                Str ''arb:UpgradeExecutor'']),
            Chain (Deploy Nova ''ProxyAdmin'' []),
            Chain (AwaitDeployed Nova ''nova:ProxyAdmin''),
            Chain (Deploy Nova ''UpgradeExecutor'' []),
            Chain
             (Deploy Nova ''TransparentUpgradeableProxy''
               [Str ''nova:UpgradeExecutor'', Str ''nova:ProxyAdmin'',
                Str ''0x'']),
            Chain (AwaitDeployed Nova ''nova:UpgradeExecutor/proxy''),
            Chain (Deploy Nova ''L2CustomGatewayToken'' []),
            Chain
             (Deploy Nova ''TransparentUpgradeableProxy''
               [Str ''nova:L2CustomGatewayToken'', Str ''nova:ProxyAdmin'',
                Str ''0x'']),
            Chain (AwaitDeployed Nova ''nova:L2CustomGatewayToken/proxy''),
            Chain
             (Transact Nova ''nova:L2CustomGatewayToken/proxy'' ''initialize''
               [Const ''NOVA_TOKEN_NAME'', Const ''NOVA_TOKEN_SYMBOL'',
                Const ''NOVA_TOKEN_DECIMALS'', Const ''NOVA_TOKEN_GATEWAY'',
                Str ''eth:L1ArbitrumToken/proxy'']
               False),
            Chain
             (Transact Arb ''arb:L2GovernanceFactory'' ''deployStep1''
               [Struct
                 [(''_l2MinTimelockDelay'', Const ''L2_TIMELOCK_DELAY''),
                  (''_l2TokenInitialSupply'',
                   ParseEtherConst ''L2_TOKEN_INITIAL_SUPPLY''),
                  (''_upgradeProposer'',
                   Const ''L2_7_OF_12_SECURITY_COUNCIL''),
                  (''_coreQuorumThreshold'',
                   Const ''L2_CORE_QUORUM_TRESHOLD''),
                  (''_l1Token'', Str ''eth:L1ArbitrumToken/proxy''),
                  (''_treasuryQuorumThreshold'',
                   Const ''L2_TREASURY_QUORUM_TRESHOLD''),
                  (''_proposalThreshold'', Const ''L2_PROPOSAL_TRESHOLD''),
                  (''_votingDelay'', Const ''L2_VOTING_DELAY''),
                  (''_votingPeriod'', Const ''L2_VOTING_PERIOD''),
                  (''_minPeriodAfterQuorum'',
                   Const ''L2_MIN_PERIOD_AFTER_QUORUM''),
                  (''_l2InitialSupplyRecipient'', AddressOf Arb),
                  (''_l2EmergencySecurityCouncil'',
                   Const ''L2_9_OF_12_SECURITY_COUNCIL'')]]
               True),
            Chain
             (Transact Eth ''eth:L1GovernanceFactory'' ''deployStep2''
               [Str ''eth:UpgradeExecutor'', Const ''L1_TIMELOCK_DELAY'',
                Const ''L1_ARB_INBOX'', Str ''0xcoreTimelock'',
                Const ''L1_9_OF_12_SECURITY_COUNCIL'']
               True)],
           deployedContracts =
             [(''l1UpgradeExecutorLogic'', ''eth:UpgradeExecutor''),
              (''l2TimelockLogic'', ''arb:ArbitrumTimelock''),
              (''l2GovernorLogic'', ''arb:L2ArbitrumGovernor''),
              (''l2FixedDelegateLogic'', ''arb:FixedDelegateErc20Wallet''),
              (''l2TokenLogic'', ''arb:L2ArbitrumToken''),
              (''l2UpgradeExecutorLogic'', ''arb:UpgradeExecutor''),
              (''l1GovernanceFactory'', ''eth:L1GovernanceFactory''),
              (''l1TokenLogic'', ''eth:L1ArbitrumToken''),
              (''l1TokenProxy'', ''eth:L1ArbitrumToken/proxy''),
              (''l2GovernanceFactory'', ''arb:L2GovernanceFactory''),
              (''novaProxyAdmin'', ''nova:ProxyAdmin''),
              (''novaUpgradeExecutorLogic'', ''nova:UpgradeExecutor''),
              (''novaUpgradeExecutorProxy'', ''nova:UpgradeExecutor/proxy''),
              (''novaTokenLogic'', ''nova:L2CustomGatewayToken''),
              (''novaTokenProxy'', ''nova:L2CustomGatewayToken/proxy''),
              (''l2CoreGoverner'', ''0xcoreGoverner''),
              (''l2CoreTimelock'', ''0xcoreTimelock''),
              (''l2Executor'', ''0xexecutor''),
              (''l2ProxyAdmin'', ''0xproxyAdmin''),
              (''l2Token'', ''0xtoken''),
              (''l2TreasuryGoverner'', ''0xtreasuryGoverner''),
              (''l2ArbTreasury'', ''0xarbTreasury'')],
           files = fs\<rparr>)"
  by (simp add: deployGovernance_def steps step09_reverts bindM_def thenM_def liftE_def
      env_reverting_def[of "''deployStep2''", THEN arg_cong, of getDeployers_result, simplified]
      fresh_def example_receipt_def)

lemma example_run:
  "deployGovernance example_env (fresh fs) =
     Some
       (Inr (),
        \<lparr>trace =
           [Chain (Deploy Eth ''UpgradeExecutor'' []),
            Chain (Deploy Arb ''ArbitrumTimelock'' []),
            Chain (Deploy Arb ''L2ArbitrumGovernor'' []),
            Chain (Deploy Arb ''FixedDelegateErc20Wallet'' []),
            Chain (Deploy Arb ''L2ArbitrumToken'' []),
            Chain (Deploy Arb ''UpgradeExecutor'' []),
            Chain (Deploy Eth ''L1GovernanceFactory'' []),
            Chain (AwaitDeployed Eth ''eth:L1GovernanceFactory''),
            Chain (Deploy Eth ''L1ArbitrumToken'' []),
            Chain
             (Deploy Eth ''TransparentUpgradeableProxy''
               [Str ''eth:L1ArbitrumToken'', AddressOf Eth, Str ''0x'',
                Struct [(''gasLimit'', Big 3000000)]]),
            Chain (AwaitDeployed Eth ''eth:L1ArbitrumToken/proxy''),
            Chain
             (Deploy Arb ''L2GovernanceFactory''
               [Str ''arb:ArbitrumTimelock'', Str ''arb:L2ArbitrumGovernor'',
                Str ''arb:ArbitrumTimelock'',
                Str ''arb:FixedDelegateErc20Wallet'',
                Str ''arb:L2ArbitrumGovernor'', Str ''arb:L2ArbitrumToken'',
                Str ''arb:UpgradeExecutor'']),
            Chain (Deploy Nova ''ProxyAdmin'' []),
            Chain (AwaitDeployed Nova ''nova:ProxyAdmin''),
            Chain (Deploy Nova ''UpgradeExecutor'' []),
            Chain
             (Deploy Nova ''TransparentUpgradeableProxy''
               [Str ''nova:UpgradeExecutor'', Str ''nova:ProxyAdmin'',
                Str ''0x'']),
            Chain (AwaitDeployed Nova ''nova:UpgradeExecutor/proxy''),
            Chain (Deploy Nova ''L2CustomGatewayToken'' []),
            Chain
             (Deploy Nova ''TransparentUpgradeableProxy''
               [Str ''nova:L2CustomGatewayToken'', Str ''nova:ProxyAdmin'',
                Str ''0x'']),
            Chain (AwaitDeployed Nova ''nova:L2CustomGatewayToken/proxy''),
            Chain
             (Transact Nova ''nova:L2CustomGatewayToken/proxy'' ''initialize''
               [Const ''NOVA_TOKEN_NAME'', Const ''NOVA_TOKEN_SYMBOL'',
                Const ''NOVA_TOKEN_DECIMALS'', Const ''NOVA_TOKEN_GATEWAY'',
                Str ''eth:L1ArbitrumToken/proxy'']
               False),
            Chain
             (Transact Arb ''arb:L2GovernanceFactory'' ''deployStep1''
               [Struct
                 [(''_l2MinTimelockDelay'', Const ''L2_TIMELOCK_DELAY''),
                  (''_l2TokenInitialSupply'',
                   ParseEtherConst ''L2_TOKEN_INITIAL_SUPPLY''),
                  (''_upgradeProposer'',
                   Const ''L2_7_OF_12_SECURITY_COUNCIL''),
                  (''_coreQuorumThreshold'',
                   Const ''L2_CORE_QUORUM_TRESHOLD''),
                  (''_l1Token'', Str ''eth:L1ArbitrumToken/proxy''),
                  (''_treasuryQuorumThreshold'',
                   Const ''L2_TREASURY_QUORUM_TRESHOLD''),
                  (''_proposalThreshold'', Const ''L2_PROPOSAL_TRESHOLD''),
                  (''_votingDelay'', Const ''L2_VOTING_DELAY''),
                  (''_votingPeriod'', Const ''L2_VOTING_PERIOD''),
                  (''_minPeriodAfterQuorum'',
                   Const ''L2_MIN_PERIOD_AFTER_QUORUM''),
                  (''_l2InitialSupplyRecipient'', AddressOf Arb),
                  (''_l2EmergencySecurityCouncil'',
                   Const ''L2_9_OF_12_SECURITY_COUNCIL'')]]
               True),
            Chain
             (Transact Eth ''eth:L1GovernanceFactory'' ''deployStep2''
               [Str ''eth:UpgradeExecutor'', Const ''L1_TIMELOCK_DELAY'',
                Const ''L1_ARB_INBOX'', Str ''0xcoreTimelock'',
                Const ''L1_9_OF_12_SECURITY_COUNCIL'']
               True),
            Chain
             (Transact Arb ''arb:L2GovernanceFactory'' ''deployStep3''
               [Aliased ''0xtimelock''] False),
            Chain
             (Transact Nova ''nova:UpgradeExecutor/proxy'' ''initialize''
               [Str ''nova:UpgradeExecutor/proxy'',
                Array
                 [Aliased ''0xtimelock'',
                  Const ''NOVA_9_OF_12_SECURITY_COUNCIL'']]
               False),
            Chain
             (Transact Nova ''nova:ProxyAdmin'' ''transferOwnership''
               [Str ''nova:UpgradeExecutor/proxy''] False),
            Chain
             (Transact Eth ''eth:L1ArbitrumToken/proxy'' ''changeAdmin''
               [Str ''0xproxyAdmin''] True),
            Chain
             (Transact Eth ''eth:L1ArbitrumToken/proxy'' ''initialize''
               [Const ''L1_ARB_GATEWAY'', Const ''L1_NOVA_ROUTER'',
                Const ''L1_NOVA_GATEWAY'']
               True),
            Chain (Read Nova ''provider'' ''getGasPrice'' []),
            Chain (Read Eth ''eth:L1ArbitrumToken/proxy'' ''novaGateway'' []),
            Chain (Read Eth ''eth:novaGateway'' ''inbox'' []),
            Chain
             (Read Eth ''eth:inbox'' ''calculateRetryableSubmissionFee''
               [CalldataLength ''registerTokenFromL1''
                 [Strs [''eth:L1ArbitrumToken/proxy''],
                  Strs [''nova:L2CustomGatewayToken/proxy'']],
                Big 0]),
            Chain
             (Read Eth ''eth:inbox'' ''calculateRetryableSubmissionFee''
               [CalldataLength ''setGateway''
                 [Strs [''eth:L1ArbitrumToken/proxy''],
                  Strs [''eth:novaGateway'']],
                Big 0]),
            Chain
             (Transact Eth ''eth:L1ArbitrumToken/proxy'' ''registerTokenOnL2''
               [Struct
                 [(''l2TokenAddress'',
                   Str ''nova:L2CustomGatewayToken/proxy''),
                  (''maxSubmissionCostForCustomGateway'', Big 200000000),
                  (''maxSubmissionCostForRouter'', Big 200000000),
                  (''maxGasForCustomGateway'', Big 1000000),
                  (''maxGasForRouter'', Big 1000000),
                  (''gasPriceBid'', Big 200000000),
                  (''valueForGateway'', Big 200000200000000),
                  (''valueForRouter'', Big 200000200000000),
                  (''creditBackAddress'', AddressOf Eth)],
                Struct
                 [(''value'', Big 400000400001000),
                  (''gasLimit'', Big 3000000)]]
               True),
            Chain
             (Read Nova ''l1RegistrationTxReceipt'' ''getL1ToL2Messages'' []),
            Chain (WaitForStatus 0), Chain (WaitForStatus (Suc 0)),
            Chain
             (Transact Arb ''0xtoken'' ''transferOwnership''
               [Str ''0xexecutor''] False),
            Chain
             (Transact Arb ''0xtoken'' ''transfer''
               [Str ''0xarbTreasury'',
                ParseEtherConst ''L2_NUM_OF_TOKENS_FOR_TREASURY'']
               False),
            Chain
             (Deploy Arb ''TokenDistributor''
               [Str ''0xtoken'', Const ''L2_SWEEP_RECECIVER'', AddressOf Arb,
                Const ''L2_CLAIM_PERIOD_START'',
                Const ''L2_CLAIM_PERIOD_END'']),
            Chain (AwaitDeployed Arb ''arb:TokenDistributor''),
            Chain
             (Transact Arb ''0xtoken'' ''transfer''
               [Str ''arb:TokenDistributor'',
                ParseEtherConst ''L2_NUM_OF_TOKENS_FOR_CLAIMING'']
               True),
            Chain (Read Arb ''provider'' ''getGasPrice'' []), Sleep 1000,
            Chain
             (Transact Arb ''arb:TokenDistributor'' ''setRecipients''
               [Strs [''0xa1'', ''0xb2'', ''0xc3''],
                Bigs [parseEther 3000, parseEther 10500, parseEther 12000],
                Struct [(''gasLimit'', Big 30000000)]]
               True),
            Chain
             (Transact Arb ''arb:TokenDistributor'' ''transferOwnership''
               [Str ''0xexecutor''] True),
            WriteFileSync ''deployedContracts.json''
             ''l1UpgradeExecutorLogic=eth:UpgradeExecutor;l2TimelockLogic=arb:ArbitrumTimelock;l2GovernorLogic=arb:L2ArbitrumGovernor;l2FixedDelegateLogic=arb:FixedDelegateErc20Wallet;l2TokenLogic=arb:L2ArbitrumToken;l2UpgradeExecutorLogic=arb:UpgradeExecutor;l1GovernanceFactory=eth:L1GovernanceFactory;l1TokenLogic=eth:L1ArbitrumToken;l1TokenProxy=eth:L1ArbitrumToken/proxy;l2GovernanceFactory=arb:L2GovernanceFactory;novaProxyAdmin=nova:ProxyAdmin;novaUpgradeExecutorLogic=nova:UpgradeExecutor;novaUpgradeExecutorProxy=nova:UpgradeExecutor/proxy;novaTokenLogic=nova:L2CustomGatewayToken;novaTokenProxy=nova:L2CustomGatewayToken/proxy;l2CoreGoverner=0xcoreGoverner;l2CoreTimelock=0xcoreTimelock;l2Executor=0xexecutor;l2ProxyAdmin=0xproxyAdmin;l2Token=0xtoken;l2TreasuryGoverner=0xtreasuryGoverner;l2ArbTreasury=0xarbTreasury;l1Executor=0xexecutor;l1ProxyAdmin=0xproxyAdmin;l1Timelock=0xtimelock;l2TokenDistributor=arb:TokenDistributor;''],
           deployedContracts =
             [(''l1UpgradeExecutorLogic'', ''eth:UpgradeExecutor''),
              (''l2TimelockLogic'', ''arb:ArbitrumTimelock''),
              (''l2GovernorLogic'', ''arb:L2ArbitrumGovernor''),
              (''l2FixedDelegateLogic'', ''arb:FixedDelegateErc20Wallet''),
              (''l2TokenLogic'', ''arb:L2ArbitrumToken''),
              (''l2UpgradeExecutorLogic'', ''arb:UpgradeExecutor''),
              (''l1GovernanceFactory'', ''eth:L1GovernanceFactory''),
              (''l1TokenLogic'', ''eth:L1ArbitrumToken''),
              (''l1TokenProxy'', ''eth:L1ArbitrumToken/proxy''),
              (''l2GovernanceFactory'', ''arb:L2GovernanceFactory''),
              (''novaProxyAdmin'', ''nova:ProxyAdmin''),
              (''novaUpgradeExecutorLogic'', ''nova:UpgradeExecutor''),
              (''novaUpgradeExecutorProxy'', ''nova:UpgradeExecutor/proxy''),
              (''novaTokenLogic'', ''nova:L2CustomGatewayToken''),
              (''novaTokenProxy'', ''nova:L2CustomGatewayToken/proxy''),
              (''l2CoreGoverner'', ''0xcoreGoverner''),
              (''l2CoreTimelock'', ''0xcoreTimelock''),
              (''l2Executor'', ''0xexecutor''),
              (''l2ProxyAdmin'', ''0xproxyAdmin''),
              (''l2Token'', ''0xtoken''),
              (''l2TreasuryGoverner'', ''0xtreasuryGoverner''),
              (''l2ArbTreasury'', ''0xarbTreasury''),
              (''l1Executor'', ''0xexecutor''),
              (''l1ProxyAdmin'', ''0xproxyAdmin''),
              (''l1Timelock'', ''0xtimelock''),
              (''l2TokenDistributor'', ''arb:TokenDistributor'')],
           files =
             fs(''deployedContracts.json'' \<mapsto>
                  ''l1UpgradeExecutorLogic=eth:UpgradeExecutor;l2TimelockLogic=arb:ArbitrumTimelock;l2GovernorLogic=arb:L2ArbitrumGovernor;l2FixedDelegateLogic=arb:FixedDelegateErc20Wallet;l2TokenLogic=arb:L2ArbitrumToken;l2UpgradeExecutorLogic=arb:UpgradeExecutor;l1GovernanceFactory=eth:L1GovernanceFactory;l1TokenLogic=eth:L1ArbitrumToken;l1TokenProxy=eth:L1ArbitrumToken/proxy;l2GovernanceFactory=arb:L2GovernanceFactory;novaProxyAdmin=nova:ProxyAdmin;novaUpgradeExecutorLogic=nova:UpgradeExecutor;novaUpgradeExecutorProxy=nova:UpgradeExecutor/proxy;novaTokenLogic=nova:L2CustomGatewayToken;novaTokenProxy=nova:L2CustomGatewayToken/proxy;l2CoreGoverner=0xcoreGoverner;l2CoreTimelock=0xcoreTimelock;l2Executor=0xexecutor;l2ProxyAdmin=0xproxyAdmin;l2Token=0xtoken;l2TreasuryGoverner=0xtreasuryGoverner;l2ArbTreasury=0xarbTreasury;l1Executor=0xexecutor;l1ProxyAdmin=0xproxyAdmin;l1Timelock=0xtimelock;l2TokenDistributor=arb:TokenDistributor;'')\<rparr>)"
  unfolding example_env_def
  by (simp add: deployGovernance_def steps step13 bindM_def thenM_def liftE_def
      env_reverting_def[of "[]", THEN arg_cong, of getDeployers_result, simplified]
      env_reverting_def[of "[]", THEN arg_cong, of JSON_stringify, simplified]
      writeAddresses_def writeFileSync_def writeFileSync_interrupted_def
      DEPLOYED_CONTRACTS_FILE_NAME_def fresh_def example_receipt_def Let_def)

section \<open>The cross-chain messages of the L1 token\<close>

lemma checkRedeemed_Inr: "checkRedeemed s1 s2 = Inr () \<longleftrightarrow> s1 = REDEEMED \<and> s2 = REDEEMED"
  by (simp add: checkRedeemed_def)

lemma waitForL2TXs_run:
  assumes "receipt_result env getL1ToL2Messages (occurrences (trace w) getL1ToL2Messages) = Inr msgs"
    and "number_result env (WaitForStatus 0) (occurrences (trace w) (WaitForStatus 0)) = Inr s1"
    and "number_result env (WaitForStatus 1) (occurrences (trace w) (WaitForStatus 1)) = Inr s2"
  shows "waitForL2TXs env w =
           Some (checkRedeemed s1 s2,
                 w\<lparr>trace := trace w @ [Chain getL1ToL2Messages, Chain (WaitForStatus 0),
                                        Chain (WaitForStatus 1)]\<rparr>)"
  using assms
  by (simp add: waitForL2TXs_def thenM_def bindM_def ask_def waitForStatus_def liftE_def
      getL1ToL2Messages_def occurrences_def)

lemma waitForL2TXs_returns:
  assumes "waitForL2TXs env w = Some (Inr (), w')"
  shows "trace w' = trace w @ [Chain getL1ToL2Messages, Chain (WaitForStatus 0), Chain (WaitForStatus 1)]
         \<and> number_result env (WaitForStatus 0) (occurrences (trace w) (WaitForStatus 0)) = Inr REDEEMED
         \<and> number_result env (WaitForStatus 1) (occurrences (trace w) (WaitForStatus 1)) = Inr REDEEMED"
  using assms
  by (auto simp: waitForL2TXs_def thenM_def bindM_def ask_def waitForStatus_def liftE_def
      getL1ToL2Messages_def occurrences_def checkRedeemed_def
      split: option.splits sum.splits prod.splits if_splits)

lemma bindM_ask_ends:
  assumes "bindM (ask answer c) f w = Some (r, w')"
  shows "(\<exists>e. r = Inl e \<and> trace w' = trace w @ [Chain c])
         \<or> (\<exists>x. f x (w\<lparr>trace := trace w @ [Chain c]\<rparr>) = Some (r, w'))"
  using assms by (auto simp: bindM_def ask_def split: sum.splits)

lemma thenM_ask_ends:
  assumes "thenM (ask answer c) k w = Some (r, w')"
  shows "(\<exists>e. r = Inl e \<and> trace w' = trace w @ [Chain c])
         \<or> k (w\<lparr>trace := trace w @ [Chain c]\<rparr>) = Some (r, w')"
  using bindM_ask_ends[OF assms[unfolded thenM_def]] by blast

lemma postDeploymentL1TokenTasks_ends:
  assumes "postDeploymentL1TokenTasks env p a n w = Some (r, w')"
  shows "(\<exists>w1. waitForL2TXs env w1 = Some (r, w'))
         \<or> (\<exists>e c evs. r = Inl e \<and> (\<forall>i. c \<noteq> WaitForStatus i) \<and> trace w' = evs @ [Chain c])"
  using assms unfolding postDeploymentL1TokenTasks_def Let_def io_defs
  by (elim bindM_ask_ends[THEN disjE] thenM_ask_ends[THEN disjE] exE conjE) blast+


text \<open>
  Claim C8. At the end of the step, once the messages have been fetched, the script waits
  for the status of the registration message and then for that of the gateway message, and
  only then checks them: its result is that of \<open>checkRedeemed\<close> on the two statuses. A
  registration status other than \<^verbatim>\<open>REDEEMED\<close> throws the error carrying that status;
  otherwise a gateway status other than \<^verbatim>\<open>REDEEMED\<close> throws the error carrying that status;
  two \<^verbatim>\<open>REDEEMED\<close> statuses return. A run of \<open>postDeploymentL1TokenTasks\<close> that ends either
  ends with the result of these waits and checks, or has thrown at an earlier call; and a
  run that returns has waited for both statuses and has found both \<^verbatim>\<open>REDEEMED\<close>.
\<close>

theorem postDeploymentL1TokenTasks_redeemed:
  "(receipt_result env getL1ToL2Messages (occurrences (trace w1) getL1ToL2Messages) = Inr msgs
      \<and> number_result env (WaitForStatus 0) (occurrences (trace w1) (WaitForStatus 0)) = Inr s1
      \<and> number_result env (WaitForStatus 1) (occurrences (trace w1) (WaitForStatus 1)) = Inr s2 \<longrightarrow>
      waitForL2TXs env w1 =
        Some (checkRedeemed s1 s2,
              w1\<lparr>trace := trace w1 @ [Chain getL1ToL2Messages, Chain (WaitForStatus 0),
                                       Chain (WaitForStatus 1)]\<rparr>))
   \<and> (s1 \<noteq> REDEEMED \<longrightarrow>
        checkRedeemed s1 s2 =
          Inl (Error [Lit ''Register token L1 to L2 message not redeemed. Status: '', Num s1]))
   \<and> (s1 = REDEEMED \<and> s2 \<noteq> REDEEMED \<longrightarrow>
        checkRedeemed s1 s2 =
          Inl (Error [Lit ''Set gateway L1 to L2 message not redeemed. Status: '', Num s2]))
   \<and> (s1 = REDEEMED \<and> s2 = REDEEMED \<longrightarrow> checkRedeemed s1 s2 = Inr ())
   \<and> (postDeploymentL1TokenTasks env l1TokenProxy l1ProxyAdminAddress novaTokenAddress w
         = Some (r, w') \<longrightarrow>
        (\<exists>w1. waitForL2TXs env w1 = Some (r, w'))
        \<or> (\<exists>e c evs. r = Inl e \<and> (\<forall>i. c \<noteq> WaitForStatus i) \<and> trace w' = evs @ [Chain c]))
   \<and> (postDeploymentL1TokenTasks env l1TokenProxy l1ProxyAdminAddress novaTokenAddress w
         = Some (Inr (), w') \<longrightarrow>
        (\<exists>w1::world. trace w' = trace w1 @ [Chain getL1ToL2Messages, Chain (WaitForStatus 0),
                                      Chain (WaitForStatus 1)]
           \<and> number_result env (WaitForStatus 0) (occurrences (trace w1) (WaitForStatus 0))
               = Inr REDEEMED
           \<and> number_result env (WaitForStatus 1) (occurrences (trace w1) (WaitForStatus 1))
               = Inr REDEEMED))"
proof (intro conjI impI)
  assume "receipt_result env getL1ToL2Messages (occurrences (trace w1) getL1ToL2Messages) = Inr msgs
      \<and> number_result env (WaitForStatus 0) (occurrences (trace w1) (WaitForStatus 0)) = Inr s1
      \<and> number_result env (WaitForStatus 1) (occurrences (trace w1) (WaitForStatus 1)) = Inr s2"
  then show "waitForL2TXs env w1 =
        Some (checkRedeemed s1 s2,
              w1\<lparr>trace := trace w1 @ [Chain getL1ToL2Messages, Chain (WaitForStatus 0),
                                       Chain (WaitForStatus 1)]\<rparr>)"
    using waitForL2TXs_run[of env w1 msgs s1 s2] by blast
next
  assume "s1 \<noteq> REDEEMED"
  then show "checkRedeemed s1 s2 =
          Inl (Error [Lit ''Register token L1 to L2 message not redeemed. Status: '', Num s1])"
    by (simp add: checkRedeemed_def)
next
  assume "s1 = REDEEMED \<and> s2 \<noteq> REDEEMED"
  then show "checkRedeemed s1 s2 =
          Inl (Error [Lit ''Set gateway L1 to L2 message not redeemed. Status: '', Num s2])"
    by (simp add: checkRedeemed_def)
next
  assume "s1 = REDEEMED \<and> s2 = REDEEMED"
  then show "checkRedeemed s1 s2 = Inr ()" by (simp add: checkRedeemed_def)
next
  assume "postDeploymentL1TokenTasks env l1TokenProxy l1ProxyAdminAddress novaTokenAddress w
         = Some (r, w')"
  then show "(\<exists>w1. waitForL2TXs env w1 = Some (r, w'))
        \<or> (\<exists>e c evs. r = Inl e \<and> (\<forall>i. c \<noteq> WaitForStatus i) \<and> trace w' = evs @ [Chain c])"
    by (rule postDeploymentL1TokenTasks_ends)
next
  assume run: "postDeploymentL1TokenTasks env l1TokenProxy l1ProxyAdminAddress novaTokenAddress w
         = Some (Inr (), w')"
  from postDeploymentL1TokenTasks_ends[OF run] obtain w2 where
    "waitForL2TXs env w2 = Some (Inr (), w')" by blast
  from waitForL2TXs_returns[OF this]
  show "\<exists>w1::world. trace w' = trace w1 @ [Chain getL1ToL2Messages, Chain (WaitForStatus 0),
                                      Chain (WaitForStatus 1)]
           \<and> number_result env (WaitForStatus 0) (occurrences (trace w1) (WaitForStatus 0))
               = Inr REDEEMED
           \<and> number_result env (WaitForStatus 1) (occurrences (trace w1) (WaitForStatus 1))
               = Inr REDEEMED"
    by (rule exI[of _ w2])
qed

lemma env_statuses_answers:
  "receipt_result (env_statuses a b) getL1ToL2Messages k = Inr example_receipt"
  "number_result (env_statuses a b) (WaitForStatus 0) k = Inr a"
  "number_result (env_statuses a b) (WaitForStatus 1) k = Inr b"
  by (simp_all add: env_statuses_def example_env_def env_reverting_def getL1ToL2Messages_def)

lemma example_step11:
  "\<exists>w'. postDeploymentL1TokenTasks example_env ''eth:L1ArbitrumToken/proxy'' ''eth:ProxyAdmin''
          ''nova:L2CustomGatewayToken/proxy'' (fresh Map.empty) = Some (Inr (), w')"
  unfolding example_env_def by (simp add: step11)

theorem postDeploymentL1TokenTasks_redeemed_witness:
  "waitForL2TXs (env_statuses 1 REDEEMED) (fresh Map.empty) =
     Some (Inl (Error [Lit ''Register token L1 to L2 message not redeemed. Status: '', Num 1]),
           \<lparr>trace = [Chain getL1ToL2Messages, Chain (WaitForStatus 0), Chain (WaitForStatus 1)],
            deployedContracts = [], files = Map.empty\<rparr>)
   \<and> waitForL2TXs (env_statuses REDEEMED 5) (fresh Map.empty) =
     Some (Inl (Error [Lit ''Set gateway L1 to L2 message not redeemed. Status: '', Num 5]),
           \<lparr>trace = [Chain getL1ToL2Messages, Chain (WaitForStatus 0), Chain (WaitForStatus 1)],
            deployedContracts = [], files = Map.empty\<rparr>)
   \<and> waitForL2TXs (env_statuses REDEEMED REDEEMED) (fresh Map.empty) =
     Some (Inr (),
           \<lparr>trace = [Chain getL1ToL2Messages, Chain (WaitForStatus 0), Chain (WaitForStatus 1)],
            deployedContracts = [], files = Map.empty\<rparr>)
   \<and> (\<exists>w' (w1::world).
        postDeploymentL1TokenTasks example_env ''eth:L1ArbitrumToken/proxy'' ''eth:ProxyAdmin''
          ''nova:L2CustomGatewayToken/proxy'' (fresh Map.empty) = Some (Inr (), w')
        \<and> trace w' = trace w1 @ [Chain getL1ToL2Messages, Chain (WaitForStatus 0),
                                 Chain (WaitForStatus 1)]
        \<and> number_result example_env (WaitForStatus 0) (occurrences (trace w1) (WaitForStatus 0))
            = Inr REDEEMED
        \<and> number_result example_env (WaitForStatus 1) (occurrences (trace w1) (WaitForStatus 1))
            = Inr REDEEMED)"
proof (intro conjI)
  let ?w = "fresh Map.empty"
  have w: "?w\<lparr>trace := trace ?w @ [Chain getL1ToL2Messages, Chain (WaitForStatus 0),
                                     Chain (WaitForStatus 1)]\<rparr>
           = \<lparr>trace = [Chain getL1ToL2Messages, Chain (WaitForStatus 0), Chain (WaitForStatus 1)],
              deployedContracts = [], files = Map.empty\<rparr>"
    by (simp add: fresh_def)
  have r: "(1::int) \<noteq> REDEEMED" "(5::int) \<noteq> REDEEMED" by (simp_all add: REDEEMED_def)
  show "waitForL2TXs (env_statuses 1 REDEEMED) ?w =
     Some (Inl (Error [Lit ''Register token L1 to L2 message not redeemed. Status: '', Num 1]),
           \<lparr>trace = [Chain getL1ToL2Messages, Chain (WaitForStatus 0), Chain (WaitForStatus 1)],
            deployedContracts = [], files = Map.empty\<rparr>)"
    using postDeploymentL1TokenTasks_redeemed
            [where env = "env_statuses 1 REDEEMED" and ?w1.0 = ?w and ?s1.0 = 1
               and ?s2.0 = REDEEMED and msgs = example_receipt]
      env_statuses_answers[of 1 REDEEMED] r(1)
    unfolding w by simp
  show "waitForL2TXs (env_statuses REDEEMED 5) ?w =
     Some (Inl (Error [Lit ''Set gateway L1 to L2 message not redeemed. Status: '', Num 5]),
           \<lparr>trace = [Chain getL1ToL2Messages, Chain (WaitForStatus 0), Chain (WaitForStatus 1)],
            deployedContracts = [], files = Map.empty\<rparr>)"
    using postDeploymentL1TokenTasks_redeemed
            [where env = "env_statuses REDEEMED 5" and ?w1.0 = ?w and ?s1.0 = REDEEMED
               and ?s2.0 = 5 and msgs = example_receipt]
      env_statuses_answers[of REDEEMED 5] r(2)
    unfolding w by simp
  show "waitForL2TXs (env_statuses REDEEMED REDEEMED) ?w =
     Some (Inr (),
           \<lparr>trace = [Chain getL1ToL2Messages, Chain (WaitForStatus 0), Chain (WaitForStatus 1)],
            deployedContracts = [], files = Map.empty\<rparr>)"
    using postDeploymentL1TokenTasks_redeemed
            [where env = "env_statuses REDEEMED REDEEMED" and ?w1.0 = ?w and ?s1.0 = REDEEMED
               and ?s2.0 = REDEEMED and msgs = example_receipt]
      env_statuses_answers[of REDEEMED REDEEMED]
    unfolding w by simp
  from example_step11 obtain w' where
    run: "postDeploymentL1TokenTasks example_env ''eth:L1ArbitrumToken/proxy'' ''eth:ProxyAdmin''
          ''nova:L2CustomGatewayToken/proxy'' ?w = Some (Inr (), w')" by blast
  from postDeploymentL1TokenTasks_redeemed
         [where env = example_env and l1TokenProxy = "''eth:L1ArbitrumToken/proxy''"
            and l1ProxyAdminAddress = "''eth:ProxyAdmin''"
            and novaTokenAddress = "''nova:L2CustomGatewayToken/proxy''" and w = ?w and w' = w'
            and r = "Inr ()"] run
  show "\<exists>w' (w1::world).
        postDeploymentL1TokenTasks example_env ''eth:L1ArbitrumToken/proxy'' ''eth:ProxyAdmin''
          ''nova:L2CustomGatewayToken/proxy'' (fresh Map.empty) = Some (Inr (), w')
        \<and> trace w' = trace w1 @ [Chain getL1ToL2Messages, Chain (WaitForStatus 0),
                                 Chain (WaitForStatus 1)]
        \<and> number_result example_env (WaitForStatus 0) (occurrences (trace w1) (WaitForStatus 0))
            = Inr REDEEMED
        \<and> number_result example_env (WaitForStatus 1) (occurrences (trace w1) (WaitForStatus 1))
            = Inr REDEEMED"
    by blast
qed


section \<open>The batch loop keeps no cursor\<close>

lemma example_batches_returns:
  "\<exists>w'. setClaimRecipients (env_recipients 250) td w = Some (Inr (), w')"
  unfolding setClaimRecipients_unfold[OF env_recipients_fields(1) many_recipients_mapped]
  by (rule loop_returns[OF env_recipients_fields(3) env_recipients_fields(4)])

lemma many_amounts:
  "map (\<lambda>(key, points). parseEther (the (spec_amount points))) (many_recipients n)
     = replicate n (parseEther 3000)"
  by (simp add: many_recipients_def comp_def spec_amount_def spec_amount_table_def
      map_replicate_const)

lemma example_batches:
  assumes run: "setClaimRecipients (env_recipients 250) td w = Some (Inr (), w')"
  shows "transactions (trace w') =
           transactions (trace w)
           @ [setRecipients_call td (slice (map fst (many_recipients 250)) 0 100)
                (replicate 100 (parseEther 3000)),
              setRecipients_call td (slice (map fst (many_recipients 250)) 100 200)
                (replicate 100 (parseEther 3000)),
              setRecipients_call td (slice_from (map fst (many_recipients 250)) 200)
                (replicate 50 (parseEther 3000))]"
proof -
  have upt2: "[0..<2] = [0, 1::nat]" by (simp add: upt_rec)
  have len: "length (map fst (many_recipients 250)) = 250" by (simp add: many_recipients_def)
  from general_batches[OF env_recipients_fields(1) many_recipients_mapped run]
  show ?thesis
    unfolding many_amounts env_recipients_fields(2) len
    by (simp add: upt2 slice_def slice_from_def)
qed

lemma thenM_Some_Inr: "m w = Some (Inr x, w') \<Longrightarrow> thenM m k w = k w'"
  by (simp add: thenM_def bindM_def)

text \<open>
  Claim C6, as stated, fails. A run over 250 recipients sends its three batches, each
  confirmed, and leaves \<^verbatim>\<open>deployedContracts\<close> and the files as they were: empty, with no
  cursor. A second run in the world that the first one left sends the same three batches
  again, from batch 0.
\<close>

theorem setClaimRecipients_cursor_counterexample:
  "map_option (\<lambda>(r, w'). (r, transactions (trace w'), deployedContracts w', files w'))
     (setClaimRecipients (env_recipients 250) ''arb:TokenDistributor'' (fresh Map.empty))
     = Some (Inr (),
             [setRecipients_call ''arb:TokenDistributor''
                (slice (map fst (many_recipients 250)) 0 100) (replicate 100 (parseEther 3000)),
              setRecipients_call ''arb:TokenDistributor''
                (slice (map fst (many_recipients 250)) 100 200) (replicate 100 (parseEther 3000)),
              setRecipients_call ''arb:TokenDistributor''
                (slice_from (map fst (many_recipients 250)) 200) (replicate 50 (parseEther 3000))],
             [], Map.empty)
   \<and> map_option (\<lambda>(r, w'). (r, transactions (trace w'), deployedContracts w', files w'))
       (thenM (setClaimRecipients (env_recipients 250) ''arb:TokenDistributor'')
              (setClaimRecipients (env_recipients 250) ''arb:TokenDistributor'')
          (fresh Map.empty))
     = Some (Inr (),
             [setRecipients_call ''arb:TokenDistributor''
                (slice (map fst (many_recipients 250)) 0 100) (replicate 100 (parseEther 3000)),
              setRecipients_call ''arb:TokenDistributor''
                (slice (map fst (many_recipients 250)) 100 200) (replicate 100 (parseEther 3000)),
              setRecipients_call ''arb:TokenDistributor''
                (slice_from (map fst (many_recipients 250)) 200) (replicate 50 (parseEther 3000)),
              setRecipients_call ''arb:TokenDistributor''
                (slice (map fst (many_recipients 250)) 0 100) (replicate 100 (parseEther 3000)),
              setRecipients_call ''arb:TokenDistributor''
                (slice (map fst (many_recipients 250)) 100 200) (replicate 100 (parseEther 3000)),
              setRecipients_call ''arb:TokenDistributor''
                (slice_from (map fst (many_recipients 250)) 200) (replicate 50 (parseEther 3000))],
             [], Map.empty)"
proof -
  let ?run = "setClaimRecipients (env_recipients 250) ''arb:TokenDistributor''"
  let ?w = "fresh Map.empty"
  from example_batches_returns obtain w1 where run1: "?run ?w = Some (Inr (), w1)" by blast
  from example_batches_returns obtain w2 where run2: "?run w1 = Some (Inr (), w2)" by blast
  have d1: "deployedContracts w1 = []"
    using store_blind_keeps[OF store_blind_setClaimRecipients run1] by (simp add: fresh_def)
  have f1: "files w1 = Map.empty"
    using on_trace_keeps_files[OF on_trace_setClaimRecipients run1] by (simp add: fresh_def)
  have d2: "deployedContracts w2 = []"
    using store_blind_keeps[OF store_blind_setClaimRecipients run2] d1 by simp
  have f2: "files w2 = Map.empty"
    using on_trace_keeps_files[OF on_trace_setClaimRecipients run2] f1 by simp
  have t0: "transactions (trace ?w) = []" by (simp add: fresh_def transactions_Nil)
  note t1 = example_batches[OF run1, unfolded t0 append_Nil]
  note t2 = example_batches[OF run2, unfolded t1]
  have both: "thenM ?run ?run ?w = Some (Inr (), w2)"
    unfolding thenM_Some_Inr[of ?run, OF run1] by (rule run2)
  show ?thesis
    unfolding both run1 by (simp add: d1 f1 d2 f2 t1 t2)
qed

text \<open>
  Claim C6, amended. The batch loop awaits the confirmation of each batch and then goes on
  to the next index; it keeps no cursor. A run leaves \<^verbatim>\<open>deployedContracts\<close> and the files as
  they were, and what it does is the same whatever they hold. A run that returns has sent
  the batches from the index \<^verbatim>\<open>L2_NUM_OF_RECIPIENT_BATCHES_ALREADY_SET\<close> of the
  configuration on, so a rerun under the same configuration starts at that same index.
\<close>

theorem setClaimRecipients_no_cursor:
  "(setClaimRecipients env td w = Some (r, w') \<longrightarrow>
      deployedContracts w' = deployedContracts w \<and> files w' = files w)
   \<and> setClaimRecipients env td (w\<lparr>deployedContracts := d, files := fs\<rparr>) =
       map_option (\<lambda>(r, w'). (r, w'\<lparr>deployedContracts := d, files := fs\<rparr>))
         (setClaimRecipients env td w)
   \<and> (recipients_file env = Inr raw \<and> mapPointsToAmounts raw = Inr (recipients, amounts)
        \<and> setClaimRecipients env td w = Some (Inr (), w'') \<longrightarrow>
      transactions (trace w'') =
        transactions (trace w)
        @ map (\<lambda>i. setRecipients_call td (slice recipients (i * 100) ((i + 1) * 100))
                                           (slice amounts (i * 100) ((i + 1) * 100)))
              [L2_NUM_OF_RECIPIENT_BATCHES_ALREADY_SET env ..< length recipients div 100]
        @ (if L2_NUM_OF_RECIPIENT_BATCHES_ALREADY_SET env \<le> length recipients div 100
              \<and> length recipients mod 100 \<noteq> 0
           then [setRecipients_call td
                   (slice_from recipients (length recipients div 100 * 100))
                   (slice_from amounts (length recipients div 100 * 100))]
           else []))"
proof (intro conjI impI)
  assume run: "setClaimRecipients env td w = Some (r, w')"
  show "deployedContracts w' = deployedContracts w"
    by (rule store_blind_keeps[OF store_blind_setClaimRecipients run])
  show "files w' = files w"
    by (rule on_trace_keeps_files[OF on_trace_setClaimRecipients run])
next
  let ?m = "setClaimRecipients env td"
  have a: "?m (v\<lparr>deployedContracts := d\<rparr>) =
             map_option (\<lambda>(r, w'). (r, w'\<lparr>deployedContracts := d\<rparr>)) (?m v)" for v
    using store_blind_setClaimRecipients[of env td] unfolding store_blind_def by blast
  have b: "?m (v\<lparr>files := fs\<rparr>) = map_option (\<lambda>(r, w'). (r, w'\<lparr>files := fs\<rparr>)) (?m v)" for v
    using on_trace_setClaimRecipients[of env td] unfolding on_trace_def by blast
  have "?m (w\<lparr>deployedContracts := d, files := fs\<rparr>) =
          map_option (\<lambda>(r, w'). (r, w'\<lparr>files := fs\<rparr>))
            (map_option (\<lambda>(r, w'). (r, w'\<lparr>deployedContracts := d\<rparr>)) (?m w))"
    unfolding b a ..
  also have "\<dots> = map_option (\<lambda>(r, w'). (r, w'\<lparr>deployedContracts := d, files := fs\<rparr>)) (?m w)"
    by (cases "?m w") auto
  finally show "?m (w\<lparr>deployedContracts := d, files := fs\<rparr>) =
       map_option (\<lambda>(r, w'). (r, w'\<lparr>deployedContracts := d, files := fs\<rparr>)) (?m w)" .
next
  assume "recipients_file env = Inr raw \<and> mapPointsToAmounts raw = Inr (recipients, amounts)
        \<and> setClaimRecipients env td w = Some (Inr (), w'')"
  then show "transactions (trace w'') =
        transactions (trace w)
        @ map (\<lambda>i. setRecipients_call td (slice recipients (i * 100) ((i + 1) * 100))
                                           (slice amounts (i * 100) ((i + 1) * 100)))
              [L2_NUM_OF_RECIPIENT_BATCHES_ALREADY_SET env ..< length recipients div 100]
        @ (if L2_NUM_OF_RECIPIENT_BATCHES_ALREADY_SET env \<le> length recipients div 100
              \<and> length recipients mod 100 \<noteq> 0
           then [setRecipients_call td
                   (slice_from recipients (length recipients div 100 * 100))
                   (slice_from amounts (length recipients div 100 * 100))]
           else [])"
    using general_batches[of env raw recipients amounts td w w''] by blast
qed

text \<open>
  With a cursor of 2 written in \<^verbatim>\<open>deployedContracts\<close> and in the file, the run over 250
  recipients still sends all three batches, from batch 0.
\<close>

theorem setClaimRecipients_no_cursor_witness:
  "map_option (\<lambda>(r, w'). (r, transactions (trace w'), deployedContracts w', files w'))
     (setClaimRecipients (env_recipients 250) ''arb:TokenDistributor''
        \<lparr>trace = [], deployedContracts = [(''startBatch'', ''2'')],
         files = [''deployedContracts.json'' \<mapsto> ''startBatch=2;'']\<rparr>)
     = Some (Inr (),
             [setRecipients_call ''arb:TokenDistributor''
                (slice (map fst (many_recipients 250)) 0 100) (replicate 100 (parseEther 3000)),
              setRecipients_call ''arb:TokenDistributor''
                (slice (map fst (many_recipients 250)) 100 200) (replicate 100 (parseEther 3000)),
              setRecipients_call ''arb:TokenDistributor''
                (slice_from (map fst (many_recipients 250)) 200) (replicate 50 (parseEther 3000))],
             [(''startBatch'', ''2'')], [''deployedContracts.json'' \<mapsto> ''startBatch=2;''])"
proof -
  let ?env = "env_recipients 250"
  let ?td = "''arb:TokenDistributor''"
  let ?w = "\<lparr>trace = [], deployedContracts = [(''startBatch'', ''2'')],
             files = [''deployedContracts.json'' \<mapsto> ''startBatch=2;'']\<rparr>"
  let ?rs = "map fst (many_recipients 250)"
  let ?as = "map (\<lambda>(key, points). parseEther (the (spec_amount points))) (many_recipients 250)"
  from example_batches_returns obtain w1 where run: "setClaimRecipients ?env ?td ?w = Some (Inr (), w1)"
    by blast
  note claim = setClaimRecipients_no_cursor
                 [where env = ?env and td = ?td and w = ?w and r = "Inr ()" and w' = w1
                    and w'' = w1 and raw = "many_recipients 250" and recipients = ?rs
                    and amounts = ?as]
  from claim run have kept: "deployedContracts w1 = [(''startBatch'', ''2'')]"
    "files w1 = [''deployedContracts.json'' \<mapsto> ''startBatch=2;'']" by simp_all
  have upt2: "[0..<2] = [0, 1::nat]" by (simp add: upt_rec)
  have len: "length ?rs = 250" by (simp add: many_recipients_def)
  from claim run env_recipients_fields(1)[of 250] many_recipients_mapped[of 250]
  have "transactions (trace w1) =
        transactions (trace ?w)
        @ map (\<lambda>i. setRecipients_call ?td (slice ?rs (i * 100) ((i + 1) * 100))
                                            (slice ?as (i * 100) ((i + 1) * 100)))
              [L2_NUM_OF_RECIPIENT_BATCHES_ALREADY_SET ?env ..< length ?rs div 100]
        @ (if L2_NUM_OF_RECIPIENT_BATCHES_ALREADY_SET ?env \<le> length ?rs div 100
              \<and> length ?rs mod 100 \<noteq> 0
           then [setRecipients_call ?td
                   (slice_from ?rs (length ?rs div 100 * 100))
                   (slice_from ?as (length ?rs div 100 * 100))]
           else [])"
    by blast
  then have tx: "transactions (trace w1) =
           [setRecipients_call ?td (slice ?rs 0 100) (replicate 100 (parseEther 3000)),
            setRecipients_call ?td (slice ?rs 100 200) (replicate 100 (parseEther 3000)),
            setRecipients_call ?td (slice_from ?rs 200) (replicate 50 (parseEther 3000))]"
    unfolding many_amounts env_recipients_fields(2) len
    by (simp add: upt2 slice_def slice_from_def transactions_Nil)
  show ?thesis unfolding run by (simp add: kept tx)
qed


section \<open>The deployment sequence and its store\<close>

text \<open>
  Claim C4, as stated, fails. In the world \<open>resumed\<close> the keys of steps 1 to 8 are in
  \<^verbatim>\<open>deployedContracts\<close> and in the file of the deployed contracts. The run starts with the
  deployment of step 1 all the same and goes through every call of steps 1 to 8 before
  it reaches \<^verbatim>\<open>deployStep2\<close> of step 9.
\<close>

theorem deployGovernance_resume_counterexample:
  "deployGovernance example_env resumed =
     Some
       (Inr (),
        \<lparr>trace =
           [Chain (Deploy Eth ''UpgradeExecutor'' []),
            Chain (Deploy Arb ''ArbitrumTimelock'' []),
            Chain (Deploy Arb ''L2ArbitrumGovernor'' []),
            Chain (Deploy Arb ''FixedDelegateErc20Wallet'' []),
            Chain (Deploy Arb ''L2ArbitrumToken'' []),
            Chain (Deploy Arb ''UpgradeExecutor'' []),
            Chain (Deploy Eth ''L1GovernanceFactory'' []),
            Chain (AwaitDeployed Eth ''eth:L1GovernanceFactory''),
            Chain (Deploy Eth ''L1ArbitrumToken'' []),
            Chain
             (Deploy Eth ''TransparentUpgradeableProxy''
               [Str ''eth:L1ArbitrumToken'', AddressOf Eth, Str ''0x'',
                Struct [(''gasLimit'', Big 3000000)]]),
            Chain (AwaitDeployed Eth ''eth:L1ArbitrumToken/proxy''),
            Chain
             (Deploy Arb ''L2GovernanceFactory''
               [Str ''arb:ArbitrumTimelock'', Str ''arb:L2ArbitrumGovernor'',
                Str ''arb:ArbitrumTimelock'',
                Str ''arb:FixedDelegateErc20Wallet'',
                Str ''arb:L2ArbitrumGovernor'', Str ''arb:L2ArbitrumToken'',
                Str ''arb:UpgradeExecutor'']),
            Chain (Deploy Nova ''ProxyAdmin'' []),
            Chain (AwaitDeployed Nova ''nova:ProxyAdmin''),
            Chain (Deploy Nova ''UpgradeExecutor'' []),
            Chain
             (Deploy Nova ''TransparentUpgradeableProxy''
               [Str ''nova:UpgradeExecutor'', Str ''nova:ProxyAdmin'',
                Str ''0x'']),
            Chain (AwaitDeployed Nova ''nova:UpgradeExecutor/proxy''),
            Chain (Deploy Nova ''L2CustomGatewayToken'' []),
            Chain
             (Deploy Nova ''TransparentUpgradeableProxy''
               [Str ''nova:L2CustomGatewayToken'', Str ''nova:ProxyAdmin'',
                Str ''0x'']),
            Chain (AwaitDeployed Nova ''nova:L2CustomGatewayToken/proxy''),
            Chain
             (Transact Nova ''nova:L2CustomGatewayToken/proxy'' ''initialize''
               [Const ''NOVA_TOKEN_NAME'', Const ''NOVA_TOKEN_SYMBOL'',
                Const ''NOVA_TOKEN_DECIMALS'', Const ''NOVA_TOKEN_GATEWAY'',
                Str ''eth:L1ArbitrumToken/proxy'']
               False),
            Chain
             (Transact Arb ''arb:L2GovernanceFactory'' ''deployStep1''
               [Struct
                 [(''_l2MinTimelockDelay'', Const ''L2_TIMELOCK_DELAY''),
                  (''_l2TokenInitialSupply'',
                   ParseEtherConst ''L2_TOKEN_INITIAL_SUPPLY''),
                  (''_upgradeProposer'',
                   Const ''L2_7_OF_12_SECURITY_COUNCIL''),
                  (''_coreQuorumThreshold'',
                   Const ''L2_CORE_QUORUM_TRESHOLD''),
                  (''_l1Token'', Str ''eth:L1ArbitrumToken/proxy''),
                  (''_treasuryQuorumThreshold'',
                   Const ''L2_TREASURY_QUORUM_TRESHOLD''),
                  (''_proposalThreshold'', Const ''L2_PROPOSAL_TRESHOLD''),
                  (''_votingDelay'', Const ''L2_VOTING_DELAY''),
                  (''_votingPeriod'', Const ''L2_VOTING_PERIOD''),
                  (''_minPeriodAfterQuorum'',
                   Const ''L2_MIN_PERIOD_AFTER_QUORUM''),
                  (''_l2InitialSupplyRecipient'', AddressOf Arb),
                  (''_l2EmergencySecurityCouncil'',
                   Const ''L2_9_OF_12_SECURITY_COUNCIL'')]]
               True),
            Chain
             (Transact Eth ''eth:L1GovernanceFactory'' ''deployStep2''
               [Str ''eth:UpgradeExecutor'', Const ''L1_TIMELOCK_DELAY'',
                Const ''L1_ARB_INBOX'', Str ''0xcoreTimelock'',
                Const ''L1_9_OF_12_SECURITY_COUNCIL'']
               True),
            Chain
             (Transact Arb ''arb:L2GovernanceFactory'' ''deployStep3''
               [Aliased ''0xtimelock''] False),
            Chain
             (Transact Nova ''nova:UpgradeExecutor/proxy'' ''initialize''
               [Str ''nova:UpgradeExecutor/proxy'',
                Array
                 [Aliased ''0xtimelock'',
                  Const ''NOVA_9_OF_12_SECURITY_COUNCIL'']]
               False),
            Chain
             (Transact Nova ''nova:ProxyAdmin'' ''transferOwnership''
               [Str ''nova:UpgradeExecutor/proxy''] False),
            Chain
             (Transact Eth ''eth:L1ArbitrumToken/proxy'' ''changeAdmin''
               [Str ''0xproxyAdmin''] True),
            Chain
             (Transact Eth ''eth:L1ArbitrumToken/proxy'' ''initialize''
               [Const ''L1_ARB_GATEWAY'', Const ''L1_NOVA_ROUTER'',
                Const ''L1_NOVA_GATEWAY'']
               True),
            Chain (Read Nova ''provider'' ''getGasPrice'' []),
            Chain (Read Eth ''eth:L1ArbitrumToken/proxy'' ''novaGateway'' []),
            Chain (Read Eth ''eth:novaGateway'' ''inbox'' []),
            Chain
             (Read Eth ''eth:inbox'' ''calculateRetryableSubmissionFee''
               [CalldataLength ''registerTokenFromL1''
                 [Strs [''eth:L1ArbitrumToken/proxy''],
                  Strs [''nova:L2CustomGatewayToken/proxy'']],
                Big 0]),
            Chain
             (Read Eth ''eth:inbox'' ''calculateRetryableSubmissionFee''
               [CalldataLength ''setGateway''
                 [Strs [''eth:L1ArbitrumToken/proxy''],
                  Strs [''eth:novaGateway'']],
                Big 0]),
            Chain
             (Transact Eth ''eth:L1ArbitrumToken/proxy'' ''registerTokenOnL2''
               [Struct
                 [(''l2TokenAddress'',
                   Str ''nova:L2CustomGatewayToken/proxy''),
                  (''maxSubmissionCostForCustomGateway'', Big 200000000),
                  (''maxSubmissionCostForRouter'', Big 200000000),
                  (''maxGasForCustomGateway'', Big 1000000),
                  (''maxGasForRouter'', Big 1000000),
                  (''gasPriceBid'', Big 200000000),
                  (''valueForGateway'', Big 200000200000000),
                  (''valueForRouter'', Big 200000200000000),
                  (''creditBackAddress'', AddressOf Eth)],
                Struct
                 [(''value'', Big 400000400001000),
                  (''gasLimit'', Big 3000000)]]
               True),
            Chain
             (Read Nova ''l1RegistrationTxReceipt'' ''getL1ToL2Messages'' []),
            Chain (WaitForStatus 0), Chain (WaitForStatus (Suc 0)),
            Chain
             (Transact Arb ''0xtoken'' ''transferOwnership''
               [Str ''0xexecutor''] False),
            Chain
             (Transact Arb ''0xtoken'' ''transfer''
               [Str ''0xarbTreasury'',
                ParseEtherConst ''L2_NUM_OF_TOKENS_FOR_TREASURY'']
               False),
            Chain
             (Deploy Arb ''TokenDistributor''
               [Str ''0xtoken'', Const ''L2_SWEEP_RECECIVER'', AddressOf Arb,
                Const ''L2_CLAIM_PERIOD_START'',
                Const ''L2_CLAIM_PERIOD_END'']),
            Chain (AwaitDeployed Arb ''arb:TokenDistributor''),
            Chain
             (Transact Arb ''0xtoken'' ''transfer''
               [Str ''arb:TokenDistributor'',
                ParseEtherConst ''L2_NUM_OF_TOKENS_FOR_CLAIMING'']
               True),
            Chain (Read Arb ''provider'' ''getGasPrice'' []), Sleep 1000,
            Chain
             (Transact Arb ''arb:TokenDistributor'' ''setRecipients''
               [Strs [''0xa1'', ''0xb2'', ''0xc3''],
                Bigs [parseEther 3000, parseEther 10500, parseEther 12000],
                Struct [(''gasLimit'', Big 30000000)]]
               True),
            Chain
             (Transact Arb ''arb:TokenDistributor'' ''transferOwnership''
               [Str ''0xexecutor''] True),
            WriteFileSync ''deployedContracts.json''
             ''l1UpgradeExecutorLogic=eth:UpgradeExecutor;l2TimelockLogic=arb:ArbitrumTimelock;l2GovernorLogic=arb:L2ArbitrumGovernor;l2FixedDelegateLogic=arb:FixedDelegateErc20Wallet;l2TokenLogic=arb:L2ArbitrumToken;l2UpgradeExecutorLogic=arb:UpgradeExecutor;l1GovernanceFactory=eth:L1GovernanceFactory;l1TokenLogic=eth:L1ArbitrumToken;l1TokenProxy=eth:L1ArbitrumToken/proxy;l2GovernanceFactory=arb:L2GovernanceFactory;novaProxyAdmin=nova:ProxyAdmin;novaUpgradeExecutorLogic=nova:UpgradeExecutor;novaUpgradeExecutorProxy=nova:UpgradeExecutor/proxy;novaTokenLogic=nova:L2CustomGatewayToken;novaTokenProxy=nova:L2CustomGatewayToken/proxy;l2CoreGoverner=0xcoreGoverner;l2CoreTimelock=0xcoreTimelock;l2Executor=0xexecutor;l2ProxyAdmin=0xproxyAdmin;l2Token=0xtoken;l2TreasuryGoverner=0xtreasuryGoverner;l2ArbTreasury=0xarbTreasury;l1Executor=0xexecutor;l1ProxyAdmin=0xproxyAdmin;l1Timelock=0xtimelock;l2TokenDistributor=arb:TokenDistributor;''],
           deployedContracts =
             [(''l1UpgradeExecutorLogic'', ''eth:UpgradeExecutor''),
              (''l2TimelockLogic'', ''arb:ArbitrumTimelock''),
              (''l2GovernorLogic'', ''arb:L2ArbitrumGovernor''),
              (''l2FixedDelegateLogic'', ''arb:FixedDelegateErc20Wallet''),
              (''l2TokenLogic'', ''arb:L2ArbitrumToken''),
              (''l2UpgradeExecutorLogic'', ''arb:UpgradeExecutor''),
              (''l1GovernanceFactory'', ''eth:L1GovernanceFactory''),
              (''l1TokenLogic'', ''eth:L1ArbitrumToken''),
              (''l1TokenProxy'', ''eth:L1ArbitrumToken/proxy''),
              (''l2GovernanceFactory'', ''arb:L2GovernanceFactory''),
              (''novaProxyAdmin'', ''nova:ProxyAdmin''),
              (''novaUpgradeExecutorLogic'', ''nova:UpgradeExecutor''),
              (''novaUpgradeExecutorProxy'', ''nova:UpgradeExecutor/proxy''),
              (''novaTokenLogic'', ''nova:L2CustomGatewayToken''),
              (''novaTokenProxy'', ''nova:L2CustomGatewayToken/proxy''),
              (''l2CoreGoverner'', ''0xcoreGoverner''),
              (''l2CoreTimelock'', ''0xcoreTimelock''),
              (''l2Executor'', ''0xexecutor''),
              (''l2ProxyAdmin'', ''0xproxyAdmin''),
              (''l2Token'', ''0xtoken''),
              (''l2TreasuryGoverner'', ''0xtreasuryGoverner''),
              (''l2ArbTreasury'', ''0xarbTreasury''),
              (''l1Executor'', ''0xexecutor''),
              (''l1ProxyAdmin'', ''0xproxyAdmin''),
              (''l1Timelock'', ''0xtimelock''),
              (''l2TokenDistributor'', ''arb:TokenDistributor'')],
           files =
             store_steps_1_to_8
             (''deployedContracts.json'' \<mapsto>
                ''l1UpgradeExecutorLogic=eth:UpgradeExecutor;l2TimelockLogic=arb:ArbitrumTimelock;l2GovernorLogic=arb:L2ArbitrumGovernor;l2FixedDelegateLogic=arb:FixedDelegateErc20Wallet;l2TokenLogic=arb:L2ArbitrumToken;l2UpgradeExecutorLogic=arb:UpgradeExecutor;l1GovernanceFactory=eth:L1GovernanceFactory;l1TokenLogic=eth:L1ArbitrumToken;l1TokenProxy=eth:L1ArbitrumToken/proxy;l2GovernanceFactory=arb:L2GovernanceFactory;novaProxyAdmin=nova:ProxyAdmin;novaUpgradeExecutorLogic=nova:UpgradeExecutor;novaUpgradeExecutorProxy=nova:UpgradeExecutor/proxy;novaTokenLogic=nova:L2CustomGatewayToken;novaTokenProxy=nova:L2CustomGatewayToken/proxy;l2CoreGoverner=0xcoreGoverner;l2CoreTimelock=0xcoreTimelock;l2Executor=0xexecutor;l2ProxyAdmin=0xproxyAdmin;l2Token=0xtoken;l2TreasuryGoverner=0xtreasuryGoverner;l2ArbTreasury=0xarbTreasury;l1Executor=0xexecutor;l1ProxyAdmin=0xproxyAdmin;l1Timelock=0xtimelock;l2TokenDistributor=arb:TokenDistributor;'')\<rparr>)"
  unfolding example_env_def
  by (simp add: deployGovernance_def steps step13 bindM_def thenM_def liftE_def
      env_reverting_def[of "[]", THEN arg_cong, of getDeployers_result, simplified]
      env_reverting_def[of "[]", THEN arg_cong, of JSON_stringify, simplified]
      writeAddresses_def writeFileSync_def writeFileSync_interrupted_def
      DEPLOYED_CONTRACTS_FILE_NAME_def resumed_def steps_1_to_8_def example_receipt_def Let_def)


lemma example_env_getDeployers: "getDeployers_result (env_reverting m) = Inr ()"
  by (simp add: env_reverting_def)

text \<open>
  Claim C4, amended. No step is gated by the store. What a run returns, the calls it makes
  and the addresses it records are the same whatever the files hold, and once the deployers
  are there every run begins with the deployment of step 1, whatever \<^verbatim>\<open>deployedContracts\<close> and
  the files hold.
\<close>

theorem deployGovernance_no_gating:
  "map_option (\<lambda>(r, w'). (r, trace w', deployedContracts w'))
     (deployGovernance env (w\<lparr>files := fs\<rparr>))
     = map_option (\<lambda>(r, w'). (r, trace w', deployedContracts w')) (deployGovernance env w)
   \<and> (getDeployers_result env = Inr () \<and> deployGovernance env w = Some (r, w') \<longrightarrow>
        (\<exists>evs. trace w' = trace w @ Chain (Deploy Eth ''UpgradeExecutor'' []) # evs))"
proof (intro conjI impI)
  show "map_option (\<lambda>(r, w'). (r, trace w', deployedContracts w'))
     (deployGovernance env (w\<lparr>files := fs\<rparr>))
     = map_option (\<lambda>(r, w'). (r, trace w', deployedContracts w')) (deployGovernance env w)"
    using ends_with_write_deployGovernance[of env] unfolding ends_with_write_def by blast
next
  assume a: "getDeployers_result env = Inr () \<and> deployGovernance env w = Some (r, w')"
  then have "first_event (Chain (Deploy Eth ''UpgradeExecutor'' [])) (deployGovernance env)"
    by (intro deployGovernance_first) simp
  with a show "\<exists>evs. trace w' = trace w @ Chain (Deploy Eth ''UpgradeExecutor'' []) # evs"
    unfolding first_event_def by blast
qed

theorem deployGovernance_no_gating_witness:
  "map_option (\<lambda>(r, w'). (r, trace w', deployedContracts w'))
     (deployGovernance example_env (fresh store_steps_1_to_8))
     = map_option (\<lambda>(r, w'). (r, trace w', deployedContracts w'))
         (deployGovernance example_env (fresh Map.empty))
   \<and> map_option (\<lambda>(r, w'). (r, hd (trace w')))
       (deployGovernance example_env (fresh store_steps_1_to_8))
     = Some (Inr (), Chain (Deploy Eth ''UpgradeExecutor'' []))"
proof (intro conjI)
  have "(fresh Map.empty)\<lparr>files := store_steps_1_to_8\<rparr> = fresh store_steps_1_to_8"
    by (simp add: fresh_def)
  with deployGovernance_no_gating[where env = example_env and w = "fresh Map.empty"
         and fs = store_steps_1_to_8]
  show "map_option (\<lambda>(r, w'). (r, trace w', deployedContracts w'))
     (deployGovernance example_env (fresh store_steps_1_to_8))
     = map_option (\<lambda>(r, w'). (r, trace w', deployedContracts w'))
         (deployGovernance example_env (fresh Map.empty))"
    by simp
next
  from example_run[of store_steps_1_to_8] obtain w' where
    run: "deployGovernance example_env (fresh store_steps_1_to_8) = Some (Inr (), w')" by blast
  have "getDeployers_result example_env = Inr ()"
    unfolding example_env_def by (rule example_env_getDeployers)
  with deployGovernance_no_gating[where env = example_env and w = "fresh store_steps_1_to_8"
         and r = "Inr ()" and w' = w'] run
  obtain evs where "trace w' = trace (fresh store_steps_1_to_8)
                      @ Chain (Deploy Eth ''UpgradeExecutor'' []) # evs" by blast
  then have "hd (trace w') = Chain (Deploy Eth ''UpgradeExecutor'' [])"
    by (simp add: fresh_def)
  then show "map_option (\<lambda>(r, w'). (r, hd (trace w')))
       (deployGovernance example_env (fresh store_steps_1_to_8))
     = Some (Inr (), Chain (Deploy Eth ''UpgradeExecutor'' []))"
    unfolding run by simp
qed

text \<open>
  Claim C5, as stated, fails. When \<^verbatim>\<open>deployStep2\<close> of step 9 reverts, steps 1 to 8 have
  been confirmed and their addresses are in \<^verbatim>\<open>deployedContracts\<close>, but the run has written
  no file: the disk holds nothing of the eight steps.
\<close>

theorem deployGovernance_persist_counterexample:
  "map_option (\<lambda>(r, w'). (r, deployedContracts w', writes (trace w'), files w'))
     (deployGovernance (env_reverting ''deployStep2'') (fresh Map.empty))
     = Some (Inl (Error [Lit ''reverted'']), steps_1_to_8, [], Map.empty)"
  unfolding failing_run[of Map.empty]
  by (simp add: steps_1_to_8_def writes_def)

text \<open>
  Claim C5, amended. The steps record their addresses in \<^verbatim>\<open>deployedContracts\<close>, in memory.
  The file is written once, by \<open>writeAddresses\<close> after the last step: a run that returns
  has put the serialised \<^verbatim>\<open>deployedContracts\<close> in the file of the deployed contracts and has
  changed no other file, and a run that throws, at whatever step, has left the files as
  they were.
\<close>

theorem deployGovernance_writes_at_end:
  "deployGovernance env w = Some (r, w') \<longrightarrow>
     (case r of
        Inl e \<Rightarrow> files w' = files w
      | Inr u \<Rightarrow> files w' = (files w)(DEPLOYED_CONTRACTS_FILE_NAME \<mapsto>
                                         JSON_stringify env (deployedContracts w')))"
  using ends_with_write_deployGovernance[of env] unfolding ends_with_write_def by blast

theorem deployGovernance_writes_at_end_witness:
  "\<exists>w1 w2.
      deployGovernance (env_reverting ''deployStep2'') (fresh Map.empty)
        = Some (Inl (Error [Lit ''reverted'']), w1)
      \<and> deployedContracts w1 = steps_1_to_8
      \<and> files w1 = Map.empty
      \<and> deployGovernance example_env (fresh Map.empty) = Some (Inr (), w2)
      \<and> files w2 = [DEPLOYED_CONTRACTS_FILE_NAME \<mapsto>
                      JSON_stringify example_env (deployedContracts w2)]"
proof -
  from failing_run[of Map.empty] obtain w1 where
    run1: "deployGovernance (env_reverting ''deployStep2'') (fresh Map.empty)
             = Some (Inl (Error [Lit ''reverted'']), w1)"
    and d1: "deployedContracts w1 = steps_1_to_8"
    by (simp add: steps_1_to_8_def)
  from example_run[of Map.empty] obtain w2 where
    run2: "deployGovernance example_env (fresh Map.empty) = Some (Inr (), w2)" by blast
  from deployGovernance_writes_at_end
         [of "env_reverting ''deployStep2''" "fresh Map.empty" "Inl (Error [Lit ''reverted''])" w1]
       run1
  have f1: "files w1 = Map.empty" by (simp add: fresh_def)
  from deployGovernance_writes_at_end[of example_env "fresh Map.empty" "Inr ()" w2] run2
  have f2: "files w2 = [DEPLOYED_CONTRACTS_FILE_NAME \<mapsto>
                         JSON_stringify example_env (deployedContracts w2)]"
    by (simp add: fresh_def)
  from run1 d1 f1 run2 f2 show ?thesis by blast
qed

end
